theory Spec2Isabelle
  imports Main "HOL-Library.AList" "HOL-Library.Word"
begin

section \<open>Data\<close>

text \<open>
  Plain JavaScript data as the builder handles it: what \<^verbatim>\<open>readJsonAsync\<close> and
  \<^verbatim>\<open>plist.parse\<close> return. An object is an association list, in the order that
  \<^verbatim>\<open>for ... in\<close> enumerates its own keys.
\<close>

datatype json =
    JNull
  | JBool bool
  | JNum int
  | JStr string
  | JArr "json list"
  | JObj "(string \<times> json) list"

type_synonym jsobject = "(string \<times> json) list"

type_synonym byte = "8 word"

datatype encoding = Utf8 | Ucs2

text \<open>
  What \<^verbatim>\<open>writeFileAsync\<close> is given: a string, which Node writes as UTF-8, or a
  \<^verbatim>\<open>Buffer\<close>, written byte for byte.
\<close>

datatype content = Text string | Raw "byte list"

text \<open>
  \<^verbatim>\<open>BuildConfig\<close> is declared in \<^verbatim>\<open>./config\<close>; the fields below are the ones
  \<^verbatim>\<open>Builder.ts\<close> reads.
\<close>

record version_strings =
  ProductName :: string
  CompanyName :: string
  FileDescription :: string
  LegalCopyright :: string

record win_config =
  productVersion :: string
  fileVersion :: string
  versionStrings :: version_strings
  win_icon :: "string option"

record mac_config =
  mac_name :: string
  mac_displayName :: string
  mac_version :: string
  mac_description :: string
  mac_copyright :: string
  mac_icon :: "string option"

record nsis_config =
  nsis_icon :: "string option"
  nsis_unIcon :: "string option"
  nsis_languages :: "string list"
  diffUpdaters :: bool

record config =
  appId :: string
  files :: "string list"
  excludes :: "string list"
  config_output :: string
  packed :: bool
  targets :: "string list"
  nwVersion :: string
  nwFlavor :: string
  ffmpegIntegration :: bool
  strippedProperties :: "string list"
  config_win :: win_config
  config_mac :: mac_config
  config_nsis :: nsis_config

text \<open>The resource table handed to \<^verbatim>\<open>rcedit\<close> in \<^verbatim>\<open>updateWinResources\<close>.\<close>

record rc_options =
  rc_product_version :: string
  rc_file_version :: string
  rc_version_string :: version_strings
  rc_icon :: "string option"

text \<open>
  The option object shared by \<^verbatim>\<open>NsisComposer\<close>, \<^verbatim>\<open>NsisDiffer\<close> and
  \<^verbatim>\<open>Nsis7Zipper\<close>.
\<close>

record script_options =
  so_appName :: string
  so_companyName :: string
  so_description :: string
  so_version :: string
  so_copyright :: string
  so_icon :: "string option"
  so_unIcon :: "string option"
  so_compression :: string
  so_solid :: bool
  so_languages :: "string list"
  so_output :: string

text \<open>
  The options of \<^verbatim>\<open>Downloader\<close> and \<^verbatim>\<open>FFmpegDownloader\<close>, as
  \<^verbatim>\<open>buildTask\<close> and \<^verbatim>\<open>integrateFFmpeg\<close> fill them.
\<close>

record download_options =
  dl_platform :: string
  dl_arch :: string
  dl_version :: string
  dl_flavor :: "string option"
  dl_mirror :: "string option"
  dl_useCaches :: bool
  dl_showProgress :: bool

text \<open>
  One entry of the version ledger \<^verbatim>\<open>versions.nsis.json\<close>: the version, the source
  directory, installers by architecture, updaters by (from-version, architecture).
\<close>

record ledger_entry =
  le_version :: string
  le_source :: string
  le_installers :: "(string \<times> string) list"
  le_updaters :: "((string \<times> string) \<times> string) list"

type_synonym ledger = "ledger_entry list"

section \<open>Effects\<close>

text \<open>
  Every call that leaves the two source files (a subprocess, the file system, a
  collaborator of the repository) is an event. A run is the list of events it issued, oldest
  first. What the outside world answers is a parameter \<open>env\<close>: the answer may depend on
  everything that happened before.
\<close>

datatype event =
    Spawn7za "string list" "string option"
  | TmpFile
  | TmpName
  | WriteFile string content
  | ReadFile string "encoding option"
  | ReadJson string
  | RemovePath string
  | RenamePath string string
  | CopyPath string string
  | CopyFile string string
  | EmptyDir string
  | EnsureDir string
  | AppendFile string string
  | Globby "string list" string "string list"
  | Rcedit string rc_options
  | FindExcludableDependencies string jsobject
  | FindExecutable string string
  | FindFFmpeg string string
  | FindRuntimeRoot string string
  | FetchRuntime download_options
  | FetchFFmpeg download_options
  | NsisComposerMake script_options
  | NsisDifferMake string string script_options
  | Nsis7ZipperMake string script_options
  | NsisBuild string string bool
  | LoadLedger string
  | SaveLedger string ledger

datatype answer =
    Failed
  | Done
  | ExitCode int
  | Str string
  | Strs "string list"
  | Bytes "byte list"
  | Document jsobject
  | Ledger ledger

datatype error =
    ERROR_NO_TASK
  | ERROR_UNKNOWN_PLATFORM
  | ERROR_UNKNOWN_TARGET
  | ERROR_UNKNOWN_EXTENSION
  | ERROR_PATH_NOT_FOUND string
  | ERROR_EXIT_CODE int
  | ERROR_INVALID_VERSION string
  | ERROR_PLIST_PARSE
  | ERROR_VERSION_NOT_FOUND string
  | TypeError string
  | ExternalFailure event

type_synonym env = "event list \<Rightarrow> event \<Rightarrow> answer"

type_synonym 'a io = "event list \<Rightarrow> (error + 'a) \<times> event list"

definition ret :: "'a \<Rightarrow> 'a io" where
  "ret x tr = (Inr x, tr)"

definition throw :: "error \<Rightarrow> 'a io" where
  "throw e tr = (Inl e, tr)"

text \<open>\<^verbatim>\<open>await m; f\<close>: a rejected promise ends the function.\<close>

definition bind_io :: "'a io \<Rightarrow> ('a \<Rightarrow> 'b io) \<Rightarrow> 'b io" where
  "bind_io m f tr = (case m tr of (Inl e, tr') \<Rightarrow> (Inl e, tr') | (Inr x, tr') \<Rightarrow> f x tr')"

definition call :: "env \<Rightarrow> event \<Rightarrow> answer io" where
  "call env ev tr =
     (case env tr ev of
        Failed \<Rightarrow> (Inl (ExternalFailure ev), tr @ [ev])
      | a \<Rightarrow> (Inr a, tr @ [ev]))"

definition call_unit :: "env \<Rightarrow> event \<Rightarrow> unit io" where
  "call_unit env ev = bind_io (call env ev) (\<lambda>_. ret ())"

definition call_string :: "env \<Rightarrow> event \<Rightarrow> string io" where
  "call_string env ev =
     bind_io (call env ev) (\<lambda>a. case a of Str p \<Rightarrow> ret p | _ \<Rightarrow> throw (ExternalFailure ev))"

definition call_strings :: "env \<Rightarrow> event \<Rightarrow> string list io" where
  "call_strings env ev =
     bind_io (call env ev) (\<lambda>a. case a of Strs ps \<Rightarrow> ret ps | _ \<Rightarrow> throw (ExternalFailure ev))"

definition spawnAsync :: "env \<Rightarrow> string list \<Rightarrow> string option \<Rightarrow> int io" where
  "spawnAsync env args cwd =
     bind_io (call env (Spawn7za args cwd))
       (\<lambda>a. case a of ExitCode c \<Rightarrow> ret c | _ \<Rightarrow> throw (ExternalFailure (Spawn7za args cwd)))"

definition removeAsync :: "env \<Rightarrow> string \<Rightarrow> unit io" where
  "removeAsync env p = call_unit env (RemovePath p)"

definition writeFileAsync :: "env \<Rightarrow> string \<Rightarrow> content \<Rightarrow> unit io" where
  "writeFileAsync env p c = call_unit env (WriteFile p c)"

definition tmpFile :: "env \<Rightarrow> string io" where
  "tmpFile env = call_string env TmpFile"

definition tmpName :: "env \<Rightarrow> string io" where
  "tmpName env = call_string env TmpName"

section \<open>Pure library functions\<close>

text \<open>
  Functions of Node's \<^verbatim>\<open>path\<close> module and of the other libraries the two files call
  without side effect, as parameters: \<^verbatim>\<open>path.resolve\<close>, \<^verbatim>\<open>dirname\<close>, \<^verbatim>\<open>basename\<close>,
  \<^verbatim>\<open>join\<close>, \<^verbatim>\<open>normalize\<close>; \<^verbatim>\<open>Downloader.DEFAULT_OPTIONS.mirror\<close>; the constructor
  \<^verbatim>\<open>new BuildConfig(pkg)\<close>; \<^verbatim>\<open>fixWindowsVersion\<close>; \<^verbatim>\<open>JSON.stringify\<close>;
  \<^verbatim>\<open>plist.parse\<close> (\<open>None\<close> when it throws) and \<^verbatim>\<open>plist.build\<close>;
  \<^verbatim>\<open>Buffer.toString(encoding)\<close> and \<^verbatim>\<open>Buffer.from(string, encoding)\<close>; the global
  replacement of \<^verbatim>\<open>/([A-Za-z]+)\s+=\s+"(.+?)";/g\<close> by a function of the two groups; the
  parser of the \<^verbatim>\<open>semver\<close> package (\<open>None\<close> for an invalid version); and the matcher
  of \<^verbatim>\<open>globby\<close>, \<open>glob_match pattern path\<close>.
\<close>

datatype ident = NumId nat | AlnumId string

record semver =
  sv_major :: nat
  sv_minor :: nat
  sv_patch :: nat
  sv_prerelease :: "ident list"

record lib =
  path_resolve :: "string list \<Rightarrow> string"
  path_dirname :: "string \<Rightarrow> string"
  path_basename :: "string \<Rightarrow> string"
  path_join :: "string list \<Rightarrow> string"
  path_normalize :: "string \<Rightarrow> string"
  default_mirror :: string
  mk_config :: "jsobject \<Rightarrow> config"
  fixWindowsVersion :: "string \<Rightarrow> string"
  json_stringify :: "json \<Rightarrow> string"
  plist_parse :: "string \<Rightarrow> jsobject option"
  plist_build :: "jsobject \<Rightarrow> string"
  decode :: "encoding \<Rightarrow> byte list \<Rightarrow> string"
  encode :: "encoding \<Rightarrow> string \<Rightarrow> byte list"
  replace_entries :: "(string \<Rightarrow> string \<Rightarrow> string) \<Rightarrow> string \<Rightarrow> string"
  semver_parse :: "string \<Rightarrow> semver option"
  glob_match :: "string \<Rightarrow> string \<Rightarrow> bool"

text \<open>\<^verbatim>\<open>String.prototype.endsWith\<close> and \<^verbatim>\<open>s.slice(0, -n)\<close>.\<close>

definition endsWith :: "string \<Rightarrow> string \<Rightarrow> bool" where
  "endsWith s suffix =
     (length suffix \<le> length s \<and> drop (length s - length suffix) s = suffix)"

definition slice_to_minus :: "nat \<Rightarrow> string \<Rightarrow> string" where
  "slice_to_minus n s = take (length s - n) s"

text \<open>\<^verbatim>\<open>Array.prototype.join\<close>.\<close>

fun js_join :: "string \<Rightarrow> string list \<Rightarrow> string" where
  "js_join sep [] = []"
| "js_join sep [x] = x"
| "js_join sep (x # y # ys) = x @ sep @ js_join sep (y # ys)"

section \<open>archive.ts\<close>

text \<open>
  \<^verbatim>\<open>extract(archive, dest = dirname(archive), options = { overwrite: false })\<close>. An
  argument the caller leaves out is \<open>None\<close> and takes its default.
\<close>

definition default_dest :: "lib \<Rightarrow> string \<Rightarrow> string option \<Rightarrow> string" where
  "default_dest lib archive dest = (case dest of None \<Rightarrow> path_dirname lib archive | Some d \<Rightarrow> d)"

definition default_overwrite :: "bool option \<Rightarrow> bool" where
  "default_overwrite options = (case options of None \<Rightarrow> False | Some b \<Rightarrow> b)"

definition extract_args :: "lib \<Rightarrow> string \<Rightarrow> string \<Rightarrow> bool \<Rightarrow> string list" where
  "extract_args lib archive dest overwrite =
     [''x'', ''-y'', ''-ao'' @ (if overwrite then ''a'' else ''s''),
      ''-o'' @ path_resolve lib [dest], path_resolve lib [archive]]"

definition extract_archive ::
  "lib \<Rightarrow> env \<Rightarrow> string \<Rightarrow> string option \<Rightarrow> bool option \<Rightarrow> string io" where
  "extract_archive lib env archive dest options =
     (let dest = default_dest lib archive dest;
          overwrite = default_overwrite options
      in bind_io (spawnAsync env (extract_args lib archive dest overwrite) None)
           (\<lambda>code.
              if code = 2 then throw (ERROR_PATH_NOT_FOUND archive)
              else if code \<noteq> 0 then throw (ERROR_EXIT_CODE code)
              else ret dest))"

definition tar_of :: "lib \<Rightarrow> string \<Rightarrow> string \<Rightarrow> string" where
  "tar_of lib archive dest = path_join lib [dest, path_basename lib (slice_to_minus 3 archive)]"

definition extractTarGz ::
  "lib \<Rightarrow> env \<Rightarrow> string \<Rightarrow> string option \<Rightarrow> bool option \<Rightarrow> string io" where
  "extractTarGz lib env archive dest options =
     (let dest = default_dest lib archive dest
      in bind_io (extract_archive lib env archive (Some dest) None) (\<lambda>_.
           let tar = tar_of lib archive dest
           in bind_io (extract_archive lib env tar (Some dest) None) (\<lambda>_.
                bind_io (removeAsync env tar) (\<lambda>_.
                  ret dest))))"

definition extractGeneric ::
  "lib \<Rightarrow> env \<Rightarrow> string \<Rightarrow> string option \<Rightarrow> bool option \<Rightarrow> string io" where
  "extractGeneric lib env archive dest options =
     (let dest = default_dest lib archive dest;
          options = default_overwrite options
      in if endsWith archive ''.zip'' then
           bind_io (extract_archive lib env archive (Some dest) (Some options)) (\<lambda>_. ret dest)
         else if endsWith archive ''tar.gz'' then
           bind_io (extractTarGz lib env archive (Some dest) (Some options)) (\<lambda>_. ret dest)
         else throw ERROR_UNKNOWN_EXTENSION)"

definition crlf :: string where
  "crlf = [CHR 0x0D, CHR 0x0A]"

definition compress_args :: "lib \<Rightarrow> string \<Rightarrow> string \<Rightarrow> string \<Rightarrow> string list" where
  "compress_args lib type archive listfiles =
     [''a'', ''-t'' @ type, path_resolve lib [archive], ''@'' @ path_resolve lib [listfiles]]"

definition compress :: "lib \<Rightarrow> env \<Rightarrow> string \<Rightarrow> string list \<Rightarrow> string \<Rightarrow> string \<Rightarrow> int io" where
  "compress lib env dir fs type archive =
     bind_io (tmpFile env) (\<lambda>listfiles.
       bind_io (writeFileAsync env listfiles
                  (Text (js_join crlf (map (path_normalize lib) fs)))) (\<lambda>_.
         bind_io (spawnAsync env (compress_args lib type archive listfiles) (Some dir)) (\<lambda>code.
           ret code)))"

section \<open>Builder.ts: options and the task matrix\<close>

text \<open>\<^verbatim>\<open>IBuilderOptions\<close>: every field is optional; \<open>None\<close> is \<^verbatim>\<open>undefined\<close>.\<close>

record builder_options =
  win :: "bool option"
  mac :: "bool option"
  linux :: "bool option"
  x86 :: "bool option"
  x64 :: "bool option"
  chromeApp :: "bool option"
  mirror :: "string option"
  concurrent :: "bool option"
  mute :: "bool option"

record builder =
  options :: builder_options
  dir :: string

definition DEFAULT_OPTIONS :: "lib \<Rightarrow> builder_options" where
  "DEFAULT_OPTIONS lib =
     \<lparr> win = Some False, mac = Some False, linux = Some False,
       x86 = Some False, x64 = Some False, chromeApp = Some False,
       mirror = Some (default_mirror lib), concurrent = Some False, mute = Some True \<rparr>"

definition or_default :: "'a option \<Rightarrow> 'a option \<Rightarrow> 'a option" where
  "or_default given dflt = (case given of None \<Rightarrow> dflt | Some v \<Rightarrow> Some v)"

text \<open>
  Modelled from the spec: \<^verbatim>\<open>mergeOptions\<close> is defined in \<^verbatim>\<open>./util\<close>, outside the
  two source files. The spec (section 6) lists the fields of the configuration the entry
  point accepts; the constructor merges the caller's object over
  \<^verbatim>\<open>DEFAULT_OPTIONS\<close>, so a field the caller leaves undefined takes its default and
  no other field is carried over.
\<close>

definition mergeOptions :: "builder_options \<Rightarrow> builder_options \<Rightarrow> builder_options" where
  "mergeOptions defaults opts =
     \<lparr> win = or_default (win opts) (win defaults),
       mac = or_default (mac opts) (mac defaults),
       linux = or_default (linux opts) (linux defaults),
       x86 = or_default (x86 opts) (x86 defaults),
       x64 = or_default (x64 opts) (x64 defaults),
       chromeApp = or_default (chromeApp opts) (chromeApp defaults),
       mirror = or_default (mirror opts) (mirror defaults),
       concurrent = or_default (concurrent opts) (concurrent defaults),
       mute = or_default (mute opts) (mute defaults) \<rparr>"

text \<open>\<^verbatim>\<open>new Builder(options, dir)\<close>.\<close>

definition Builder :: "lib \<Rightarrow> builder_options \<Rightarrow> string \<Rightarrow> builder" where
  "Builder lib opts d = \<lparr> options = mergeOptions (DEFAULT_OPTIONS lib) opts, dir = d \<rparr>"

text \<open>A flag counts when it is truthy: \<^verbatim>\<open>if(options[key])\<close>.\<close>

definition truthy :: "bool option \<Rightarrow> bool" where
  "truthy b = (b = Some True)"

text \<open>\<^verbatim>\<open>(<any>this.options)[key]\<close> and \<^verbatim>\<open>options[key] = v\<close> for the flag keys.\<close>

definition get_flag :: "builder_options \<Rightarrow> string \<Rightarrow> bool option" where
  "get_flag opts key =
     (if key = ''win'' then win opts
      else if key = ''mac'' then mac opts
      else if key = ''linux'' then linux opts
      else if key = ''x86'' then x86 opts
      else if key = ''x64'' then x64 opts
      else None)"

definition set_flag :: "string \<Rightarrow> bool \<Rightarrow> builder_options \<Rightarrow> builder_options" where
  "set_flag key v opts =
     (if key = ''win'' then opts\<lparr>win := Some v\<rparr>
      else if key = ''mac'' then opts\<lparr>mac := Some v\<rparr>
      else if key = ''linux'' then opts\<lparr>linux := Some v\<rparr>
      else if key = ''x86'' then opts\<lparr>x86 := Some v\<rparr>
      else if key = ''x64'' then opts\<lparr>x64 := Some v\<rparr>
      else opts)"

definition platforms :: "string list" where
  "platforms = [''win'', ''mac'', ''linux'']"

definition archs :: "string list" where
  "archs = [''x86'', ''x64'']"

text \<open>
  The two nested \<^verbatim>\<open>map\<close> calls of \<^verbatim>\<open>build\<close>, pushing onto \<^verbatim>\<open>tasks\<close>.
\<close>

definition task_matrix :: "builder_options \<Rightarrow> (string \<times> string) list" where
  "task_matrix opts =
     foldl (\<lambda>tasks platform.
        foldl (\<lambda>tasks arch.
           if truthy (get_flag opts platform) \<and> truthy (get_flag opts arch)
           then tasks @ [(platform, arch)] else tasks) tasks archs) [] platforms"

text \<open>The options object built for one task in the concurrent branch.\<close>

definition no_options :: builder_options where
  "no_options =
     \<lparr> win = None, mac = None, linux = None, x86 = None, x64 = None, chromeApp = None,
       mirror = None, concurrent = None, mute = None \<rparr>"

definition sub_options :: "builder \<Rightarrow> string \<Rightarrow> string \<Rightarrow> builder_options" where
  "sub_options b platform arch =
     (set_flag arch True (set_flag platform True no_options))
       \<lparr> mirror := mirror (options b), concurrent := Some False, mute := Some True \<rparr>"

definition manifest_name :: "builder_options \<Rightarrow> string" where
  "manifest_name opts = (if truthy (chromeApp opts) then ''manifest.json'' else ''package.json'')"

section \<open>Builder.ts: helpers\<close>

definition readFileAsync :: "env \<Rightarrow> string \<Rightarrow> encoding option \<Rightarrow> byte list io" where
  "readFileAsync env p enc =
     bind_io (call env (ReadFile p enc))
       (\<lambda>a. case a of Bytes bs \<Rightarrow> ret bs | _ \<Rightarrow> throw (ExternalFailure (ReadFile p enc)))"

definition readJsonAsync :: "env \<Rightarrow> string \<Rightarrow> jsobject io" where
  "readJsonAsync env p =
     bind_io (call env (ReadJson p))
       (\<lambda>a. case a of Document d \<Rightarrow> ret d | _ \<Rightarrow> throw (ExternalFailure (ReadJson p)))"

definition renameAsync :: "env \<Rightarrow> string \<Rightarrow> string \<Rightarrow> unit io" where
  "renameAsync env src dest = call_unit env (RenamePath src dest)"

definition copyAsync :: "env \<Rightarrow> string \<Rightarrow> string \<Rightarrow> unit io" where
  "copyAsync env src dest = call_unit env (CopyPath src dest)"

definition copyFileAsync :: "env \<Rightarrow> string \<Rightarrow> string \<Rightarrow> unit io" where
  "copyFileAsync env src dest = call_unit env (CopyFile src dest)"

text \<open>
  \<^verbatim>\<open>globby(patterns, { cwd, ignore })\<close>, an external library: the environment answers
  with the paths under \<open>cwd\<close> that the patterns match, and the \<^verbatim>\<open>ignore\<close> option
  drops every path that one of the ignore patterns matches.
\<close>

definition globby :: "lib \<Rightarrow> env \<Rightarrow> string list \<Rightarrow> string \<Rightarrow> string list \<Rightarrow> string list io" where
  "globby lib env patterns cwd ignore =
     bind_io (call_strings env (Globby patterns cwd ignore)) (\<lambda>found.
       ret (filter (\<lambda>f. \<not> list_ex (\<lambda>p. glob_match lib p f) ignore) found))"

text \<open>
  \<^verbatim>\<open>pkg.name\<close> and \<^verbatim>\<open>pkg.version\<close> inside a template literal. A manifest holds
  strings there; a missing field prints as \<^verbatim>\<open>undefined\<close>.
\<close>

definition pkg_field :: "jsobject \<Rightarrow> string \<Rightarrow> string" where
  "pkg_field pkg key = (case map_of pkg key of Some (JStr s) \<Rightarrow> s | _ \<Rightarrow> ''undefined'')"

text \<open>\<^verbatim>\<open>x ? ... : undefined\<close> on an optional string: the empty string is falsy too.\<close>

definition given :: "string option \<Rightarrow> bool" where
  "given s = (case s of None \<Rightarrow> False | Some v \<Rightarrow> v \<noteq> [])"

text \<open>\<^verbatim>\<open>Array.prototype.indexOf\<close> and \<^verbatim>\<open>Buffer.indexOf\<close>: the first index, or -1.\<close>

fun indexOf :: "'a list \<Rightarrow> 'a \<Rightarrow> int" where
  "indexOf [] x = -1"
| "indexOf (y # ys) x =
     (if y = x then 0 else (let i = indexOf ys x in if i = -1 then -1 else i + 1))"

fun buffer_indexOf :: "byte list \<Rightarrow> byte list \<Rightarrow> int" where
  "buffer_indexOf [] sub = (if sub = [] then 0 else -1)"
| "buffer_indexOf (x # xs) sub =
     (if take (length sub) (x # xs) = sub then 0
      else (let i = buffer_indexOf xs sub in if i = -1 then -1 else i + 1))"

definition quote :: string where
  "quote = [CHR 0x22]"

section \<open>Builder.ts: platform steps\<close>

definition combineExecutable :: "env \<Rightarrow> string \<Rightarrow> string \<Rightarrow> unit io" where
  "combineExecutable env executable nwFile = call_unit env (AppendFile executable nwFile)"

definition readPlist :: "lib \<Rightarrow> env \<Rightarrow> string \<Rightarrow> jsobject io" where
  "readPlist lib env p =
     bind_io (readFileAsync env p (Some Utf8)) (\<lambda>data.
       case plist_parse lib (decode lib Utf8 data) of
         None \<Rightarrow> throw ERROR_PLIST_PARSE
       | Some doc \<Rightarrow> ret doc)"

definition writePlist :: "lib \<Rightarrow> env \<Rightarrow> string \<Rightarrow> jsobject \<Rightarrow> unit io" where
  "writePlist lib env p doc = writeFileAsync env p (Text (plist_build lib doc))"

definition updateWinResources ::
  "lib \<Rightarrow> env \<Rightarrow> builder \<Rightarrow> string \<Rightarrow> config \<Rightarrow> unit io" where
  "updateWinResources lib env b targetDir cfg =
     (let p = path_resolve lib [targetDir, ''nw.exe''];
          rc = \<lparr> rc_product_version = fixWindowsVersion lib (productVersion (config_win cfg)),
                 rc_file_version = fixWindowsVersion lib (fileVersion (config_win cfg)),
                 rc_version_string = versionStrings (config_win cfg),
                 rc_icon = (if given (win_icon (config_win cfg))
                            then Some (path_resolve lib [dir b, the (win_icon (config_win cfg))])
                            else None) \<rparr>
      in call_unit env (Rcedit p rc))"

definition renameWinApp :: "lib \<Rightarrow> env \<Rightarrow> string \<Rightarrow> config \<Rightarrow> unit io" where
  "renameWinApp lib env targetDir cfg =
     (let src = path_resolve lib [targetDir, ''nw.exe''];
          dest = path_resolve lib
                   [targetDir, ProductName (versionStrings (config_win cfg)) @ ''.exe'']
      in renameAsync env src dest)"

definition plist_path :: "lib \<Rightarrow> string \<Rightarrow> string" where
  "plist_path lib targetDir = path_resolve lib [targetDir, ''./nwjs.app/Contents/Info.plist'']"

text \<open>The five assignments of \<^verbatim>\<open>updatePlist\<close> on the parsed object.\<close>

definition set_bundle_fields :: "config \<Rightarrow> jsobject \<Rightarrow> jsobject" where
  "set_bundle_fields cfg doc =
     (let doc = AList.update ''CFBundleIdentifier'' (JStr (appId cfg)) doc;
          doc = AList.update ''CFBundleName'' (JStr (mac_name (config_mac cfg))) doc;
          doc = AList.update ''CFBundleDisplayName'' (JStr (mac_displayName (config_mac cfg))) doc;
          doc = AList.update ''CFBundleVersion'' (JStr (mac_version (config_mac cfg))) doc;
          doc = AList.update ''CFBundleShortVersionString'' (JStr (mac_version (config_mac cfg))) doc
      in doc)"

definition updatePlist :: "lib \<Rightarrow> env \<Rightarrow> string \<Rightarrow> config \<Rightarrow> unit io" where
  "updatePlist lib env targetDir cfg =
     (let p = plist_path lib targetDir
      in bind_io (readPlist lib env p) (\<lambda>doc.
           writePlist lib env p (set_bundle_fields cfg doc)))"

definition updateMacIcon :: "lib \<Rightarrow> env \<Rightarrow> builder \<Rightarrow> string \<Rightarrow> config \<Rightarrow> unit io" where
  "updateMacIcon lib env b targetDir cfg =
     (let p = path_resolve lib [targetDir, ''./nwjs.app/Contents/Resources/app.icns'']
      in if \<not> given (mac_icon (config_mac cfg)) then ret ()
         else copyAsync env (path_resolve lib [dir b, the (mac_icon (config_mac cfg))]) p)"

text \<open>
  \<^verbatim>\<open>data.indexOf(Buffer.from('43004600', 'hex')) >= 0 ? 'ucs2' : 'utf-8'\<close>.
\<close>

definition detect_encoding :: "byte list \<Rightarrow> encoding" where
  "detect_encoding data =
     (if buffer_indexOf data [0x43, 0x00, 0x46, 0x00] \<ge> 0 then Ucs2 else Utf8)"

text \<open>The replacement function of \<^verbatim>\<open>fixMacMeta\<close>: the \<^verbatim>\<open>switch\<close> on the key.\<close>

definition strings_entry :: "config \<Rightarrow> string \<Rightarrow> string \<Rightarrow> string" where
  "strings_entry cfg key v =
     (if key = ''CFBundleName'' then
        key @ '' = '' @ quote @ mac_name (config_mac cfg) @ quote @ '';''
      else if key = ''CFBundleDisplayName'' then
        key @ '' = '' @ quote @ mac_displayName (config_mac cfg) @ quote @ '';''
      else if key = ''CFBundleGetInfoString'' then
        key @ '' = '' @ quote @ mac_version (config_mac cfg) @ quote @ '';''
      else if key = ''NSContactsUsageDescription'' then
        key @ '' = '' @ quote @ mac_description (config_mac cfg) @ quote @ '';''
      else if key = ''NSHumanReadableCopyright'' then
        key @ '' = '' @ quote @ mac_copyright (config_mac cfg) @ quote @ '';''
      else key @ '' = '' @ quote @ v @ quote @ '';'')"

text \<open>The body of the loop of \<^verbatim>\<open>fixMacMeta\<close>, for one file.\<close>

definition fixMacMeta_file :: "lib \<Rightarrow> env \<Rightarrow> string \<Rightarrow> config \<Rightarrow> string \<Rightarrow> unit io" where
  "fixMacMeta_file lib env targetDir cfg file =
     (let p = path_resolve lib [targetDir, file]
      in bind_io (readFileAsync env p None) (\<lambda>data.
           let encoding = detect_encoding data;
               strings = decode lib encoding data;
               newStrings = replace_entries lib (strings_entry cfg) strings
           in writeFileAsync env p (Raw (encode lib encoding newStrings))))"

fun fixMacMeta_files :: "lib \<Rightarrow> env \<Rightarrow> string \<Rightarrow> config \<Rightarrow> string list \<Rightarrow> unit io" where
  "fixMacMeta_files lib env targetDir cfg [] = ret ()"
| "fixMacMeta_files lib env targetDir cfg (file # rest) =
     bind_io (fixMacMeta_file lib env targetDir cfg file) (\<lambda>_.
       fixMacMeta_files lib env targetDir cfg rest)"

definition fixMacMeta :: "lib \<Rightarrow> env \<Rightarrow> string \<Rightarrow> config \<Rightarrow> unit io" where
  "fixMacMeta lib env targetDir cfg =
     bind_io (globby lib env [''**/InfoPlist.strings''] targetDir []) (\<lambda>found.
       fixMacMeta_files lib env targetDir cfg found)"

text \<open>
  What \<^verbatim>\<open>fixMacMeta\<close> is expected to do with one localized-strings file whose bytes
  are \<open>data\<close>: read it raw, and write it back re-encoded in the encoding the scan of
  \<open>data\<close> detects. \<open>strings_trace\<close> is the run this gives over a list of files, from
  what the environment answers to each read.
\<close>

definition strings_events :: "lib \<Rightarrow> string \<Rightarrow> config \<Rightarrow> string \<Rightarrow> byte list \<Rightarrow> event list" where
  "strings_events lib targetDir cfg file data =
     [ReadFile (path_resolve lib [targetDir, file]) None,
      WriteFile (path_resolve lib [targetDir, file])
        (Raw (encode lib (detect_encoding data)
           (replace_entries lib (strings_entry cfg) (decode lib (detect_encoding data) data))))]"

fun strings_trace ::
  "lib \<Rightarrow> env \<Rightarrow> string \<Rightarrow> config \<Rightarrow> string list \<Rightarrow> event list \<Rightarrow> event list" where
  "strings_trace lib env targetDir cfg [] t = t"
| "strings_trace lib env targetDir cfg (file # rest) t =
     (case env t (ReadFile (path_resolve lib [targetDir, file]) None) of
        Bytes data \<Rightarrow>
          strings_trace lib env targetDir cfg rest (t @ strings_events lib targetDir cfg file data)
      | _ \<Rightarrow> t @ [ReadFile (path_resolve lib [targetDir, file]) None])"

text \<open>The event of \<^verbatim>\<open>updateMacIcon\<close>, when an icon is configured.\<close>

definition icon_events :: "lib \<Rightarrow> builder \<Rightarrow> string \<Rightarrow> config \<Rightarrow> event list" where
  "icon_events lib b targetDir cfg =
     (if given (mac_icon (config_mac cfg))
      then [CopyPath (path_resolve lib [dir b, the (mac_icon (config_mac cfg))])
              (path_resolve lib [targetDir, ''./nwjs.app/Contents/Resources/app.icns''])]
      else [])"

definition renameMacApp :: "lib \<Rightarrow> env \<Rightarrow> string \<Rightarrow> config \<Rightarrow> unit io" where
  "renameMacApp lib env targetDir cfg =
     (let src = path_resolve lib [targetDir, ''nwjs.app''];
          dest = path_resolve lib [targetDir, mac_displayName (config_mac cfg) @ ''.app'']
      in renameAsync env src dest)"

definition renameLinuxApp :: "lib \<Rightarrow> env \<Rightarrow> string \<Rightarrow> jsobject \<Rightarrow> unit io" where
  "renameLinuxApp lib env targetDir pkg =
     (let src = path_resolve lib [targetDir, ''nw''];
          dest = path_resolve lib [targetDir, pkg_field pkg ''name'']
      in renameAsync env src dest)"

definition prepareWinBuild :: "lib \<Rightarrow> env \<Rightarrow> builder \<Rightarrow> string \<Rightarrow> config \<Rightarrow> unit io" where
  "prepareWinBuild lib env b targetDir cfg = updateWinResources lib env b targetDir cfg"

definition prepareMacBuild :: "lib \<Rightarrow> env \<Rightarrow> builder \<Rightarrow> string \<Rightarrow> config \<Rightarrow> unit io" where
  "prepareMacBuild lib env b targetDir cfg =
     bind_io (updatePlist lib env targetDir cfg) (\<lambda>_.
       bind_io (updateMacIcon lib env b targetDir cfg) (\<lambda>_.
         fixMacMeta lib env targetDir cfg))"

definition prepareLinuxBuild :: "unit io" where
  "prepareLinuxBuild = ret ()"

section \<open>Builder.ts: copyFiles\<close>

definition generalExcludes :: "string list" where
  "generalExcludes =
     [''**/node_modules/.bin'',
      ''**/node_modules/*/{ example, examples, test, tests }'',
      ''**/{ .DS_Store, .git, .hg, .svn, *.log }'']"

definition ignore_list :: "config \<Rightarrow> string list \<Rightarrow> string list" where
  "ignore_list cfg excludable =
     (let dependenciesExcludes = concat (map (\<lambda>e. [e, e @ ''/**/*'']) excludable)
      in excludes cfg @ generalExcludes @ dependenciesExcludes
           @ [config_output cfg, config_output cfg @ ''/**/*''])"

fun copy_each :: "lib \<Rightarrow> env \<Rightarrow> string \<Rightarrow> string \<Rightarrow> string list \<Rightarrow> unit io" where
  "copy_each lib env d appRoot [] = ret ()"
| "copy_each lib env d appRoot (file # rest) =
     bind_io (copyFileAsync env (path_resolve lib [d, file]) (path_resolve lib [appRoot, file]))
       (\<lambda>_. copy_each lib env d appRoot rest)"

text \<open>
  \<^verbatim>\<open>json[key] = value\<close> on the plain object under construction. An assignment to
  \<^verbatim>\<open>__proto__\<close> runs the setter of \<^verbatim>\<open>Object.prototype\<close>: it changes the prototype
  at most and creates no own property, so \<^verbatim>\<open>JSON.stringify\<close> never prints that key.
\<close>

definition js_assign :: "string \<Rightarrow> json \<Rightarrow> jsobject \<Rightarrow> jsobject" where
  "js_assign key v js = (if key = ''__proto__'' then js else AList.update key v js)"

text \<open>
  The loop that fills \<^verbatim>\<open>json\<close>: \<open>ks\<close> are the keys \<^verbatim>\<open>for (const key in pkg)\<close> still
  has to visit. Every iteration calls \<^verbatim>\<open>pkg.hasOwnProperty(key)\<close>: when the manifest
  has a key \<^verbatim>\<open>hasOwnProperty\<close> of its own, that key shadows the method with a value
  that is no function, and the call throws a \<^verbatim>\<open>TypeError\<close>. Every key the loop visits
  is an own property of the parsed manifest.
\<close>

fun strip_loop ::
  "jsobject \<Rightarrow> string list \<Rightarrow> string list \<Rightarrow> jsobject \<Rightarrow> error + jsobject" where
  "strip_loop pkg stripped [] js = Inr js"
| "strip_loop pkg stripped (key # ks) js =
     (if map_of pkg ''hasOwnProperty'' \<noteq> None
      then Inl (TypeError ''pkg.hasOwnProperty is not a function'')
      else if indexOf stripped key = -1
      then strip_loop pkg stripped ks
             (case map_of pkg key of None \<Rightarrow> js | Some v \<Rightarrow> js_assign key v js)
      else strip_loop pkg stripped ks js)"

definition stripped_manifest :: "jsobject \<Rightarrow> string list \<Rightarrow> error + jsobject" where
  "stripped_manifest pkg stripped = strip_loop pkg stripped (map fst pkg) []"

definition manifest_path :: "lib \<Rightarrow> string \<Rightarrow> string" where
  "manifest_path lib appRoot = path_resolve lib [appRoot, ''package.json'']"

text \<open>
  The end of \<^verbatim>\<open>copyFiles\<close>: the stripped manifest is computed first, as the argument
  of \<^verbatim>\<open>writeFileAsync\<close>, and then written to \<^verbatim>\<open>package.json\<close> under the resource
  root.
\<close>

definition write_manifest :: "lib \<Rightarrow> env \<Rightarrow> string \<Rightarrow> jsobject \<Rightarrow> config \<Rightarrow> unit io" where
  "write_manifest lib env appRoot pkg cfg =
     (case stripped_manifest pkg (strippedProperties cfg) of
        Inl e \<Rightarrow> throw e
      | Inr js \<Rightarrow>
          writeFileAsync env (manifest_path lib appRoot) (Text (json_stringify lib (JObj js))))"

text \<open>
  The first half of \<^verbatim>\<open>copyFiles\<close>: the ignore list and the call of \<^verbatim>\<open>globby\<close>.
\<close>

definition select_files :: "lib \<Rightarrow> env \<Rightarrow> builder \<Rightarrow> jsobject \<Rightarrow> config \<Rightarrow> string list io" where
  "select_files lib env b pkg cfg =
     bind_io (call_strings env (FindExcludableDependencies (dir b) pkg)) (\<lambda>excludable.
       globby lib env (files cfg) (dir b) (ignore_list cfg excludable))"

definition copyFiles ::
  "lib \<Rightarrow> env \<Rightarrow> builder \<Rightarrow> string \<Rightarrow> string \<Rightarrow> string \<Rightarrow> jsobject \<Rightarrow> config \<Rightarrow> unit io" where
  "copyFiles lib env b platform targetDir appRoot pkg cfg =
     bind_io (select_files lib env b pkg cfg) (\<lambda>fs.
       bind_io
         (if packed cfg then
            (if platform = ''win32'' \<or> platform = ''win'' \<or> platform = ''linux'' then
               bind_io (tmpName env) (\<lambda>nwFile.
                 bind_io (compress lib env (dir b) fs ''zip'' nwFile) (\<lambda>_.
                   bind_io (call_string env (FindExecutable platform targetDir)) (\<lambda>executable.
                     bind_io (combineExecutable env executable nwFile) (\<lambda>_.
                       removeAsync env nwFile))))
             else if platform = ''darwin'' \<or> platform = ''osx'' \<or> platform = ''mac'' then
               copy_each lib env (dir b) appRoot fs
             else throw ERROR_UNKNOWN_PLATFORM)
          else copy_each lib env (dir b) appRoot fs)
         (\<lambda>_. write_manifest lib env appRoot pkg cfg))"

section \<open>Builder.ts: the directory target\<close>

definition integrateFFmpeg ::
  "lib \<Rightarrow> env \<Rightarrow> builder \<Rightarrow> string \<Rightarrow> string \<Rightarrow> string \<Rightarrow> config \<Rightarrow> unit io" where
  "integrateFFmpeg lib env b platform arch targetDir cfg =
     bind_io (call_string env (FetchFFmpeg
                \<lparr> dl_platform = platform, dl_arch = arch, dl_version = nwVersion cfg,
                  dl_flavor = None, dl_mirror = None, dl_useCaches = True,
                  dl_showProgress = (\<not> truthy (mute (options b))) \<rparr>)) (\<lambda>ffmpegDir.
       bind_io (call_string env (FindFFmpeg platform ffmpegDir)) (\<lambda>src.
         bind_io (call_string env (FindFFmpeg platform targetDir)) (\<lambda>dest.
           copyAsync env src dest)))"

definition target_dir :: "lib \<Rightarrow> builder \<Rightarrow> string \<Rightarrow> string \<Rightarrow> jsobject \<Rightarrow> config \<Rightarrow> string" where
  "target_dir lib b platform arch pkg cfg =
     path_resolve lib
       [dir b, config_output cfg,
        pkg_field pkg ''name'' @ ''-'' @ pkg_field pkg ''version'' @ ''-'' @ platform @ ''-'' @ arch]"

text \<open>
  \<^verbatim>\<open>buildDirTarget\<close> up to \<^verbatim>\<open>ensureDirAsync(appRoot)\<close>: the target directory is
  emptied, the runtime copied in, the codec integrated, the resource root created.
\<close>

definition dir_setup ::
  "lib \<Rightarrow> env \<Rightarrow> builder \<Rightarrow> string \<Rightarrow> string \<Rightarrow> string \<Rightarrow> jsobject \<Rightarrow> config
     \<Rightarrow> (string \<times> string) io" where
  "dir_setup lib env b platform arch runtimeDir pkg cfg =
     (let targetDir = target_dir lib b platform arch pkg cfg
      in bind_io (call_string env (FindRuntimeRoot platform runtimeDir)) (\<lambda>runtimeRoot.
           bind_io
             (if platform = ''win32'' \<or> platform = ''win'' \<or> platform = ''linux'' then
                ret (path_resolve lib [targetDir, ''./''])
              else if platform = ''darwin'' \<or> platform = ''osx'' \<or> platform = ''mac'' then
                ret (path_resolve lib [targetDir, ''./nwjs.app/Contents/Resources/app.nw/''])
              else throw ERROR_UNKNOWN_PLATFORM) (\<lambda>appRoot.
             bind_io (call_unit env (EmptyDir targetDir)) (\<lambda>_.
               bind_io (copyAsync env runtimeRoot targetDir) (\<lambda>_.
                 bind_io (if ffmpegIntegration cfg
                          then integrateFFmpeg lib env b platform arch targetDir cfg
                          else ret ()) (\<lambda>_.
                   bind_io (call_unit env (EnsureDir appRoot)) (\<lambda>_.
                     ret (targetDir, appRoot))))))))"

text \<open>The \<^verbatim>\<open>switch\<close> that closes \<^verbatim>\<open>buildDirTarget\<close>.\<close>

definition dir_finish ::
  "lib \<Rightarrow> env \<Rightarrow> builder \<Rightarrow> string \<Rightarrow> string \<Rightarrow> string \<Rightarrow> jsobject \<Rightarrow> config \<Rightarrow> unit io" where
  "dir_finish lib env b platform targetDir appRoot pkg cfg =
     (if platform = ''win32'' \<or> platform = ''win'' then
        bind_io (prepareWinBuild lib env b targetDir cfg) (\<lambda>_.
          bind_io (copyFiles lib env b platform targetDir appRoot pkg cfg) (\<lambda>_.
            renameWinApp lib env targetDir cfg))
      else if platform = ''darwin'' \<or> platform = ''osx'' \<or> platform = ''mac'' then
        bind_io (prepareMacBuild lib env b targetDir cfg) (\<lambda>_.
          bind_io (copyFiles lib env b platform targetDir appRoot pkg cfg) (\<lambda>_.
            renameMacApp lib env targetDir cfg))
      else if platform = ''linux'' then
        bind_io prepareLinuxBuild (\<lambda>_.
          bind_io (copyFiles lib env b platform targetDir appRoot pkg cfg) (\<lambda>_.
            renameLinuxApp lib env targetDir pkg))
      else throw ERROR_UNKNOWN_PLATFORM)"

definition buildDirTarget ::
  "lib \<Rightarrow> env \<Rightarrow> builder \<Rightarrow> string \<Rightarrow> string \<Rightarrow> string \<Rightarrow> jsobject \<Rightarrow> config \<Rightarrow> string io" where
  "buildDirTarget lib env b platform arch runtimeDir pkg cfg =
     bind_io (dir_setup lib env b platform arch runtimeDir pkg cfg) (\<lambda>(targetDir, appRoot).
       bind_io (dir_finish lib env b platform targetDir appRoot pkg cfg) (\<lambda>_.
         ret targetDir))"

definition buildArchiveTarget :: "lib \<Rightarrow> env \<Rightarrow> string \<Rightarrow> string \<Rightarrow> string io" where
  "buildArchiveTarget lib env type sourceDir =
     (let targetArchive =
            path_resolve lib
              [path_dirname lib sourceDir, path_basename lib sourceDir @ ''.'' @ type]
      in bind_io (removeAsync env targetArchive) (\<lambda>_.
           bind_io (globby lib env [''**/*''] sourceDir []) (\<lambda>fs.
             bind_io (compress lib env sourceDir fs type targetArchive) (\<lambda>_.
               ret targetArchive))))"

section \<open>Semantic versions\<close>

text \<open>
  \<^verbatim>\<open>semver.gt\<close>, from the external \<^verbatim>\<open>semver\<close> package: the precedence of Semantic
  Versioning, as the package's \<^verbatim>\<open>compareIdentifiers\<close>, \<^verbatim>\<open>compareMain\<close> and
  \<^verbatim>\<open>comparePre\<close> compute it on parsed versions. Build metadata is dropped by the parser.
  A comparison is -1, 0 or 1.
\<close>

fun compare_string :: "string \<Rightarrow> string \<Rightarrow> int" where
  "compare_string [] [] = 0"
| "compare_string [] (y # ys) = -1"
| "compare_string (x # xs) [] = 1"
| "compare_string (x # xs) (y # ys) =
     (if (of_char x :: nat) < of_char y then -1
      else if (of_char y :: nat) < of_char x then 1
      else compare_string xs ys)"

fun compareIdentifiers :: "ident \<Rightarrow> ident \<Rightarrow> int" where
  "compareIdentifiers (NumId a) (NumId b) = (if a = b then 0 else if a < b then -1 else 1)"
| "compareIdentifiers (NumId a) (AlnumId b) = -1"
| "compareIdentifiers (AlnumId a) (NumId b) = 1"
| "compareIdentifiers (AlnumId a) (AlnumId b) = compare_string a b"

definition compare_nat :: "nat \<Rightarrow> nat \<Rightarrow> int" where
  "compare_nat a b = (if a < b then -1 else if b < a then 1 else 0)"

definition compareMain :: "semver \<Rightarrow> semver \<Rightarrow> int" where
  "compareMain a b =
     (if compare_nat (sv_major a) (sv_major b) \<noteq> 0 then compare_nat (sv_major a) (sv_major b)
      else if compare_nat (sv_minor a) (sv_minor b) \<noteq> 0 then compare_nat (sv_minor a) (sv_minor b)
      else compare_nat (sv_patch a) (sv_patch b))"

fun comparePre_from :: "ident list \<Rightarrow> ident list \<Rightarrow> int" where
  "comparePre_from [] [] = 0"
| "comparePre_from (a # as) [] = 1"
| "comparePre_from [] (b # bs) = -1"
| "comparePre_from (a # as) (b # bs) =
     (if a = b then comparePre_from as bs else compareIdentifiers a b)"

definition comparePre :: "semver \<Rightarrow> semver \<Rightarrow> int" where
  "comparePre a b =
     (if sv_prerelease a \<noteq> [] \<and> sv_prerelease b = [] then -1
      else if sv_prerelease a = [] \<and> sv_prerelease b \<noteq> [] then 1
      else if sv_prerelease a = [] \<and> sv_prerelease b = [] then 0
      else comparePre_from (sv_prerelease a) (sv_prerelease b))"

definition semver_compare :: "semver \<Rightarrow> semver \<Rightarrow> int" where
  "semver_compare a b = (if compareMain a b \<noteq> 0 then compareMain a b else comparePre a b)"

text \<open>\<^verbatim>\<open>semver.gt(a, b)\<close> throws on a string that is not a version.\<close>

definition semver_gt :: "lib \<Rightarrow> string \<Rightarrow> string \<Rightarrow> error + bool" where
  "semver_gt lib a b =
     (case semver_parse lib a of
        None \<Rightarrow> Inl (ERROR_INVALID_VERSION a)
      | Some x \<Rightarrow>
          (case semver_parse lib b of
             None \<Rightarrow> Inl (ERROR_INVALID_VERSION b)
           | Some y \<Rightarrow> Inr (semver_compare x y > 0)))"

section \<open>The version ledger\<close>

text \<open>
  Modelled from the spec: the class \<^verbatim>\<open>NsisVersionInfo\<close> is defined in
  \<^verbatim>\<open>./common\<close>, outside the two source files. The spec (sections 3, 4.7 and 6)
  describes it as a ledger loaded at the start of an installer-target build and saved once at
  the end, mapping a version to its source directory, its installers by architecture and
  its updaters by from-version and architecture. The order of the entries plays no role here.
\<close>

definition getVersions :: "ledger \<Rightarrow> string list" where
  "getVersions l = map le_version l"

text \<open>Modelled from the spec: the entry of a version; asking for a version the ledger
  does not hold fails.\<close>

definition getVersion :: "ledger \<Rightarrow> string \<Rightarrow> ledger_entry io" where
  "getVersion l v =
     (case find (\<lambda>e. le_version e = v) l of
        None \<Rightarrow> throw (ERROR_VERSION_NOT_FOUND v)
      | Some e \<Rightarrow> ret e)"

text \<open>Modelled from the spec: recording a version keeps an entry that is already there.\<close>

definition addVersion :: "string \<Rightarrow> string \<Rightarrow> string \<Rightarrow> ledger \<Rightarrow> ledger" where
  "addVersion v changelog source l =
     (if v \<in> set (getVersions l) then l
      else l @ [\<lparr> le_version = v, le_source = source, le_installers = [], le_updaters = [] \<rparr>])"

text \<open>Modelled from the spec: the installer of a version for an architecture.\<close>

definition addInstaller :: "string \<Rightarrow> string \<Rightarrow> string \<Rightarrow> ledger \<Rightarrow> ledger" where
  "addInstaller v arch p l =
     map (\<lambda>e. if le_version e = v
               then e\<lparr> le_installers := AList.update arch p (le_installers e) \<rparr> else e) l"

text \<open>Modelled from the spec: the updater to a version from an older one, for an
  architecture.\<close>

definition addUpdater :: "string \<Rightarrow> string \<Rightarrow> string \<Rightarrow> string \<Rightarrow> ledger \<Rightarrow> ledger" where
  "addUpdater toVersion fromVersion arch p l =
     map (\<lambda>e. if le_version e = toVersion
               then e\<lparr> le_updaters := AList.update (fromVersion, arch) p (le_updaters e) \<rparr>
               else e) l"

text \<open>Modelled from the spec: \<^verbatim>\<open>new NsisVersionInfo(path)\<close> reads the ledger file and
  \<^verbatim>\<open>save\<close> writes it.\<close>

definition load_ledger :: "env \<Rightarrow> string \<Rightarrow> ledger io" where
  "load_ledger env p =
     bind_io (call env (LoadLedger p))
       (\<lambda>a. case a of Ledger l \<Rightarrow> ret l | _ \<Rightarrow> throw (ExternalFailure (LoadLedger p)))"

definition save_ledger :: "env \<Rightarrow> string \<Rightarrow> ledger \<Rightarrow> unit io" where
  "save_ledger env p l = call_unit env (SaveLedger p l)"

section \<open>Builder.ts: installers and updaters\<close>

definition nsisBuild :: "env \<Rightarrow> string \<Rightarrow> string \<Rightarrow> bool \<Rightarrow> unit io" where
  "nsisBuild env cwd script quiet = call_unit env (NsisBuild cwd script quiet)"

text \<open>The option object the three script generators receive.\<close>

definition script_options_of :: "lib \<Rightarrow> builder \<Rightarrow> config \<Rightarrow> string \<Rightarrow> script_options" where
  "script_options_of lib b cfg out =
     \<lparr> so_appName = ProductName (versionStrings (config_win cfg)),
       so_companyName = CompanyName (versionStrings (config_win cfg)),
       so_description = FileDescription (versionStrings (config_win cfg)),
       so_version = fixWindowsVersion lib (productVersion (config_win cfg)),
       so_copyright = LegalCopyright (versionStrings (config_win cfg)),
       so_icon = (if given (nsis_icon (config_nsis cfg))
                  then Some (path_resolve lib [dir b, the (nsis_icon (config_nsis cfg))])
                  else None),
       so_unIcon = (if given (nsis_unIcon (config_nsis cfg))
                    then Some (path_resolve lib [dir b, the (nsis_unIcon (config_nsis cfg))])
                    else None),
       so_compression = ''lzma'',
       so_solid = True,
       so_languages = nsis_languages (config_nsis cfg),
       so_output = out \<rparr>"

definition ledger_path :: "lib \<Rightarrow> builder \<Rightarrow> config \<Rightarrow> string" where
  "ledger_path lib b cfg = path_resolve lib [dir b, config_output cfg, ''versions.nsis.json'']"

definition setup_path :: "lib \<Rightarrow> string \<Rightarrow> string" where
  "setup_path lib sourceDir =
     path_resolve lib [path_dirname lib sourceDir, path_basename lib sourceDir @ ''-Setup.exe'']"

definition updater_path ::
  "lib \<Rightarrow> builder \<Rightarrow> config \<Rightarrow> jsobject \<Rightarrow> string \<Rightarrow> string \<Rightarrow> string \<Rightarrow> string \<Rightarrow> string" where
  "updater_path lib b cfg pkg platform arch fromVersion toVersion =
     path_resolve lib
       [dir b, config_output cfg,
        pkg_field pkg ''name'' @ ''-'' @ toVersion @ ''-from-'' @ fromVersion @ ''-'' @ platform
          @ ''-'' @ arch @ ''-Update.exe'']"

definition buildNsisDiffUpdater ::
  "lib \<Rightarrow> env \<Rightarrow> builder \<Rightarrow> string \<Rightarrow> string \<Rightarrow> ledger \<Rightarrow> string \<Rightarrow> string \<Rightarrow> jsobject \<Rightarrow> config
     \<Rightarrow> ledger io" where
  "buildNsisDiffUpdater lib env b platform arch versionInfo fromVersion toVersion pkg cfg =
     (let diffNsis = updater_path lib b cfg pkg platform arch fromVersion toVersion
      in bind_io (getVersion versionInfo fromVersion) (\<lambda>fromEntry.
           let fromDir = path_resolve lib [dir b, config_output cfg, le_source fromEntry]
           in bind_io (getVersion versionInfo toVersion) (\<lambda>toEntry.
                let toDir = path_resolve lib [dir b, config_output cfg, le_source toEntry]
                in bind_io (call_string env
                              (NsisDifferMake fromDir toDir (script_options_of lib b cfg diffNsis)))
                     (\<lambda>data.
                  bind_io (tmpName env) (\<lambda>script.
                    bind_io (writeFileAsync env script (Text data)) (\<lambda>_.
                      bind_io (nsisBuild env toDir script (truthy (mute (options b)))) (\<lambda>_.
                        bind_io (removeAsync env script) (\<lambda>_.
                          ret (addUpdater toVersion fromVersion arch diffNsis versionInfo)))))))))"

text \<open>
  The loop over \<^verbatim>\<open>versionInfo.getVersions()\<close> at the end of both installer builds.
\<close>

fun diff_updaters ::
  "lib \<Rightarrow> env \<Rightarrow> builder \<Rightarrow> string \<Rightarrow> string \<Rightarrow> jsobject \<Rightarrow> config \<Rightarrow> string list \<Rightarrow> ledger
     \<Rightarrow> ledger io" where
  "diff_updaters lib env b platform arch pkg cfg [] versionInfo = ret versionInfo"
| "diff_updaters lib env b platform arch pkg cfg (version # rest) versionInfo =
     (case semver_gt lib (pkg_field pkg ''version'') version of
        Inl e \<Rightarrow> throw e
      | Inr True \<Rightarrow>
          bind_io (buildNsisDiffUpdater lib env b platform arch versionInfo version
                     (pkg_field pkg ''version'') pkg cfg) (\<lambda>versionInfo'.
            diff_updaters lib env b platform arch pkg cfg rest versionInfo')
      | Inr False \<Rightarrow> diff_updaters lib env b platform arch pkg cfg rest versionInfo)"

text \<open>
  What both installer builds do once the installer is compiled: record the version and the
  installer, build the updaters, save the ledger.
\<close>

definition record_and_update ::
  "lib \<Rightarrow> env \<Rightarrow> builder \<Rightarrow> string \<Rightarrow> string \<Rightarrow> string \<Rightarrow> string \<Rightarrow> jsobject \<Rightarrow> config \<Rightarrow> ledger
     \<Rightarrow> unit io" where
  "record_and_update lib env b platform arch sourceDir targetNsis pkg cfg versionInfo =
     (let l1 = addVersion (pkg_field pkg ''version'') [] sourceDir versionInfo;
          l2 = addInstaller (pkg_field pkg ''version'') arch targetNsis l1
      in bind_io (if diffUpdaters (config_nsis cfg)
                  then diff_updaters lib env b platform arch pkg cfg (getVersions l2) l2
                  else ret l2) (\<lambda>l3.
           save_ledger env (ledger_path lib b cfg) l3))"

definition buildNsisTarget ::
  "lib \<Rightarrow> env \<Rightarrow> builder \<Rightarrow> string \<Rightarrow> string \<Rightarrow> string \<Rightarrow> jsobject \<Rightarrow> config \<Rightarrow> unit io" where
  "buildNsisTarget lib env b platform arch sourceDir pkg cfg =
     (if platform \<noteq> ''win'' then ret ()
      else
        bind_io (load_ledger env (ledger_path lib b cfg)) (\<lambda>versionInfo.
          let targetNsis = setup_path lib sourceDir
          in bind_io (call_string env (NsisComposerMake (script_options_of lib b cfg targetNsis)))
               (\<lambda>data.
            bind_io (tmpName env) (\<lambda>script.
              bind_io (writeFileAsync env script (Text data)) (\<lambda>_.
                bind_io (nsisBuild env sourceDir script (truthy (mute (options b)))) (\<lambda>_.
                  bind_io (removeAsync env script) (\<lambda>_.
                    record_and_update lib env b platform arch sourceDir targetNsis pkg cfg
                      versionInfo)))))))"

definition buildNsis7zTarget ::
  "lib \<Rightarrow> env \<Rightarrow> builder \<Rightarrow> string \<Rightarrow> string \<Rightarrow> string \<Rightarrow> jsobject \<Rightarrow> config \<Rightarrow> unit io" where
  "buildNsis7zTarget lib env b platform arch sourceDir pkg cfg =
     (if platform \<noteq> ''win'' then ret ()
      else
        bind_io (buildArchiveTarget lib env ''7z'' sourceDir) (\<lambda>sourceArchive.
          bind_io (load_ledger env (ledger_path lib b cfg)) (\<lambda>versionInfo.
            let targetNsis = setup_path lib sourceDir
            in bind_io (call_string env
                          (Nsis7ZipperMake sourceArchive (script_options_of lib b cfg targetNsis)))
                 (\<lambda>data.
              bind_io (tmpName env) (\<lambda>script.
                bind_io (writeFileAsync env script (Text data)) (\<lambda>_.
                  bind_io (nsisBuild env sourceDir script (truthy (mute (options b)))) (\<lambda>_.
                    bind_io (removeAsync env script) (\<lambda>_.
                      record_and_update lib env b platform arch sourceDir targetNsis pkg cfg
                        versionInfo))))))))"

section \<open>Builder.ts: tasks\<close>

fun build_targets ::
  "lib \<Rightarrow> env \<Rightarrow> builder \<Rightarrow> string \<Rightarrow> string \<Rightarrow> string \<Rightarrow> jsobject \<Rightarrow> config \<Rightarrow> string list
     \<Rightarrow> unit io" where
  "build_targets lib env b platform arch targetDir pkg cfg [] = ret ()"
| "build_targets lib env b platform arch targetDir pkg cfg (target # rest) =
     bind_io
       (if target = ''zip'' \<or> target = ''7z'' then
          bind_io (buildArchiveTarget lib env target targetDir) (\<lambda>_. ret ())
        else if target = ''nsis'' then
          buildNsisTarget lib env b platform arch targetDir pkg cfg
        else if target = ''nsis7z'' then
          buildNsis7zTarget lib env b platform arch targetDir pkg cfg
        else throw ERROR_UNKNOWN_TARGET)
       (\<lambda>_. build_targets lib env b platform arch targetDir pkg cfg rest)"

definition buildTask ::
  "lib \<Rightarrow> env \<Rightarrow> builder \<Rightarrow> string \<Rightarrow> string \<Rightarrow> jsobject \<Rightarrow> config \<Rightarrow> unit io" where
  "buildTask lib env b platform arch pkg cfg =
     bind_io (call_string env (FetchRuntime
                \<lparr> dl_platform = platform, dl_arch = arch, dl_version = nwVersion cfg,
                  dl_flavor = Some (nwFlavor cfg), dl_mirror = mirror (options b),
                  dl_useCaches = True,
                  dl_showProgress = (\<not> truthy (mute (options b))) \<rparr>)) (\<lambda>runtimeDir.
       bind_io (buildDirTarget lib env b platform arch runtimeDir pkg cfg) (\<lambda>targetDir.
         build_targets lib env b platform arch targetDir pkg cfg (targets cfg)))"

fun build_tasks ::
  "lib \<Rightarrow> env \<Rightarrow> builder \<Rightarrow> jsobject \<Rightarrow> config \<Rightarrow> (string \<times> string) list \<Rightarrow> unit io" where
  "build_tasks lib env b pkg cfg [] = ret ()"
| "build_tasks lib env b pkg cfg ((platform, arch) # rest) =
     bind_io (buildTask lib env b platform arch pkg cfg) (\<lambda>_.
       build_tasks lib env b pkg cfg rest)"

text \<open>
  \<^verbatim>\<open>build\<close>. Console output and timing are left out. In the concurrent branch
  \<^verbatim>\<open>Bluebird.map\<close> starts one sub-build per task and the sub-builds interleave; the model
  runs them in task order and stops at the first failure, which is one of the possible
  schedules. No property below depends on the schedule.
\<close>

function build :: "lib \<Rightarrow> env \<Rightarrow> builder \<Rightarrow> unit io"
  and build_each :: "lib \<Rightarrow> env \<Rightarrow> builder \<Rightarrow> (string \<times> string) list \<Rightarrow> unit io" where
  "build lib env b tr =
     (let tasks = task_matrix (options b)
      in if length tasks = 0 then throw ERROR_NO_TASK tr
         else if truthy (concurrent (options b)) then build_each lib env b tasks tr
         else
           bind_io (readJsonAsync env (path_resolve lib [dir b, manifest_name (options b)]))
             (\<lambda>pkg. build_tasks lib env b pkg (mk_config lib pkg) tasks) tr)"
| "build_each lib env b [] tr = ret () tr"
| "build_each lib env b ((platform, arch) # rest) tr =
     (case build lib env (Builder lib (sub_options b platform arch) (dir b)) tr of
        (Inl e, tr') \<Rightarrow> (Inl e, tr')
      | (Inr _, tr') \<Rightarrow> build_each lib env b rest tr')"
  by pat_completeness auto
termination
  by (relation "inv_image (less_than <*lex*> less_than)
        (\<lambda>x. case x of
           Inl (lib, env, b, tr) \<Rightarrow> (if truthy (concurrent (options b)) then 2 else 0, 0::nat)
         | Inr (lib, env, b, ts, tr) \<Rightarrow> (1::nat, length ts))")
     (auto simp: Builder_def mergeOptions_def sub_options_def or_default_def truthy_def)

section \<open>The three phases of the directory target\<close>

text \<open>
  The pipeline as the design states it: prepare, then copy, then finalize, each phase
  starting from the run the previous one left and a failure ending the pipeline. It is
  compared below with the \<^verbatim>\<open>switch\<close> that closes \<^verbatim>\<open>buildDirTarget\<close>.
\<close>

definition three_phases :: "unit io \<Rightarrow> unit io \<Rightarrow> unit io \<Rightarrow> unit io" where
  "three_phases prepare copy finalize tr =
     (case prepare tr of
        (Inl e, t1) \<Rightarrow> (Inl e, t1)
      | (Inr _, t1) \<Rightarrow>
          (case copy t1 of
             (Inl e, t2) \<Rightarrow> (Inl e, t2)
           | (Inr _, t2) \<Rightarrow> finalize t2))"

definition recognized :: "string \<Rightarrow> bool" where
  "recognized platform =
     (platform = ''win32'' \<or> platform = ''win'' \<or> platform = ''darwin'' \<or> platform = ''osx''
      \<or> platform = ''mac'' \<or> platform = ''linux'')"

text \<open>The prepare step and the finalize step that the \<^verbatim>\<open>switch\<close> pairs with a platform.\<close>

definition prepare_step :: "lib \<Rightarrow> env \<Rightarrow> builder \<Rightarrow> string \<Rightarrow> string \<Rightarrow> config \<Rightarrow> unit io" where
  "prepare_step lib env b platform targetDir cfg =
     (if platform = ''win32'' \<or> platform = ''win'' then prepareWinBuild lib env b targetDir cfg
      else if platform = ''darwin'' \<or> platform = ''osx'' \<or> platform = ''mac''
      then prepareMacBuild lib env b targetDir cfg
      else prepareLinuxBuild)"

definition finalize_step ::
  "lib \<Rightarrow> env \<Rightarrow> string \<Rightarrow> string \<Rightarrow> jsobject \<Rightarrow> config \<Rightarrow> unit io" where
  "finalize_step lib env platform targetDir pkg cfg =
     (if platform = ''win32'' \<or> platform = ''win'' then renameWinApp lib env targetDir cfg
      else if platform = ''darwin'' \<or> platform = ''osx'' \<or> platform = ''mac''
      then renameMacApp lib env targetDir cfg
      else renameLinuxApp lib env targetDir pkg)"

definition finalize_event :: "lib \<Rightarrow> string \<Rightarrow> string \<Rightarrow> jsobject \<Rightarrow> config \<Rightarrow> event" where
  "finalize_event lib platform targetDir pkg cfg =
     (if platform = ''win32'' \<or> platform = ''win'' then
        RenamePath (path_resolve lib [targetDir, ''nw.exe''])
          (path_resolve lib [targetDir, ProductName (versionStrings (config_win cfg)) @ ''.exe''])
      else if platform = ''darwin'' \<or> platform = ''osx'' \<or> platform = ''mac'' then
        RenamePath (path_resolve lib [targetDir, ''nwjs.app''])
          (path_resolve lib [targetDir, mac_displayName (config_mac cfg) @ ''.app''])
      else
        RenamePath (path_resolve lib [targetDir, ''nw''])
          (path_resolve lib [targetDir, pkg_field pkg ''name'']))"

text \<open>A computation only adds events to the run it starts from.\<close>

definition grows :: "'a io \<Rightarrow> bool" where
  "grows m = (\<forall>tr. \<exists>s. snd (m tr) = tr @ s)"

section \<open>Compiling a script, and the updaters of a run\<close>

text \<open>
  The four lines that the three script builders repeat: a temporary name, the script
  written there, the compiler run on it, the script removed; \<open>k\<close> is what the builder does
  next.
\<close>

definition compile_script :: "env \<Rightarrow> string \<Rightarrow> string \<Rightarrow> bool \<Rightarrow> 'a io \<Rightarrow> 'a io" where
  "compile_script env cwd script_text quiet k =
     bind_io (tmpName env) (\<lambda>script.
       bind_io (writeFileAsync env script (Text script_text)) (\<lambda>_.
         bind_io (nsisBuild env cwd script quiet) (\<lambda>_.
           bind_io (removeAsync env script) (\<lambda>_. k))))"

text \<open>The output paths of the differential scripts a run generated, in order.\<close>

definition differ_outputs :: "event list \<Rightarrow> string list" where
  "differ_outputs tr =
     concat (map (\<lambda>ev. case ev of NsisDifferMake fromDir toDir opts \<Rightarrow> [so_output opts]
                               | _ \<Rightarrow> []) tr)"

text \<open>The versions of a list that are strictly older than \<open>current\<close>.\<close>

definition older :: "lib \<Rightarrow> string \<Rightarrow> string list \<Rightarrow> string list" where
  "older lib current vs = filter (\<lambda>v. semver_gt lib current v = Inr True) vs"

section \<open>A sample world\<close>

text \<open>
  A small concrete world on which the model can be run: POSIX paths joined with a slash,
  ASCII text, a project \<^verbatim>\<open>/proj\<close> that builds \<^verbatim>\<open>app\<close> 1.2.0 into \<^verbatim>\<open>/proj/dist\<close>, and
  tools that succeed unless told otherwise.
\<close>

definition sample_basename :: "string \<Rightarrow> string" where
  "sample_basename p = rev (takeWhile (\<lambda>c. c \<noteq> CHR ''/'') (rev p))"

definition sample_dirname :: "string \<Rightarrow> string" where
  "sample_dirname p = rev (drop 1 (dropWhile (\<lambda>c. c \<noteq> CHR ''/'') (rev p)))"

fun sample_decode :: "encoding \<Rightarrow> byte list \<Rightarrow> string" where
  "sample_decode Utf8 bs = map (\<lambda>b. char_of (unat b)) bs"
| "sample_decode Ucs2 [] = []"
| "sample_decode Ucs2 [b] = []"
| "sample_decode Ucs2 (lo # hi # bs) = char_of (unat lo) # sample_decode Ucs2 bs"

fun sample_encode :: "encoding \<Rightarrow> string \<Rightarrow> byte list" where
  "sample_encode Utf8 s = map (\<lambda>c. of_nat (of_char c)) s"
| "sample_encode Ucs2 s = concat (map (\<lambda>c. [of_nat (of_char c), 0]) s)"

declare sample_decode.simps [simp del] sample_encode.simps [simp del]

definition sample_win :: win_config where
  "sample_win =
     \<lparr> productVersion = ''1.2.0'', fileVersion = ''1.2.0'',
       versionStrings = \<lparr> ProductName = ''App'', CompanyName = ''Co'',
                          FileDescription = ''An app'', LegalCopyright = ''(c)'' \<rparr>,
       win_icon = None \<rparr>"

definition sample_mac :: mac_config where
  "sample_mac =
     \<lparr> mac_name = ''App'', mac_displayName = ''App'', mac_version = ''1.2.0'',
       mac_description = ''An app'', mac_copyright = ''(c)'', mac_icon = None \<rparr>"

definition sample_config :: config where
  "sample_config =
     \<lparr> appId = ''io.app'', files = [''**/*''], excludes = [''secret/**''],
       config_output = ''dist'', packed = False, targets = [''nsis''],
       nwVersion = ''0.14.7'', nwFlavor = ''normal'', ffmpegIntegration = False,
       strippedProperties = [''build'', ''devDependencies''],
       config_win = sample_win, config_mac = sample_mac,
       config_nsis = \<lparr> nsis_icon = None, nsis_unIcon = None, nsis_languages = [''English''],
                       diffUpdaters = True \<rparr> \<rparr>"

definition sample_pkg :: jsobject where
  "sample_pkg =
     [(''name'', JStr ''app''), (''version'', JStr ''1.2.0''),
      (''build'', JObj [(''output'', JStr ''dist'')]), (''main'', JStr ''index.html'')]"

definition sample_plist_text :: string where
  "sample_plist_text = ''<plist><key>CFBundleName</key><string>nwjs</string></plist>''"

definition sample_versions :: "(string \<times> semver) list" where
  "sample_versions =
     [(''1.0.0'', \<lparr> sv_major = 1, sv_minor = 0, sv_patch = 0, sv_prerelease = [] \<rparr>),
      (''1.1.0'', \<lparr> sv_major = 1, sv_minor = 1, sv_patch = 0, sv_prerelease = [] \<rparr>),
      (''1.2.0'', \<lparr> sv_major = 1, sv_minor = 2, sv_patch = 0, sv_prerelease = [] \<rparr>),
      (''1.3.0'', \<lparr> sv_major = 1, sv_minor = 3, sv_patch = 0, sv_prerelease = [] \<rparr>)]"

text \<open>
  A matcher for the sample patterns: a pattern matches itself, and \<^verbatim>\<open>x/**/*\<close> and
  \<^verbatim>\<open>x/**\<close> match what lies under \<^verbatim>\<open>x/\<close>.
\<close>

definition sample_match :: "string \<Rightarrow> string \<Rightarrow> bool" where
  "sample_match pat p =
     (pat = p
      \<or> (endsWith pat ''/**/*'' \<and> length pat - 4 < length p \<and> take (length pat - 4) p = take (length pat - 4) pat)
      \<or> (endsWith pat ''/**'' \<and> length pat - 2 < length p \<and> take (length pat - 2) p = take (length pat - 2) pat))"

definition sample_lib :: lib where
  "sample_lib =
     \<lparr> path_resolve = js_join ''/'',
       path_dirname = sample_dirname,
       path_basename = sample_basename,
       path_join = js_join ''/'',
       path_normalize = (\<lambda>p. p),
       default_mirror = ''https://dl.nwjs.io/'',
       mk_config = (\<lambda>pkg. sample_config),
       fixWindowsVersion = (\<lambda>v. v @ ''.0''),
       json_stringify = (\<lambda>j. case j of JObj kvs \<Rightarrow> js_join '','' (map fst kvs) | _ \<Rightarrow> []),
       plist_parse = (\<lambda>t. if t = sample_plist_text then Some [(''CFBundleName'', JStr ''nwjs'')]
                           else None),
       plist_build = (\<lambda>doc. js_join '','' (map fst doc)),
       decode = sample_decode,
       encode = sample_encode,
       replace_entries = (\<lambda>f s. s),
       semver_parse = map_of sample_versions,
       glob_match = sample_match \<rparr>"

definition sample_ledger :: ledger where
  "sample_ledger =
     [\<lparr> le_version = ''1.0.0'', le_source = ''app-1.0.0-win-x64'', le_installers = [],
        le_updaters = [] \<rparr>,
      \<lparr> le_version = ''1.1.0'', le_source = ''app-1.1.0-win-x64'', le_installers = [],
        le_updaters = [] \<rparr>,
      \<lparr> le_version = ''1.3.0'', le_source = ''app-1.3.0-win-x64'', le_installers = [],
        le_updaters = [] \<rparr>]"

fun sample_answer :: "event \<Rightarrow> answer" where
  "sample_answer (Spawn7za args cwd) = ExitCode 0"
| "sample_answer TmpFile = Str ''/tmp/list''"
| "sample_answer TmpName = Str ''/tmp/name''"
| "sample_answer (ReadFile p enc) = Bytes (sample_encode Utf8 sample_plist_text)"
| "sample_answer (ReadJson p) = Document sample_pkg"
| "sample_answer (Globby patterns cwd ignore) =
     (if patterns = [''**/*''] then Strs [''index.html'', ''dist'', ''dist/old.exe'', ''secret/key'']
      else Strs [''nwjs.app/Contents/Resources/en.lproj/InfoPlist.strings''])"
| "sample_answer (FindExcludableDependencies d pkg) = Strs [''node_modules/unused'']"
| "sample_answer (FindExecutable platform d) = Str (d @ ''/nw.exe'')"
| "sample_answer (FindFFmpeg platform d) = Str (d @ ''/ffmpeg.dll'')"
| "sample_answer (FindRuntimeRoot platform d) = Str d"
| "sample_answer (FetchRuntime opts) = Str ''/cache/runtime''"
| "sample_answer (FetchFFmpeg opts) = Str ''/cache/ffmpeg''"
| "sample_answer (NsisComposerMake opts) = Str ''!script''"
| "sample_answer (NsisDifferMake fromDir toDir opts) = Str ''!diff''"
| "sample_answer (Nsis7ZipperMake archive opts) = Str ''!7z''"
| "sample_answer (LoadLedger p) = Ledger sample_ledger"
| "sample_answer ev = Done"

definition sample_env :: env where
  "sample_env tr ev = sample_answer ev"

text \<open>The sample world with one tool result replaced.\<close>

definition exits_with :: "int \<Rightarrow> env" where
  "exits_with c tr ev = (case ev of Spawn7za args cwd \<Rightarrow> ExitCode c | _ \<Rightarrow> sample_answer ev)"

definition compiler_fails :: env where
  "compiler_fails tr ev = (case ev of NsisBuild cwd script quiet \<Rightarrow> Failed | _ \<Rightarrow> sample_answer ev)"

definition sample_builder :: "builder_options \<Rightarrow> builder" where
  "sample_builder opts = Builder sample_lib opts ''/proj''"

definition sample_parent :: builder where
  "sample_parent =
     sample_builder (no_options\<lparr> win := Some True, x64 := Some True, chromeApp := Some True,
       mirror := Some ''https://mirror.example/'', concurrent := Some True,
       mute := Some False \<rparr>)"

text \<open>The sample world where every file read is UTF-16: the property list, little endian.\<close>

definition utf16_files :: env where
  "utf16_files tr ev =
     (case ev of
        ReadFile p enc \<Rightarrow> Bytes (sample_encode Ucs2 sample_plist_text)
      | _ \<Rightarrow> sample_answer ev)"

text \<open>
  The sample world of a Mac bundle: the property list is UTF-8, the localized strings are
  UTF-16.
\<close>

definition mac_files :: env where
  "mac_files tr ev =
     (case ev of
        ReadFile p enc \<Rightarrow>
          (if endsWith p ''Info.plist'' then Bytes (sample_encode Utf8 sample_plist_text)
           else Bytes (sample_encode Ucs2 sample_plist_text))
      | _ \<Rightarrow> sample_answer ev)"




section \<open>Verified properties\<close>

lemma bind_io_Inr:
  "m tr = (Inr x, tr') \<Longrightarrow> bind_io m f tr = f x tr'"
  by (simp add: bind_io_def)

lemma bind_io_Inl:
  "m tr = (Inl e, tr') \<Longrightarrow> bind_io m f tr = (Inl e, tr')"
  by (simp add: bind_io_def)

lemma sample_lib_simps:
  "path_resolve sample_lib = js_join ''/''"
  "path_dirname sample_lib = sample_dirname"
  "path_basename sample_lib = sample_basename"
  "path_join sample_lib = js_join ''/''"
  "path_normalize sample_lib = (\<lambda>p. p)"
  "default_mirror sample_lib = ''https://dl.nwjs.io/''"
  "mk_config sample_lib = (\<lambda>pkg. sample_config)"
  "fixWindowsVersion sample_lib = (\<lambda>v. v @ ''.0'')"
  "json_stringify sample_lib (JObj kvs) = js_join '','' (map fst kvs)"
  "plist_parse sample_lib t =
     (if t = sample_plist_text then Some [(''CFBundleName'', JStr ''nwjs'')] else None)"
  "plist_build sample_lib doc = js_join '','' (map fst doc)"
  "decode sample_lib = sample_decode"
  "encode sample_lib = sample_encode"
  "replace_entries sample_lib f s = s"
  "semver_parse sample_lib = map_of sample_versions"
  "glob_match sample_lib = sample_match"
  by (simp_all add: sample_lib_def)

subsection \<open>Runs of the primitive calls\<close>

lemma call_run:
  "call env ev tr = (if env tr ev = Failed then Inl (ExternalFailure ev) else Inr (env tr ev), tr @ [ev])"
  by (simp add: call_def split: answer.splits)

lemma spawnAsync_run:
  "spawnAsync env args cwd tr =
     (case env tr (Spawn7za args cwd) of
        ExitCode c \<Rightarrow> Inr c
      | _ \<Rightarrow> Inl (ExternalFailure (Spawn7za args cwd)), tr @ [Spawn7za args cwd])"
  by (simp add: spawnAsync_def bind_io_def call_run ret_def throw_def split: answer.splits)

lemma call_unit_run:
  "call_unit env ev tr = (if env tr ev = Failed then Inl (ExternalFailure ev) else Inr (), tr @ [ev])"
  by (simp add: call_unit_def bind_io_def call_run ret_def)

lemma call_string_run:
  "call_string env ev tr =
     (case env tr ev of Str s \<Rightarrow> Inr s | _ \<Rightarrow> Inl (ExternalFailure ev), tr @ [ev])"
  by (simp add: call_string_def bind_io_def call_run ret_def throw_def split: answer.splits)

lemma call_strings_run:
  "call_strings env ev tr =
     (case env tr ev of Strs s \<Rightarrow> Inr s | _ \<Rightarrow> Inl (ExternalFailure ev), tr @ [ev])"
  by (simp add: call_strings_def bind_io_def call_run ret_def throw_def split: answer.splits)

lemma extract_archive_run:
  "extract_archive lib env archive (Some d) ov tr =
     (case env tr (Spawn7za (extract_args lib archive d (default_overwrite ov)) None) of
        ExitCode c \<Rightarrow>
          if c = 2 then Inl (ERROR_PATH_NOT_FOUND archive)
          else if c \<noteq> 0 then Inl (ERROR_EXIT_CODE c)
          else Inr d
      | _ \<Rightarrow> Inl (ExternalFailure (Spawn7za (extract_args lib archive d (default_overwrite ov)) None)),
      tr @ [Spawn7za (extract_args lib archive d (default_overwrite ov)) None])"
  by (simp add: extract_archive_def default_dest_def bind_io_def spawnAsync_run ret_def throw_def
      split: answer.splits)

lemma extract_archive_trace:
  "snd (extract_archive lib env archive (Some d) ov tr) =
     tr @ [Spawn7za (extract_args lib archive d (default_overwrite ov)) None]"
  by (simp add: extract_archive_run)

lemma extract_archive_result:
  "extract_archive lib env archive (Some d) ov tr = (Inr r, t) \<Longrightarrow> r = d"
  by (auto simp: extract_archive_run split: answer.splits if_splits)

subsection \<open>Extraction dispatches on the suffix\<close>

text \<open>
  C4. For every archive path, \<^verbatim>\<open>extractGeneric\<close> dispatches on the suffix of the file
  name. With a \<^verbatim>\<open>.zip\<close> suffix it is the plain extraction, which spawns the archiver
  once. Otherwise, with a \<^verbatim>\<open>tar.gz\<close> suffix it is the gzip-tar extraction: when the
  outer and the inner extraction complete, the run is the two archiver calls followed by the
  removal of the intermediate \<^verbatim>\<open>.tar\<close> file. With any other suffix it fails with
  \<^verbatim>\<open>ERROR_UNKNOWN_EXTENSION\<close> and issues no event: the archiver is not invoked.
\<close>

theorem extractGeneric_dispatch:
  "extractGeneric lib env archive dest opts tr =
     (if endsWith archive ''.zip'' then
        extract_archive lib env archive (Some (default_dest lib archive dest))
          (Some (default_overwrite opts)) tr
      else if endsWith archive ''tar.gz'' then
        extractTarGz lib env archive (Some (default_dest lib archive dest))
          (Some (default_overwrite opts)) tr
      else (Inl ERROR_UNKNOWN_EXTENSION, tr))
   \<and> snd (extract_archive lib env archive (Some (default_dest lib archive dest))
            (Some (default_overwrite opts)) tr) =
       tr @ [Spawn7za (extract_args lib archive (default_dest lib archive dest)
                         (default_overwrite opts)) None]
   \<and> (\<forall>r1 t1 r2 t2.
        extract_archive lib env archive (Some (default_dest lib archive dest)) None tr = (Inr r1, t1)
        \<and> extract_archive lib env (tar_of lib archive (default_dest lib archive dest))
             (Some (default_dest lib archive dest)) None t1 = (Inr r2, t2)
        \<longrightarrow> snd (extractTarGz lib env archive (Some (default_dest lib archive dest))
                   (Some (default_overwrite opts)) tr) =
              tr @ [Spawn7za (extract_args lib archive (default_dest lib archive dest) False) None,
                    Spawn7za (extract_args lib (tar_of lib archive (default_dest lib archive dest))
                                (default_dest lib archive dest) False) None,
                    RemovePath (tar_of lib archive (default_dest lib archive dest))])"
proof (intro conjI allI impI)
  let ?d = "default_dest lib archive dest"
  have plain: "bind_io (extract_archive lib env archive (Some ?d) ov) (\<lambda>_. ret ?d) tr =
      extract_archive lib env archive (Some ?d) ov tr" for ov
    by (cases "extract_archive lib env archive (Some ?d) ov tr")
       (auto simp: bind_io_def ret_def dest: extract_archive_result split: sum.splits)
  have targz: "bind_io (extractTarGz lib env archive (Some ?d) ov) (\<lambda>_. ret ?d) tr =
      extractTarGz lib env archive (Some ?d) ov tr" for ov
    by (simp add: extractTarGz_def default_dest_def bind_io_def ret_def Let_def
        split: prod.splits sum.splits)
  show "extractGeneric lib env archive dest opts tr =
     (if endsWith archive ''.zip'' then
        extract_archive lib env archive (Some ?d) (Some (default_overwrite opts)) tr
      else if endsWith archive ''tar.gz'' then
        extractTarGz lib env archive (Some ?d) (Some (default_overwrite opts)) tr
      else (Inl ERROR_UNKNOWN_EXTENSION, tr))"
    by (simp add: extractGeneric_def Let_def plain targz throw_def)
next
  show "snd (extract_archive lib env archive (Some (default_dest lib archive dest))
            (Some (default_overwrite opts)) tr) =
       tr @ [Spawn7za (extract_args lib archive (default_dest lib archive dest)
                         (default_overwrite opts)) None]"
    by (simp add: extract_archive_trace default_overwrite_def)
next
  let ?d = "default_dest lib archive dest"
  fix r1 t1 r2 t2
  assume h: "extract_archive lib env archive (Some ?d) None tr = (Inr r1, t1)
        \<and> extract_archive lib env (tar_of lib archive ?d) (Some ?d) None t1 = (Inr r2, t2)"
  then have e1: "extract_archive lib env archive (Some ?d) None tr = (Inr r1, t1)"
    and e2: "extract_archive lib env (tar_of lib archive ?d) (Some ?d) None t1 = (Inr r2, t2)"
    by simp_all
  from e1 have t1: "t1 = tr @ [Spawn7za (extract_args lib archive ?d False) None]"
    using extract_archive_trace [of lib env archive ?d None tr] by (simp add: default_overwrite_def)
  from e2 have t2: "t2 = t1 @ [Spawn7za (extract_args lib (tar_of lib archive ?d) ?d False) None]"
    using extract_archive_trace [of lib env "tar_of lib archive ?d" ?d None t1]
    by (simp add: default_overwrite_def)
  have "extractTarGz lib env archive (Some ?d) (Some (default_overwrite opts)) tr =
      bind_io (removeAsync env (tar_of lib archive ?d)) (\<lambda>_. ret ?d) t2"
    unfolding extractTarGz_def Let_def default_dest_def option.case
    using e1 e2 by (simp add: bind_io_Inr default_dest_def)
  then show "snd (extractTarGz lib env archive (Some ?d) (Some (default_overwrite opts)) tr) =
              tr @ [Spawn7za (extract_args lib archive ?d False) None,
                    Spawn7za (extract_args lib (tar_of lib archive ?d) ?d False) None,
                    RemovePath (tar_of lib archive ?d)]"
    by (simp add: removeAsync_def call_unit_run bind_io_def ret_def t1 t2)
qed

lemma sample_paths:
  "sample_dirname ''/d/a.tar.gz'' = ''/d''" "sample_basename ''/d/a.tar'' = ''a.tar''"
  by (simp_all add: sample_dirname_def sample_basename_def)

theorem extractGeneric_dispatch_witness:
  "extractGeneric sample_lib sample_env ''/d/a.tar.gz'' None None [] =
     (Inr ''/d'',
      [Spawn7za [''x'', ''-y'', ''-aos'', ''-o/d'', ''/d/a.tar.gz''] None,
       Spawn7za [''x'', ''-y'', ''-aos'', ''-o/d'', ''/d/a.tar''] None,
       RemovePath ''/d/a.tar''])"
  using extractGeneric_dispatch [of sample_lib sample_env "''/d/a.tar.gz''" None None "[]"]
  by (simp add: endsWith_def default_dest_def default_overwrite_def sample_lib_def sample_paths
      extract_archive_run extract_args_def sample_env_def tar_of_def slice_to_minus_def
      extractTarGz_def bind_io_def ret_def removeAsync_def call_unit_run Let_def)

subsection \<open>Exit codes of the archiver\<close>

lemma extract_archive_nonzero:
  assumes "env tr (Spawn7za (extract_args lib archive (default_dest lib archive dest)
                     (default_overwrite ov)) None) = ExitCode c"
    and "c \<noteq> 0"
  shows "extract_archive lib env archive dest ov tr =
     (Inl (if c = 2 then ERROR_PATH_NOT_FOUND archive else ERROR_EXIT_CODE c),
      tr @ [Spawn7za (extract_args lib archive (default_dest lib archive dest)
                        (default_overwrite ov)) None])"
  using assms
  by (simp add: extract_archive_def Let_def bind_io_def spawnAsync_run throw_def)

lemma compress_returns_code:
  assumes "tmpFile env tr = (Inr listfiles, t1)"
    and "writeFileAsync env listfiles (Text (js_join crlf (map (path_normalize lib) fs))) t1
           = (Inr (), t2)"
    and "env t2 (Spawn7za (compress_args lib type archive listfiles) (Some d)) = ExitCode c"
  shows "compress lib env d fs type archive tr =
     (Inr c, t2 @ [Spawn7za (compress_args lib type archive listfiles) (Some d)])"
  using assms
  by (simp add: compress_def bind_io_Inr) (simp add: bind_io_def spawnAsync_run ret_def)

text \<open>
  C6, as the code has it. An extraction whose archiver exits with a non-zero code raises an
  error and never returns: exit code 2 is reported as \<^verbatim>\<open>ERROR_PATH_NOT_FOUND\<close> naming
  the archive, every other non-zero code as \<^verbatim>\<open>ERROR_EXIT_CODE\<close> carrying the code.
  A compression raises nothing on a non-zero exit: once the list file is written it returns
  the archiver's exit code, whatever it is, to its caller.
\<close>

theorem archiver_exit_codes:
  "(\<forall>c. env tr (Spawn7za (extract_args lib archive (default_dest lib archive dest)
                          (default_overwrite ov)) None) = ExitCode c \<and> c \<noteq> 0
        \<longrightarrow> extract_archive lib env archive dest ov tr =
              (Inl (if c = 2 then ERROR_PATH_NOT_FOUND archive else ERROR_EXIT_CODE c),
               tr @ [Spawn7za (extract_args lib archive (default_dest lib archive dest)
                                 (default_overwrite ov)) None]))
   \<and> (\<forall>listfiles t1 t2 c.
         tmpFile env tr = (Inr listfiles, t1)
         \<and> writeFileAsync env listfiles (Text (js_join crlf (map (path_normalize lib) fs))) t1
             = (Inr (), t2)
         \<and> env t2 (Spawn7za (compress_args lib type archive listfiles) (Some d)) = ExitCode c
        \<longrightarrow> compress lib env d fs type archive tr =
              (Inr c, t2 @ [Spawn7za (compress_args lib type archive listfiles) (Some d)]))"
  using extract_archive_nonzero compress_returns_code by blast

theorem archiver_exit_codes_witness:
  "extract_archive sample_lib (exits_with 3) ''/d/a.zip'' None None [] =
     (Inl (ERROR_EXIT_CODE 3), [Spawn7za [''x'', ''-y'', ''-aos'', ''-o/d'', ''/d/a.zip''] None])
   \<and> compress sample_lib (exits_with 7) ''/proj'' [''index.html'', ''main.js''] ''zip'' ''/tmp/name'' [] =
     (Inr 7,
      [TmpFile, WriteFile ''/tmp/list'' (Text (''index.html'' @ crlf @ ''main.js'')),
       Spawn7za [''a'', ''-tzip'', ''/tmp/name'', ''@/tmp/list''] (Some ''/proj'')])"
  using archiver_exit_codes [of "exits_with 3" "[]" sample_lib "''/d/a.zip''" None None
      "[''index.html'', ''main.js'']" "''zip''" "''/proj''"]
    archiver_exit_codes [of "exits_with 7" "[]" sample_lib "''/tmp/name''" None None
      "[''index.html'', ''main.js'']" "''zip''" "''/proj''"]
  by (simp add: exits_with_def extract_args_def compress_args_def default_dest_def
      default_overwrite_def sample_lib_def sample_dirname_def tmpFile_def call_string_run
      writeFileAsync_def call_unit_run)

text \<open>
  The claim as stated fails: a compression whose archiver exits with code 1 returns 1 without
  raising, and an extraction whose archiver exits with code 2 raises an error that carries
  the archive path, not the exit code.
\<close>

theorem archiver_exit_codes_counterexample:
  "compress sample_lib (exits_with 1) ''/proj'' [''index.html''] ''zip'' ''/tmp/name'' [] =
     (Inr 1,
      [TmpFile, WriteFile ''/tmp/list'' (Text ''index.html''),
       Spawn7za [''a'', ''-tzip'', ''/tmp/name'', ''@/tmp/list''] (Some ''/proj'')])
   \<and> extract_archive sample_lib (exits_with 2) ''/d/a.zip'' None None [] =
     (Inl (ERROR_PATH_NOT_FOUND ''/d/a.zip''),
      [Spawn7za [''x'', ''-y'', ''-aos'', ''-o/d'', ''/d/a.zip''] None])"
  by (simp add: compress_def extract_archive_def Let_def bind_io_def tmpFile_def call_string_run
      writeFileAsync_def call_unit_run spawnAsync_run exits_with_def ret_def throw_def
      extract_args_def compress_args_def default_dest_def default_overwrite_def sample_lib_def
      sample_dirname_def)

subsection \<open>The task matrix\<close>

lemma task_matrix_product:
  "task_matrix opts =
     List.product (filter (\<lambda>p. truthy (get_flag opts p)) platforms)
                  (filter (\<lambda>a. truthy (get_flag opts a)) archs)"
  by (simp add: task_matrix_def platforms_def archs_def)

lemma build_no_task:
  "task_matrix (options b) = [] \<Longrightarrow> build lib env b tr = (Inl ERROR_NO_TASK, tr)"
  by (simp add: throw_def)

text \<open>
  C1. For every combination of the flags, the task matrix that \<^verbatim>\<open>build\<close> computes is
  the cross product of the enabled platforms and the enabled architectures, in the order
  win, mac, linux by x86, x64; when it is empty, \<^verbatim>\<open>build\<close> fails with
  \<^verbatim>\<open>ERROR_NO_TASK\<close> and has issued no event: no task has run.
\<close>

theorem task_matrix_is_cross_product:
  "task_matrix (options b) =
     List.product (filter (\<lambda>p. truthy (get_flag (options b) p)) [''win'', ''mac'', ''linux''])
                  (filter (\<lambda>a. truthy (get_flag (options b) a)) [''x86'', ''x64''])
   \<and> (task_matrix (options b) = [] \<longrightarrow> build lib env b tr = (Inl ERROR_NO_TASK, tr))"
  using task_matrix_product [of "options b"] build_no_task [of b lib env tr]
  by (simp add: platforms_def archs_def)

theorem task_matrix_is_cross_product_witness:
  "task_matrix (options (sample_builder no_options)) = []
   \<and> build sample_lib sample_env (sample_builder no_options) [] = (Inl ERROR_NO_TASK, [])
   \<and> task_matrix (options (sample_builder (no_options\<lparr>win := Some True, linux := Some True,
         x64 := Some True\<rparr>))) = [(''win'', ''x64''), (''linux'', ''x64'')]"
  using task_matrix_is_cross_product [of "sample_builder no_options" sample_lib sample_env "[]"]
    task_matrix_is_cross_product [of "sample_builder (no_options\<lparr>win := Some True,
         linux := Some True, x64 := Some True\<rparr>)" sample_lib sample_env "[]"]
  by (simp add: sample_builder_def Builder_def mergeOptions_def DEFAULT_OPTIONS_def no_options_def
      or_default_def get_flag_def truthy_def)

subsection \<open>The options of a concurrent sub-build\<close>

lemma sub_options_fields:
  assumes "platform \<in> set platforms" and "arch \<in> set archs"
  shows "sub_options b platform arch =
     \<lparr> win = (if platform = ''win'' then Some True else None),
       mac = (if platform = ''mac'' then Some True else None),
       linux = (if platform = ''linux'' then Some True else None),
       x86 = (if arch = ''x86'' then Some True else None),
       x64 = (if arch = ''x64'' then Some True else None),
       chromeApp = None,
       mirror = mirror (options b),
       concurrent = Some False,
       mute = Some True \<rparr>"
  using assms
  by (auto simp: sub_options_def set_flag_def no_options_def platforms_def archs_def)

lemma task_matrix_members:
  "(platform, arch) \<in> set (task_matrix opts) \<Longrightarrow> platform \<in> set platforms \<and> arch \<in> set archs"
  by (auto simp: task_matrix_product)

lemma sub_builder_tasks:
  assumes "platform \<in> set platforms" and "arch \<in> set archs"
  shows "task_matrix (options (Builder lib (sub_options b platform arch) d)) = [(platform, arch)]"
  using assms
  by (auto simp: task_matrix_product sub_options_fields Builder_def mergeOptions_def
      DEFAULT_OPTIONS_def or_default_def get_flag_def truthy_def platforms_def archs_def)

lemma sub_builder_flags:
  assumes "platform \<in> set platforms" and "arch \<in> set archs"
  shows "chromeApp (options (Builder lib (sub_options b platform arch) d)) = Some False"
    and "concurrent (options (Builder lib (sub_options b platform arch) d)) = Some False"
    and "mute (options (Builder lib (sub_options b platform arch) d)) = Some True"
    and "mirror (options (Builder lib (sub_options b platform arch) d)) =
           or_default (mirror (options b)) (Some (default_mirror lib))"
  using assms
  by (simp_all add: sub_options_fields Builder_def mergeOptions_def DEFAULT_OPTIONS_def
      or_default_def)

lemma sub_build_run:
  assumes "platform \<in> set platforms" and "arch \<in> set archs"
  shows "build lib env (Builder lib (sub_options b platform arch) (dir b)) tr =
     bind_io (readJsonAsync env (path_resolve lib [dir b, ''package.json'']))
       (\<lambda>pkg. build_tasks lib env (Builder lib (sub_options b platform arch) (dir b)) pkg
                 (mk_config lib pkg) [(platform, arch)]) tr"
proof -
  let ?sub = "Builder lib (sub_options b platform arch) (dir b)"
  have d: "dir ?sub = dir b" by (simp add: Builder_def)
  show ?thesis
    by (subst build.simps)
       (simp add: sub_builder_tasks [OF assms] sub_builder_flags [OF assms] manifest_name_def
         truthy_def d)
qed

text \<open>
  C10. In the concurrent branch, the options object built for a task of the matrix holds
  exactly the task's platform flag and architecture flag (both true), the parent's mirror,
  \<^verbatim>\<open>concurrent: false\<close> and \<^verbatim>\<open>mute: true\<close>, whatever the parent's \<^verbatim>\<open>mute\<close> is; every
  other field, \<^verbatim>\<open>chromeApp\<close> among them, is left undefined. The concurrent build runs one
  sub-build per task on the builder constructed from that object, and such a sub-build reads
  \<^verbatim>\<open>package.json\<close>, never \<^verbatim>\<open>manifest.json\<close>, before it runs its single task.
\<close>

theorem concurrent_sub_build:
  assumes "(platform, arch) \<in> set (task_matrix (options b))"
  shows "sub_options b platform arch =
     \<lparr> win = (if platform = ''win'' then Some True else None),
       mac = (if platform = ''mac'' then Some True else None),
       linux = (if platform = ''linux'' then Some True else None),
       x86 = (if arch = ''x86'' then Some True else None),
       x64 = (if arch = ''x64'' then Some True else None),
       chromeApp = None,
       mirror = mirror (options b),
       concurrent = Some False,
       mute = Some True \<rparr>
   \<and> (truthy (concurrent (options b)) \<longrightarrow>
         build lib env b tr = build_each lib env b (task_matrix (options b)) tr)
   \<and> build_each lib env b ((platform, arch) # rest) tr =
       (case build lib env (Builder lib (sub_options b platform arch) (dir b)) tr of
          (Inl e, tr') \<Rightarrow> (Inl e, tr')
        | (Inr u, tr') \<Rightarrow> build_each lib env b rest tr')
   \<and> manifest_name (options (Builder lib (sub_options b platform arch) (dir b))) =
       ''package.json''
   \<and> build lib env (Builder lib (sub_options b platform arch) (dir b)) tr =
       bind_io (readJsonAsync env (path_resolve lib [dir b, ''package.json'']))
         (\<lambda>pkg. build_tasks lib env (Builder lib (sub_options b platform arch) (dir b)) pkg
                   (mk_config lib pkg) [(platform, arch)]) tr"
proof -
  from assms have m: "platform \<in> set platforms" "arch \<in> set archs"
    using task_matrix_members by blast+
  have conc: "truthy (concurrent (options b)) \<longrightarrow>
       build lib env b tr = build_each lib env b (task_matrix (options b)) tr"
    using assms by (subst build.simps) (auto simp: Let_def)
  have each: "build_each lib env b ((platform, arch) # rest) tr =
       (case build lib env (Builder lib (sub_options b platform arch) (dir b)) tr of
          (Inl e, tr') \<Rightarrow> (Inl e, tr')
        | (Inr u, tr') \<Rightarrow> build_each lib env b rest tr')"
    by simp
  have name: "manifest_name (options (Builder lib (sub_options b platform arch) (dir b))) =
       ''package.json''"
    by (simp add: manifest_name_def sub_builder_flags [OF m] truthy_def)
  show ?thesis
    using sub_options_fields [OF m, of b] conc each name sub_build_run [OF m, of lib env b tr]
    by blast
qed

lemma sample_parent_options:
  "options sample_parent =
     \<lparr> win = Some True, mac = Some False, linux = Some False, x86 = Some False, x64 = Some True,
       chromeApp = Some True, mirror = Some ''https://mirror.example/'',
       concurrent = Some True, mute = Some False \<rparr>"
  by (simp add: sample_parent_def sample_builder_def Builder_def mergeOptions_def
      DEFAULT_OPTIONS_def no_options_def or_default_def)

theorem concurrent_sub_build_witness:
  "(''win'', ''x64'') \<in> set (task_matrix (options sample_parent))
   \<and> manifest_name (options sample_parent) = ''manifest.json''
   \<and> sub_options sample_parent ''win'' ''x64'' =
       \<lparr> win = Some True, mac = None, linux = None, x86 = None, x64 = Some True,
         chromeApp = None, mirror = Some ''https://mirror.example/'',
         concurrent = Some False, mute = Some True \<rparr>
   \<and> manifest_name (options (Builder sample_lib (sub_options sample_parent ''win'' ''x64'')
         (dir sample_parent))) = ''package.json''"
proof -
  have t: "(''win'', ''x64'') \<in> set (task_matrix (options sample_parent))"
    by (simp add: task_matrix_product sample_parent_options platforms_def archs_def get_flag_def
        truthy_def)
  have n: "manifest_name (options sample_parent) = ''manifest.json''"
    by (simp add: manifest_name_def sample_parent_options truthy_def)
  note c = concurrent_sub_build [OF t, of sample_lib sample_env "[]" "[]"]
  from c have s: "sub_options sample_parent ''win'' ''x64'' =
       \<lparr> win = Some True, mac = None, linux = None, x86 = None, x64 = Some True,
         chromeApp = None, mirror = Some ''https://mirror.example/'',
         concurrent = Some False, mute = Some True \<rparr>"
    by (simp only: sample_parent_options) simp
  from c have m: "manifest_name (options (Builder sample_lib
         (sub_options sample_parent ''win'' ''x64'') (dir sample_parent))) = ''package.json''"
    by blast
  from t n s m show ?thesis by blast
qed

subsection \<open>Sequencing\<close>

lemma bind_io_InrE:
  assumes "bind_io m f tr = (Inr y, tr')"
  obtains x t where "m tr = (Inr x, t)" and "f x t = (Inr y, tr')"
  using assms by (auto simp: bind_io_def split: prod.splits sum.splits)

lemma call_unit_InrD:
  "call_unit env ev tr = (Inr u, tr') \<Longrightarrow> tr' = tr @ [ev]"
  by (simp add: call_unit_run split: if_splits)

subsection \<open>The embedded manifest\<close>













lemma sample_select_files:
  "select_files sample_lib sample_env (sample_builder opts) sample_pkg sample_config tr =
     (Inr [''index.html''],
      tr @ [FindExcludableDependencies ''/proj'' sample_pkg,
            Globby [''**/*''] ''/proj''
              [''secret/**'', ''**/node_modules/.bin'',
               ''**/node_modules/*/{ example, examples, test, tests }'',
               ''**/{ .DS_Store, .git, .hg, .svn, *.log }'',
               ''node_modules/unused'', ''node_modules/unused/**/*'', ''dist'', ''dist/**/*'']])"
  by (simp add: select_files_def bind_io_def call_strings_run sample_env_def sample_builder_def
      Builder_def globby_def ret_def ignore_list_def generalExcludes_def sample_config_def
      sample_lib_def sample_match_def endsWith_def)

lemma sample_stripped_manifest:
  "stripped_manifest sample_pkg (strippedProperties sample_config) =
     Inr [(''name'', JStr ''app''), (''version'', JStr ''1.2.0''), (''main'', JStr ''index.html'')]"
  by (simp add: stripped_manifest_def sample_pkg_def sample_config_def js_assign_def)

lemma call_string_InrD:
  "call_string env ev tr = (Inr s, tr') \<Longrightarrow> tr' = tr @ [ev]"
  by (simp add: call_string_run split: answer.splits)












subsection \<open>The selected files\<close>






subsection \<open>Mac metadata and encodings\<close>

lemma readFileAsync_run:
  "readFileAsync env p enc tr =
     (case env tr (ReadFile p enc) of
        Bytes bs \<Rightarrow> Inr bs
      | _ \<Rightarrow> Inl (ExternalFailure (ReadFile p enc)), tr @ [ReadFile p enc])"
  by (simp add: readFileAsync_def bind_io_def call_run ret_def throw_def split: answer.splits)

lemma updatePlist_run:
  assumes "updatePlist lib env targetDir cfg tr = (Inr u, tr')"
  shows "\<exists>data doc.
     env tr (ReadFile (plist_path lib targetDir) (Some Utf8)) = Bytes data
     \<and> plist_parse lib (decode lib Utf8 data) = Some doc
     \<and> tr' = tr @ [ReadFile (plist_path lib targetDir) (Some Utf8),
                  WriteFile (plist_path lib targetDir)
                    (Text (plist_build lib (set_bundle_fields cfg doc)))]"
  using assms
  by (auto simp: updatePlist_def readPlist_def writePlist_def writeFileAsync_def Let_def
      bind_io_def readFileAsync_run call_unit_run ret_def throw_def
      split: answer.splits option.splits if_splits)

lemma fixMacMeta_file_run:
  assumes "fixMacMeta_file lib env targetDir cfg file tr = (Inr u, tr')"
  shows "\<exists>data.
     env tr (ReadFile (path_resolve lib [targetDir, file]) None) = Bytes data
     \<and> tr' = tr @ [ReadFile (path_resolve lib [targetDir, file]) None,
                  WriteFile (path_resolve lib [targetDir, file])
                    (Raw (encode lib (detect_encoding data)
                       (replace_entries lib (strings_entry cfg)
                          (decode lib (detect_encoding data) data))))]"
  using assms
  by (auto simp: fixMacMeta_file_def writeFileAsync_def Let_def
      bind_io_def readFileAsync_run call_unit_run
      split: answer.splits if_splits)

lemma updateMacIcon_run:
  assumes "updateMacIcon lib env b targetDir cfg tr = (Inr u, tr')"
  shows "tr' = tr @ icon_events lib b targetDir cfg"
proof (cases "given (mac_icon (config_mac cfg))")
  case True
  with assms have "call_unit env
      (CopyPath (path_resolve lib [dir b, the (mac_icon (config_mac cfg))])
         (path_resolve lib [targetDir, ''./nwjs.app/Contents/Resources/app.icns''])) tr =
      (Inr u, tr')"
    by (simp add: updateMacIcon_def copyAsync_def Let_def)
  from call_unit_InrD [OF this] True show ?thesis by (simp add: icon_events_def)
next
  case False
  with assms show ?thesis by (simp add: updateMacIcon_def Let_def ret_def icon_events_def)
qed

lemma fixMacMeta_files_run:
  assumes "fixMacMeta_files lib env targetDir cfg fs tr = (Inr u, tr')"
  shows "tr' = strings_trace lib env targetDir cfg fs tr"
  using assms
proof (induction fs arbitrary: tr)
  case Nil
  then show ?case by (simp add: ret_def)
next
  case (Cons name rest)
  from Cons.prems obtain x t where
    one: "fixMacMeta_file lib env targetDir cfg name tr = (Inr x, t)"
    and more: "fixMacMeta_files lib env targetDir cfg rest t = (Inr u, tr')"
    unfolding fixMacMeta_files.simps by (rule bind_io_InrE)
  from fixMacMeta_file_run [OF one] obtain data where
    d: "env tr (ReadFile (path_resolve lib [targetDir, name]) None) = Bytes data"
    and t: "t = tr @ strings_events lib targetDir cfg name data"
    unfolding strings_events_def by blast
  from Cons.IH [OF more] t d show ?case by simp
qed

lemma fixMacMeta_run:
  assumes "fixMacMeta lib env targetDir cfg tr = (Inr u, tr')"
  shows "\<exists>found. env tr (Globby [''**/InfoPlist.strings''] targetDir []) = Strs found
     \<and> tr' = strings_trace lib env targetDir cfg found
               (tr @ [Globby [''**/InfoPlist.strings''] targetDir []])"
proof -
  from assms obtain fs t where
    g: "globby lib env [''**/InfoPlist.strings''] targetDir [] tr = (Inr fs, t)"
    and r: "fixMacMeta_files lib env targetDir cfg fs t = (Inr u, tr')"
    unfolding fixMacMeta_def by (rule bind_io_InrE)
  from g have "env tr (Globby [''**/InfoPlist.strings''] targetDir []) = Strs fs
      \<and> t = tr @ [Globby [''**/InfoPlist.strings''] targetDir []]"
    by (auto simp: globby_def bind_io_def call_strings_run ret_def split: answer.splits)
  with fixMacMeta_files_run [OF r] show ?thesis by blast
qed

lemma prepareMacBuild_run:
  assumes "prepareMacBuild lib env b targetDir cfg tr = (Inr u, tr')"
  shows "\<exists>data doc found.
     env tr (ReadFile (plist_path lib targetDir) (Some Utf8)) = Bytes data
     \<and> plist_parse lib (decode lib Utf8 data) = Some doc
     \<and> env (tr @ [ReadFile (plist_path lib targetDir) (Some Utf8),
                  WriteFile (plist_path lib targetDir)
                    (Text (plist_build lib (set_bundle_fields cfg doc)))]
              @ icon_events lib b targetDir cfg)
         (Globby [''**/InfoPlist.strings''] targetDir []) = Strs found
     \<and> tr' = strings_trace lib env targetDir cfg found
               (tr @ [ReadFile (plist_path lib targetDir) (Some Utf8),
                      WriteFile (plist_path lib targetDir)
                        (Text (plist_build lib (set_bundle_fields cfg doc)))]
                   @ icon_events lib b targetDir cfg
                   @ [Globby [''**/InfoPlist.strings''] targetDir []])"
proof -
  from assms obtain x t1 where
    p: "updatePlist lib env targetDir cfg tr = (Inr x, t1)"
    and r: "bind_io (updateMacIcon lib env b targetDir cfg)
         (\<lambda>_. fixMacMeta lib env targetDir cfg) t1 = (Inr u, tr')"
    unfolding prepareMacBuild_def by (rule bind_io_InrE)
  from r obtain y t2 where
    i: "updateMacIcon lib env b targetDir cfg t1 = (Inr y, t2)"
    and m: "fixMacMeta lib env targetDir cfg t2 = (Inr u, tr')"
    by (rule bind_io_InrE)
  from updatePlist_run [OF p] obtain data doc where
    d: "env tr (ReadFile (plist_path lib targetDir) (Some Utf8)) = Bytes data"
    and q: "plist_parse lib (decode lib Utf8 data) = Some doc"
    and t1: "t1 = tr @ [ReadFile (plist_path lib targetDir) (Some Utf8),
                  WriteFile (plist_path lib targetDir)
                    (Text (plist_build lib (set_bundle_fields cfg doc)))]"
    by blast
  from updateMacIcon_run [OF i] have t2: "t2 = t1 @ icon_events lib b targetDir cfg" .
  from fixMacMeta_run [OF m] obtain found where
    f: "env t2 (Globby [''**/InfoPlist.strings''] targetDir []) = Strs found"
    and e: "tr' = strings_trace lib env targetDir cfg found
               (t2 @ [Globby [''**/InfoPlist.strings''] targetDir []])"
    by blast
  from d q f e show ?thesis unfolding t2 t1 by (simp only: append_assoc) blast
qed

lemma set_bundle_fields_map_of:
  "map_of (set_bundle_fields cfg doc) =
     (map_of doc)
       (''CFBundleIdentifier'' \<mapsto> JStr (appId cfg),
        ''CFBundleName'' \<mapsto> JStr (mac_name (config_mac cfg)),
        ''CFBundleDisplayName'' \<mapsto> JStr (mac_displayName (config_mac cfg)),
        ''CFBundleVersion'' \<mapsto> JStr (mac_version (config_mac cfg)),
        ''CFBundleShortVersionString'' \<mapsto> JStr (mac_version (config_mac cfg)))"
  by (simp add: set_bundle_fields_def Let_def update_conv')

lemma buffer_indexOf_ge: "buffer_indexOf data sub \<ge> -1"
  by (induction data) (auto simp: Let_def)

lemma buffer_indexOf_found:
  "buffer_indexOf data sub \<ge> 0 \<longleftrightarrow> (\<exists>pre post. data = pre @ sub @ post)"
proof (induction data)
  case Nil
  then show ?case by auto
next
  case (Cons x xs)
  show ?case
  proof (cases "take (length sub) (x # xs) = sub")
    case True
    then have "x # xs = [] @ sub @ drop (length sub) (x # xs)"
      by (metis append_Nil append_take_drop_id)
    with True show ?thesis by (metis buffer_indexOf.simps(2) order_refl)
  next
    case False
    have step: "buffer_indexOf (x # xs) sub \<ge> 0 \<longleftrightarrow> buffer_indexOf xs sub \<ge> 0"
      using False buffer_indexOf_ge [of xs sub] by (auto simp: Let_def)
    have "(\<exists>pre post. x # xs = pre @ sub @ post) \<longleftrightarrow> (\<exists>pre post. xs = pre @ sub @ post)"
    proof
      assume "\<exists>pre post. x # xs = pre @ sub @ post"
      then obtain pre post where e: "x # xs = pre @ sub @ post" by blast
      show "\<exists>pre post. xs = pre @ sub @ post"
      proof (cases pre)
        case Nil
        with e have "take (length sub) (x # xs) = sub" by simp
        with False show ?thesis by simp
      next
        case (Cons p ps)
        with e have "xs = ps @ sub @ post" by simp
        then show ?thesis by blast
      qed
    next
      assume "\<exists>pre post. xs = pre @ sub @ post"
      then obtain pre post where "xs = pre @ sub @ post" by blast
      then have "x # xs = (x # pre) @ sub @ post" by simp
      then show "\<exists>pre post. x # xs = pre @ sub @ post" by blast
    qed
    with step Cons show ?thesis by simp
  qed
qed

lemma detect_encoding_scan:
  "detect_encoding data = Ucs2 \<longleftrightarrow> (\<exists>pre post. data = pre @ [0x43, 0x00, 0x46, 0x00] @ post)"
  "detect_encoding data = Utf8 \<longleftrightarrow> \<not> (\<exists>pre post. data = pre @ [0x43, 0x00, 0x46, 0x00] @ post)"
  using buffer_indexOf_found [of data "[0x43, 0x00, 0x46, 0x00]"]
  by (auto simp: detect_encoding_def)

text \<open>
  C7, as the code has it. Mac prepare (\<^verbatim>\<open>prepareMacBuild\<close>) starts with
  \<^verbatim>\<open>updatePlist\<close>, which rewrites the four descriptor fields of the bundle's property
  list (identifier, name, display name, and the version in both the long and the short
  field) and leaves every other key as parsed; it always reads that file as UTF-8 and writes
  the rebuilt document back as text, without looking at the bytes. After the icon, Mac
  prepare asks for the localized-strings files of the bundle and runs \<^verbatim>\<open>fixMacMeta\<close>
  over them: a completed run is the run of \<open>strings_trace\<close> over the files found, where
  each file in turn is read raw, scanned for the UTF-16 spelling of "CF" (bytes 43 00 46 00:
  UTF-16 when found, UTF-8 otherwise), decoded in the detected encoding and written back in
  that same encoding.
\<close>

theorem mac_prepare_encodings:
  "(\<forall>u tr'. prepareMacBuild lib env b targetDir cfg tr = (Inr u, tr') \<longrightarrow>
       (\<exists>t. updatePlist lib env targetDir cfg tr = (Inr (), t)))
   \<and> (\<forall>u tr'. prepareMacBuild lib env b targetDir cfg tr = (Inr u, tr') \<longrightarrow>
       (\<exists>data doc found.
          env tr (ReadFile (plist_path lib targetDir) (Some Utf8)) = Bytes data
          \<and> plist_parse lib (decode lib Utf8 data) = Some doc
          \<and> env (tr @ [ReadFile (plist_path lib targetDir) (Some Utf8),
                       WriteFile (plist_path lib targetDir)
                         (Text (plist_build lib (set_bundle_fields cfg doc)))]
                   @ icon_events lib b targetDir cfg)
              (Globby [''**/InfoPlist.strings''] targetDir []) = Strs found
          \<and> tr' = strings_trace lib env targetDir cfg found
                    (tr @ [ReadFile (plist_path lib targetDir) (Some Utf8),
                           WriteFile (plist_path lib targetDir)
                             (Text (plist_build lib (set_bundle_fields cfg doc)))]
                        @ icon_events lib b targetDir cfg
                        @ [Globby [''**/InfoPlist.strings''] targetDir []])))
   \<and> (\<forall>u tr'. updatePlist lib env targetDir cfg tr = (Inr u, tr') \<longrightarrow>
       (\<exists>data doc.
          env tr (ReadFile (plist_path lib targetDir) (Some Utf8)) = Bytes data
          \<and> plist_parse lib (decode lib Utf8 data) = Some doc
          \<and> tr' = tr @ [ReadFile (plist_path lib targetDir) (Some Utf8),
                       WriteFile (plist_path lib targetDir)
                         (Text (plist_build lib (set_bundle_fields cfg doc)))]))
   \<and> map_of (set_bundle_fields cfg doc) =
       (map_of doc)
         (''CFBundleIdentifier'' \<mapsto> JStr (appId cfg),
          ''CFBundleName'' \<mapsto> JStr (mac_name (config_mac cfg)),
          ''CFBundleDisplayName'' \<mapsto> JStr (mac_displayName (config_mac cfg)),
          ''CFBundleVersion'' \<mapsto> JStr (mac_version (config_mac cfg)),
          ''CFBundleShortVersionString'' \<mapsto> JStr (mac_version (config_mac cfg)))
   \<and> (\<forall>u tr'. fixMacMeta lib env targetDir cfg tr = (Inr u, tr') \<longrightarrow>
       (\<exists>found. env tr (Globby [''**/InfoPlist.strings''] targetDir []) = Strs found
          \<and> tr' = strings_trace lib env targetDir cfg found
                    (tr @ [Globby [''**/InfoPlist.strings''] targetDir []])))
   \<and> (\<forall>u tr'. fixMacMeta_files lib env targetDir cfg fs tr = (Inr u, tr') \<longrightarrow>
         tr' = strings_trace lib env targetDir cfg fs tr)
   \<and> (\<forall>raw. env tr (ReadFile (path_resolve lib [targetDir, name]) None) = Bytes raw \<longrightarrow>
         strings_trace lib env targetDir cfg (name # rest) tr =
           strings_trace lib env targetDir cfg rest
             (tr @ [ReadFile (path_resolve lib [targetDir, name]) None,
                    WriteFile (path_resolve lib [targetDir, name])
                      (Raw (encode lib (detect_encoding raw)
                         (replace_entries lib (strings_entry cfg)
                            (decode lib (detect_encoding raw) raw))))]))
   \<and> strings_trace lib env targetDir cfg [] tr = tr
   \<and> (\<forall>u tr'. fixMacMeta_file lib env targetDir cfg name tr = (Inr u, tr') \<longrightarrow>
       (\<exists>data.
          env tr (ReadFile (path_resolve lib [targetDir, name]) None) = Bytes data
          \<and> tr' = tr @ [ReadFile (path_resolve lib [targetDir, name]) None,
                       WriteFile (path_resolve lib [targetDir, name])
                         (Raw (encode lib (detect_encoding data)
                            (replace_entries lib (strings_entry cfg)
                               (decode lib (detect_encoding data) data))))]))
   \<and> (detect_encoding bytes = Ucs2 \<longleftrightarrow>
        (\<exists>pre post. bytes = pre @ [0x43, 0x00, 0x46, 0x00] @ post))
   \<and> (detect_encoding bytes = Utf8 \<longleftrightarrow>
        \<not> (\<exists>pre post. bytes = pre @ [0x43, 0x00, 0x46, 0x00] @ post))"
proof (intro conjI allI impI)
  show "\<exists>t. updatePlist lib env targetDir cfg tr = (Inr (), t)"
    if "prepareMacBuild lib env b targetDir cfg tr = (Inr u, tr')" for u tr'
    using that unfolding prepareMacBuild_def by (elim bind_io_InrE) auto
  show "\<exists>data doc found.
          env tr (ReadFile (plist_path lib targetDir) (Some Utf8)) = Bytes data
          \<and> plist_parse lib (decode lib Utf8 data) = Some doc
          \<and> env (tr @ [ReadFile (plist_path lib targetDir) (Some Utf8),
                       WriteFile (plist_path lib targetDir)
                         (Text (plist_build lib (set_bundle_fields cfg doc)))]
                   @ icon_events lib b targetDir cfg)
              (Globby [''**/InfoPlist.strings''] targetDir []) = Strs found
          \<and> tr' = strings_trace lib env targetDir cfg found
                    (tr @ [ReadFile (plist_path lib targetDir) (Some Utf8),
                           WriteFile (plist_path lib targetDir)
                             (Text (plist_build lib (set_bundle_fields cfg doc)))]
                        @ icon_events lib b targetDir cfg
                        @ [Globby [''**/InfoPlist.strings''] targetDir []])"
    if "prepareMacBuild lib env b targetDir cfg tr = (Inr u, tr')" for u tr'
    using that by (rule prepareMacBuild_run)
  show "\<exists>data doc.
          env tr (ReadFile (plist_path lib targetDir) (Some Utf8)) = Bytes data
          \<and> plist_parse lib (decode lib Utf8 data) = Some doc
          \<and> tr' = tr @ [ReadFile (plist_path lib targetDir) (Some Utf8),
                       WriteFile (plist_path lib targetDir)
                         (Text (plist_build lib (set_bundle_fields cfg doc)))]"
    if "updatePlist lib env targetDir cfg tr = (Inr u, tr')" for u tr'
    using that by (rule updatePlist_run)
  show "\<exists>found. env tr (Globby [''**/InfoPlist.strings''] targetDir []) = Strs found
          \<and> tr' = strings_trace lib env targetDir cfg found
                    (tr @ [Globby [''**/InfoPlist.strings''] targetDir []])"
    if "fixMacMeta lib env targetDir cfg tr = (Inr u, tr')" for u tr'
    using that by (rule fixMacMeta_run)
  show "tr' = strings_trace lib env targetDir cfg fs tr"
    if "fixMacMeta_files lib env targetDir cfg fs tr = (Inr u, tr')" for u tr'
    using that by (rule fixMacMeta_files_run)
  show "strings_trace lib env targetDir cfg (name # rest) tr =
           strings_trace lib env targetDir cfg rest
             (tr @ [ReadFile (path_resolve lib [targetDir, name]) None,
                    WriteFile (path_resolve lib [targetDir, name])
                      (Raw (encode lib (detect_encoding raw)
                         (replace_entries lib (strings_entry cfg)
                            (decode lib (detect_encoding raw) raw))))])"
    if "env tr (ReadFile (path_resolve lib [targetDir, name]) None) = Bytes raw" for raw
    using that by (simp add: strings_events_def)
  show "strings_trace lib env targetDir cfg [] tr = tr"
    by simp
  show "\<exists>data.
          env tr (ReadFile (path_resolve lib [targetDir, name]) None) = Bytes data
          \<and> tr' = tr @ [ReadFile (path_resolve lib [targetDir, name]) None,
                       WriteFile (path_resolve lib [targetDir, name])
                         (Raw (encode lib (detect_encoding data)
                            (replace_entries lib (strings_entry cfg)
                               (decode lib (detect_encoding data) data))))]"
    if "fixMacMeta_file lib env targetDir cfg name tr = (Inr u, tr')" for u tr'
    using that by (rule fixMacMeta_file_run)
qed (simp_all only: set_bundle_fields_map_of detect_encoding_scan)

lemma sample_utf8_roundtrip: "sample_decode Utf8 (sample_encode Utf8 s) = s"
  by (induction s) (simp_all add: unat_of_nat sample_decode.simps sample_encode.simps)

lemma sample_ucs2_roundtrip: "sample_decode Ucs2 (sample_encode Ucs2 s) = s"
  by (induction s) (simp_all add: unat_of_nat sample_decode.simps sample_encode.simps)

lemma sample_utf16_detected: "detect_encoding (sample_encode Ucs2 sample_plist_text) = Ucs2"
  by (simp add: detect_encoding_def sample_plist_text_def Let_def sample_encode.simps)

lemma sample_utf16_as_utf8:
  "sample_decode Utf8 (sample_encode Ucs2 sample_plist_text) \<noteq> sample_plist_text"
proof
  assume "sample_decode Utf8 (sample_encode Ucs2 sample_plist_text) = sample_plist_text"
  then have "length (sample_decode Utf8 (sample_encode Ucs2 sample_plist_text)) =
      length sample_plist_text"
    by simp
  then show False
    by (simp add: sample_plist_text_def length_concat sample_decode.simps sample_encode.simps)
qed

lemma mac_files_prepare_run:
  "prepareMacBuild sample_lib mac_files (sample_builder no_options) ''/t'' sample_config [] =
     (Inr (),
      [ReadFile ''/t/./nwjs.app/Contents/Info.plist'' (Some Utf8),
       WriteFile ''/t/./nwjs.app/Contents/Info.plist''
         (Text (''CFBundleName,CFBundleIdentifier,CFBundleDisplayName,CFBundleVersion,''
                @ ''CFBundleShortVersionString'')),
       Globby [''**/InfoPlist.strings''] ''/t'' [],
       ReadFile ''/t/nwjs.app/Contents/Resources/en.lproj/InfoPlist.strings'' None,
       WriteFile ''/t/nwjs.app/Contents/Resources/en.lproj/InfoPlist.strings''
         (Raw (sample_encode Ucs2 sample_plist_text))])"
proof -
  have p: "plist_path sample_lib ''/t'' = ''/t/./nwjs.app/Contents/Info.plist''"
    by (simp add: plist_path_def sample_lib_simps)
  have r1: "mac_files tr (ReadFile ''/t/./nwjs.app/Contents/Info.plist'' enc) =
      Bytes (sample_encode Utf8 sample_plist_text)" for tr enc
    by (simp add: mac_files_def endsWith_def)
  have r2: "mac_files tr (ReadFile ''/t/nwjs.app/Contents/Resources/en.lproj/InfoPlist.strings'' enc) =
      Bytes (sample_encode Ucs2 sample_plist_text)" for tr enc
    by (simp add: mac_files_def endsWith_def)
  have o: "mac_files tr (WriteFile q c) = Done" for tr q c
    by (simp add: mac_files_def)
  have g: "mac_files tr (Globby [''**/InfoPlist.strings''] ''/t'' []) =
      Strs [''nwjs.app/Contents/Resources/en.lproj/InfoPlist.strings'']" for tr
    by (simp add: mac_files_def)
  have u: "updatePlist sample_lib mac_files ''/t'' sample_config [] =
     (Inr (),
      [ReadFile ''/t/./nwjs.app/Contents/Info.plist'' (Some Utf8),
       WriteFile ''/t/./nwjs.app/Contents/Info.plist''
         (Text (''CFBundleName,CFBundleIdentifier,CFBundleDisplayName,CFBundleVersion,''
                @ ''CFBundleShortVersionString''))])"
    by (simp add: updatePlist_def readPlist_def writePlist_def writeFileAsync_def Let_def
        bind_io_def readFileAsync_run call_unit_run ret_def p r1 o)
       (simp add: sample_lib_simps sample_utf8_roundtrip ret_def call_unit_run o
         set_bundle_fields_def Let_def)
  have i: "updateMacIcon sample_lib mac_files (sample_builder no_options) ''/t'' sample_config t =
      (Inr (), t)" for t
    by (simp add: updateMacIcon_def Let_def given_def sample_config_def sample_mac_def ret_def)
  have f: "fixMacMeta sample_lib mac_files ''/t'' sample_config t =
      (Inr (), t @ [Globby [''**/InfoPlist.strings''] ''/t'' [],
       ReadFile ''/t/nwjs.app/Contents/Resources/en.lproj/InfoPlist.strings'' None,
       WriteFile ''/t/nwjs.app/Contents/Resources/en.lproj/InfoPlist.strings''
         (Raw (sample_encode Ucs2 sample_plist_text))])" for t
    by (simp add: fixMacMeta_def globby_def bind_io_def call_strings_run g ret_def
        fixMacMeta_file_def Let_def readFileAsync_run writeFileAsync_def call_unit_run
        sample_lib_simps r2 o sample_utf16_detected sample_ucs2_roundtrip)
  show ?thesis
    by (simp add: prepareMacBuild_def bind_io_def u i f)
qed

theorem mac_prepare_encodings_witness:
  "updatePlist sample_lib sample_env ''/t'' sample_config [] =
     (Inr (),
      [ReadFile ''/t/./nwjs.app/Contents/Info.plist'' (Some Utf8),
       WriteFile ''/t/./nwjs.app/Contents/Info.plist''
         (Text (''CFBundleName,CFBundleIdentifier,CFBundleDisplayName,CFBundleVersion,''
                @ ''CFBundleShortVersionString''))])
   \<and> fixMacMeta_file sample_lib utf16_files ''/t'' sample_config ''en.lproj/InfoPlist.strings'' [] =
     (Inr (),
      [ReadFile ''/t/en.lproj/InfoPlist.strings'' None,
       WriteFile ''/t/en.lproj/InfoPlist.strings''
         (Raw (sample_encode Ucs2 sample_plist_text))])
   \<and> prepareMacBuild sample_lib mac_files (sample_builder no_options) ''/t'' sample_config [] =
     (Inr (),
      [ReadFile ''/t/./nwjs.app/Contents/Info.plist'' (Some Utf8),
       WriteFile ''/t/./nwjs.app/Contents/Info.plist''
         (Text (''CFBundleName,CFBundleIdentifier,CFBundleDisplayName,CFBundleVersion,''
                @ ''CFBundleShortVersionString'')),
       Globby [''**/InfoPlist.strings''] ''/t'' [],
       ReadFile ''/t/nwjs.app/Contents/Resources/en.lproj/InfoPlist.strings'' None,
       WriteFile ''/t/nwjs.app/Contents/Resources/en.lproj/InfoPlist.strings''
         (Raw (sample_encode Ucs2 sample_plist_text))])
   \<and> (\<exists>data doc found.
         mac_files [] (ReadFile (plist_path sample_lib ''/t'') (Some Utf8)) = Bytes data
         \<and> plist_parse sample_lib (decode sample_lib Utf8 data) = Some doc
         \<and> mac_files ([] @ [ReadFile (plist_path sample_lib ''/t'') (Some Utf8),
                       WriteFile (plist_path sample_lib ''/t'')
                         (Text (plist_build sample_lib (set_bundle_fields sample_config doc)))]
                   @ icon_events sample_lib (sample_builder no_options) ''/t'' sample_config)
              (Globby [''**/InfoPlist.strings''] ''/t'' []) = Strs found
         \<and> [ReadFile ''/t/./nwjs.app/Contents/Info.plist'' (Some Utf8),
            WriteFile ''/t/./nwjs.app/Contents/Info.plist''
              (Text (''CFBundleName,CFBundleIdentifier,CFBundleDisplayName,CFBundleVersion,''
                     @ ''CFBundleShortVersionString'')),
            Globby [''**/InfoPlist.strings''] ''/t'' [],
            ReadFile ''/t/nwjs.app/Contents/Resources/en.lproj/InfoPlist.strings'' None,
            WriteFile ''/t/nwjs.app/Contents/Resources/en.lproj/InfoPlist.strings''
              (Raw (sample_encode Ucs2 sample_plist_text))] =
           strings_trace sample_lib mac_files ''/t'' sample_config found
                    ([] @ [ReadFile (plist_path sample_lib ''/t'') (Some Utf8),
                           WriteFile (plist_path sample_lib ''/t'')
                             (Text (plist_build sample_lib (set_bundle_fields sample_config doc)))]
                        @ icon_events sample_lib (sample_builder no_options) ''/t'' sample_config
                        @ [Globby [''**/InfoPlist.strings''] ''/t'' []]))"
proof -
  have p: "plist_path sample_lib ''/t'' = ''/t/./nwjs.app/Contents/Info.plist''"
    by (simp add: plist_path_def sample_lib_simps)
  have "\<exists>T. updatePlist sample_lib sample_env ''/t'' sample_config [] = (Inr (), T)"
    by (simp add: updatePlist_def readPlist_def writePlist_def writeFileAsync_def Let_def
        bind_io_def readFileAsync_run call_unit_run ret_def sample_env_def p)
       (simp add: sample_lib_simps sample_utf8_roundtrip ret_def call_unit_run sample_env_def)
  then obtain T where r1: "updatePlist sample_lib sample_env ''/t'' sample_config [] = (Inr (), T)"
    by blast
  have "\<exists>T. fixMacMeta_file sample_lib utf16_files ''/t'' sample_config
      ''en.lproj/InfoPlist.strings'' [] = (Inr (), T)"
    by (simp add: fixMacMeta_file_def writeFileAsync_def Let_def bind_io_def readFileAsync_run
        call_unit_run utf16_files_def)
  then obtain T' where r2: "fixMacMeta_file sample_lib utf16_files ''/t'' sample_config
      ''en.lproj/InfoPlist.strings'' [] = (Inr (), T')"
    by blast
  note t = mac_prepare_encodings
    [where lib = sample_lib and env = sample_env and targetDir = "''/t''" and cfg = sample_config
       and tr = "[]", THEN conjunct2, THEN conjunct2, THEN conjunct1, THEN spec, THEN spec,
     THEN mp, OF r1]
  note t' = mac_prepare_encodings
    [where lib = sample_lib and env = utf16_files and targetDir = "''/t''"
       and cfg = sample_config and tr = "[]" and name = "''en.lproj/InfoPlist.strings''",
     THEN conjunct2, THEN conjunct2, THEN conjunct2, THEN conjunct2, THEN conjunct2,
     THEN conjunct2, THEN conjunct2, THEN conjunct2, THEN conjunct1, THEN spec, THEN spec,
     THEN mp, OF r2]
  note t'' = mac_prepare_encodings
    [where lib = sample_lib and env = mac_files and targetDir = "''/t''" and cfg = sample_config
       and tr = "[]" and b = "sample_builder no_options",
     THEN conjunct2, THEN conjunct1, THEN spec, THEN spec, THEN mp, OF mac_files_prepare_run]
  from t obtain data doc where
    "sample_env [] (ReadFile (plist_path sample_lib ''/t'') (Some Utf8)) = Bytes data"
    "plist_parse sample_lib (decode sample_lib Utf8 data) = Some doc"
    "T = [] @ [ReadFile (plist_path sample_lib ''/t'') (Some Utf8),
               WriteFile (plist_path sample_lib ''/t'')
                 (Text (plist_build sample_lib (set_bundle_fields sample_config doc)))]"
    by blast
  then have T: "T = [ReadFile ''/t/./nwjs.app/Contents/Info.plist'' (Some Utf8),
       WriteFile ''/t/./nwjs.app/Contents/Info.plist''
         (Text (''CFBundleName,CFBundleIdentifier,CFBundleDisplayName,CFBundleVersion,''
                @ ''CFBundleShortVersionString''))]"
    by (auto simp: p sample_env_def sample_lib_simps sample_utf8_roundtrip set_bundle_fields_def
        Let_def)
  from t' obtain data where
    "utf16_files [] (ReadFile (path_resolve sample_lib [''/t'', ''en.lproj/InfoPlist.strings''])
       None) = Bytes data"
    "T' = [] @ [ReadFile (path_resolve sample_lib [''/t'', ''en.lproj/InfoPlist.strings'']) None,
                WriteFile (path_resolve sample_lib [''/t'', ''en.lproj/InfoPlist.strings''])
                  (Raw (encode sample_lib (detect_encoding data)
                     (replace_entries sample_lib (strings_entry sample_config)
                        (decode sample_lib (detect_encoding data) data))))]"
    by blast
  then have T': "T' = [ReadFile ''/t/en.lproj/InfoPlist.strings'' None,
       WriteFile ''/t/en.lproj/InfoPlist.strings'' (Raw (sample_encode Ucs2 sample_plist_text))]"
    by (auto simp: utf16_files_def sample_lib_simps sample_utf16_detected sample_ucs2_roundtrip)
  from r1 r2 T T' have "updatePlist sample_lib sample_env ''/t'' sample_config [] =
     (Inr (),
      [ReadFile ''/t/./nwjs.app/Contents/Info.plist'' (Some Utf8),
       WriteFile ''/t/./nwjs.app/Contents/Info.plist''
         (Text (''CFBundleName,CFBundleIdentifier,CFBundleDisplayName,CFBundleVersion,''
                @ ''CFBundleShortVersionString''))])
   \<and> fixMacMeta_file sample_lib utf16_files ''/t'' sample_config ''en.lproj/InfoPlist.strings'' [] =
     (Inr (),
      [ReadFile ''/t/en.lproj/InfoPlist.strings'' None,
       WriteFile ''/t/en.lproj/InfoPlist.strings''
         (Raw (sample_encode Ucs2 sample_plist_text))])"
    by simp
  with mac_files_prepare_run t'' show ?thesis by (intro conjI) blast+
qed

text \<open>
  The claim as stated fails on a UTF-16 property list. Its bytes contain 43 00 46 00, so the
  scan says UTF-16 and a UTF-16 reading would parse; \<^verbatim>\<open>updatePlist\<close> still asks for
  UTF-8, the parser gets text that is not the document, and nothing is written back.
\<close>

theorem mac_prepare_encodings_counterexample:
  "utf16_files [] (ReadFile ''/t/./nwjs.app/Contents/Info.plist'' (Some Utf8)) =
     Bytes (sample_encode Ucs2 sample_plist_text)
   \<and> detect_encoding (sample_encode Ucs2 sample_plist_text) = Ucs2
   \<and> plist_parse sample_lib (decode sample_lib Ucs2 (sample_encode Ucs2 sample_plist_text)) =
       Some [(''CFBundleName'', JStr ''nwjs'')]
   \<and> updatePlist sample_lib utf16_files ''/t'' sample_config [] =
       (Inl ERROR_PLIST_PARSE, [ReadFile ''/t/./nwjs.app/Contents/Info.plist'' (Some Utf8)])"
proof -
  have p: "plist_path sample_lib ''/t'' = ''/t/./nwjs.app/Contents/Info.plist''"
    by (simp add: plist_path_def sample_lib_simps)
  have a: "utf16_files [] (ReadFile ''/t/./nwjs.app/Contents/Info.plist'' (Some Utf8)) =
     Bytes (sample_encode Ucs2 sample_plist_text)"
    by (simp add: utf16_files_def)
  have c: "plist_parse sample_lib (decode sample_lib Ucs2 (sample_encode Ucs2 sample_plist_text)) =
       Some [(''CFBundleName'', JStr ''nwjs'')]"
    by (simp add: sample_lib_simps sample_ucs2_roundtrip)
  have d: "updatePlist sample_lib utf16_files ''/t'' sample_config [] =
       (Inl ERROR_PLIST_PARSE, [ReadFile ''/t/./nwjs.app/Contents/Info.plist'' (Some Utf8)])"
    by (simp add: updatePlist_def readPlist_def Let_def bind_io_def readFileAsync_run p a)
       (simp add: sample_lib_simps sample_utf16_as_utf8 throw_def)
  from a sample_utf16_detected c d show ?thesis by simp
qed

subsection \<open>Runs only grow\<close>

lemma grows_ret: "grows (ret x)"
  by (simp add: grows_def ret_def)

lemma grows_throw: "grows (throw e)"
  by (simp add: grows_def throw_def)

lemma grows_call: "grows (call env ev)"
  by (simp add: grows_def call_run)

lemma grows_bind:
  assumes "grows m" and "\<And>x. grows (f x)"
  shows "grows (bind_io m f)"
  unfolding grows_def
proof
  fix tr
  from assms(1) obtain s where s: "snd (m tr) = tr @ s" by (auto simp: grows_def)
  show "\<exists>s. snd (bind_io m f tr) = tr @ s"
  proof (cases "m tr")
    case (Pair r t)
    with s have t: "t = tr @ s" by simp
    show ?thesis
    proof (cases r)
      case (Inl e)
      with Pair t show ?thesis by (simp add: bind_io_def)
    next
      case (Inr x)
      from assms(2) obtain s' where "snd (f x t) = t @ s'" by (auto simp: grows_def)
      with Pair Inr t show ?thesis by (simp add: bind_io_def)
    qed
  qed
qed

lemma grows_D: "grows m \<Longrightarrow> m tr = (r, tr') \<Longrightarrow> \<exists>s. tr' = tr @ s"
  by (auto simp: grows_def dest: spec [of _ tr])

lemma grows_if: "grows m \<Longrightarrow> grows n \<Longrightarrow> grows (if c then m else n)"
  by simp

lemma grows_call_unit: "grows (call_unit env ev)"
  by (simp add: call_unit_def grows_bind grows_call grows_ret)

lemma grows_call_string: "grows (call_string env ev)"
  unfolding call_string_def
  by (intro grows_bind grows_call) (simp add: grows_ret grows_throw split: answer.splits)

lemma grows_call_strings: "grows (call_strings env ev)"
  unfolding call_strings_def
  by (intro grows_bind grows_call) (simp add: grows_ret grows_throw split: answer.splits)

lemma grows_spawnAsync: "grows (spawnAsync env args cwd)"
  unfolding spawnAsync_def
  by (intro grows_bind grows_call) (simp add: grows_ret grows_throw split: answer.splits)

lemma grows_readFileAsync: "grows (readFileAsync env p enc)"
  unfolding readFileAsync_def
  by (intro grows_bind grows_call) (simp add: grows_ret grows_throw split: answer.splits)

lemmas grows_prims =
  grows_ret grows_throw grows_call grows_call_unit grows_call_string grows_call_strings
  grows_spawnAsync grows_readFileAsync

lemma grows_globby: "grows (globby lib env patterns cwd ignore)"
  unfolding globby_def by (intro grows_bind grows_prims)

lemma grows_compress: "grows (compress lib env d fs type archive)"
  unfolding compress_def tmpFile_def writeFileAsync_def by (intro grows_bind grows_prims)

lemma grows_copy_each: "grows (copy_each lib env d appRoot fs)"
  by (induction fs) (auto simp: copyFileAsync_def intro!: grows_bind grows_prims)

lemma grows_select_files: "grows (select_files lib env b pkg cfg)"
  unfolding select_files_def by (intro grows_bind grows_prims grows_globby)

lemma grows_write_manifest: "grows (write_manifest lib env appRoot pkg cfg)"
  by (simp add: write_manifest_def writeFileAsync_def grows_prims split: sum.splits)

lemma grows_copyFiles: "grows (copyFiles lib env b platform targetDir appRoot pkg cfg)"
  unfolding copyFiles_def tmpName_def combineExecutable_def removeAsync_def
  by (intro grows_bind grows_if grows_prims grows_select_files grows_compress grows_copy_each
      grows_write_manifest)

lemma grows_updatePlist: "grows (updatePlist lib env targetDir cfg)"
  unfolding updatePlist_def readPlist_def writePlist_def writeFileAsync_def Let_def
  by (intro grows_bind grows_prims) (simp add: grows_prims split: option.splits)

lemma grows_updateMacIcon: "grows (updateMacIcon lib env b targetDir cfg)"
  unfolding updateMacIcon_def copyAsync_def Let_def by (intro grows_if grows_prims)

lemma grows_fixMacMeta_file: "grows (fixMacMeta_file lib env targetDir cfg file)"
  unfolding fixMacMeta_file_def writeFileAsync_def Let_def by (intro grows_bind grows_prims)

lemma grows_fixMacMeta_files: "grows (fixMacMeta_files lib env targetDir cfg fs)"
  by (induction fs) (auto intro!: grows_bind grows_prims grows_fixMacMeta_file)

lemma grows_fixMacMeta: "grows (fixMacMeta lib env targetDir cfg)"
  unfolding fixMacMeta_def by (intro grows_bind grows_globby grows_fixMacMeta_files)

lemma grows_prepare_step: "grows (prepare_step lib env b platform targetDir cfg)"
  unfolding prepare_step_def prepareWinBuild_def updateWinResources_def prepareMacBuild_def
    prepareLinuxBuild_def Let_def
  by (intro grows_if grows_bind grows_prims grows_updatePlist grows_updateMacIcon grows_fixMacMeta)

subsection \<open>Prepare, copy, finalize\<close>

lemma three_phases_bind:
  "three_phases p c f = bind_io p (\<lambda>_. bind_io c (\<lambda>_. f))"
  by (rule ext) (simp add: three_phases_def bind_io_def split: prod.splits sum.splits)

lemma recognized_cases:
  assumes "recognized platform"
  obtains (win) "platform = ''win32'' \<or> platform = ''win''"
  | (mac) "\<not> (platform = ''win32'' \<or> platform = ''win'')"
      "platform = ''darwin'' \<or> platform = ''osx'' \<or> platform = ''mac''"
  | (linux) "\<not> (platform = ''win32'' \<or> platform = ''win'')"
      "\<not> (platform = ''darwin'' \<or> platform = ''osx'' \<or> platform = ''mac'')"
      "platform = ''linux''"
  using assms unfolding recognized_def by blast

lemma dir_finish_phases:
  assumes "recognized platform"
  shows "dir_finish lib env b platform targetDir appRoot pkg cfg =
     three_phases (prepare_step lib env b platform targetDir cfg)
       (copyFiles lib env b platform targetDir appRoot pkg cfg)
       (finalize_step lib env platform targetDir pkg cfg)"
  using assms
proof (cases rule: recognized_cases)
  case win
  then show ?thesis
    unfolding three_phases_bind dir_finish_def prepare_step_def finalize_step_def
    by (simp only: if_True)
next
  case mac
  then show ?thesis
    unfolding three_phases_bind dir_finish_def prepare_step_def finalize_step_def
    by (simp only: if_True if_False)
next
  case linux
  then show ?thesis
    unfolding three_phases_bind dir_finish_def prepare_step_def finalize_step_def
    by (simp only: if_True if_False refl)
qed

lemma renameAsync_InrD:
  "renameAsync env src dest t = (Inr u, tr') \<Longrightarrow> tr' = t @ [RenamePath src dest]"
  unfolding renameAsync_def by (rule call_unit_InrD)

lemma finalize_step_run:
  assumes "finalize_step lib env platform targetDir pkg cfg t = (Inr u, tr')"
  shows "tr' = t @ [finalize_event lib platform targetDir pkg cfg]"
proof (cases "platform = ''win32'' \<or> platform = ''win''")
  case True
  with assms show ?thesis
    unfolding finalize_step_def finalize_event_def renameWinApp_def Let_def
    by (simp only: if_True) (rule renameAsync_InrD)
next
  case nw: False
  show ?thesis
  proof (cases "platform = ''darwin'' \<or> platform = ''osx'' \<or> platform = ''mac''")
    case True
    with nw assms show ?thesis
      unfolding finalize_step_def finalize_event_def renameMacApp_def Let_def
      by (simp only: if_True if_False) (rule renameAsync_InrD)
  next
    case False
    with nw assms show ?thesis
      unfolding finalize_step_def finalize_event_def renameLinuxApp_def Let_def
      by (simp only: if_False) (rule renameAsync_InrD)
  qed
qed

lemma buildDirTarget_success:
  assumes "recognized platform"
    and "buildDirTarget lib env b platform arch runtimeDir pkg cfg tr = (Inr td, tr')"
  shows "\<exists>appRoot t0 p c.
       dir_setup lib env b platform arch runtimeDir pkg cfg tr = (Inr (td, appRoot), t0)
     \<and> prepare_step lib env b platform td cfg t0 = (Inr (), t0 @ p)
     \<and> copyFiles lib env b platform td appRoot pkg cfg (t0 @ p) = (Inr (), t0 @ p @ c)
     \<and> finalize_step lib env platform td pkg cfg (t0 @ p @ c) = (Inr (), tr')
     \<and> tr' = t0 @ p @ c @ [finalize_event lib platform td pkg cfg]"
proof -
  from assms(2) obtain x t0 where
    su: "dir_setup lib env b platform arch runtimeDir pkg cfg tr = (Inr x, t0)"
    and rest: "(case x of (targetDir, appRoot) \<Rightarrow>
         bind_io (dir_finish lib env b platform targetDir appRoot pkg cfg) (\<lambda>_. ret targetDir))
         t0 = (Inr td, tr')"
    unfolding buildDirTarget_def by (rule bind_io_InrE)
  obtain targetDir appRoot where x: "x = (targetDir, appRoot)" by (cases x)
  from rest x have "bind_io (dir_finish lib env b platform targetDir appRoot pkg cfg)
      (\<lambda>_. ret targetDir) t0 = (Inr td, tr')"
    by simp
  then obtain u t3 where
    fin: "dir_finish lib env b platform targetDir appRoot pkg cfg t0 = (Inr u, t3)"
    and r: "ret targetDir t3 = (Inr td, tr')"
    by (rule bind_io_InrE)
  from r have td: "targetDir = td" and t3: "t3 = tr'" by (simp_all add: ret_def)
  from fin obtain u1 t1 where
    prep: "prepare_step lib env b platform td cfg t0 = (Inr u1, t1)"
    and fin2: "bind_io (copyFiles lib env b platform td appRoot pkg cfg)
                 (\<lambda>_. finalize_step lib env platform td pkg cfg) t1 = (Inr u, tr')"
    unfolding dir_finish_phases [OF assms(1)] three_phases_bind td t3 by (rule bind_io_InrE)
  from fin2 obtain u2 t2 where
    copy: "copyFiles lib env b platform td appRoot pkg cfg t1 = (Inr u2, t2)"
    and final: "finalize_step lib env platform td pkg cfg t2 = (Inr u, tr')"
    by (rule bind_io_InrE)
  from grows_D [OF grows_prepare_step prep] obtain p where p: "t1 = t0 @ p" by blast
  from grows_D [OF grows_copyFiles copy] obtain c where c: "t2 = t1 @ c" by blast
  from finalize_step_run [OF final] have e: "tr' = t2 @ [finalize_event lib platform td pkg cfg]" .
  from su x td prep copy final p c e show ?thesis by auto
qed

text \<open>
  C8. On every recognized platform, the \<^verbatim>\<open>switch\<close> that closes \<^verbatim>\<open>buildDirTarget\<close> is
  the three-phase pipeline: the platform's prepare step runs first, \<^verbatim>\<open>copyFiles\<close>
  starts from the run prepare left, and the platform's rename starts from the run
  \<^verbatim>\<open>copyFiles\<close> left; a phase that fails ends the pipeline, so no later phase issues an
  event. A directory target that completes has run, after the setup of the target
  directory, all events of prepare, then all events of the copy, then the single rename.
\<close>

theorem directory_pipeline_order:
  assumes "recognized platform"
  shows "dir_finish lib env b platform targetDir appRoot pkg cfg tr =
       three_phases (prepare_step lib env b platform targetDir cfg)
         (copyFiles lib env b platform targetDir appRoot pkg cfg)
         (finalize_step lib env platform targetDir pkg cfg) tr
   \<and> (\<forall>td tr'. buildDirTarget lib env b platform arch runtimeDir pkg cfg tr = (Inr td, tr') \<longrightarrow>
        (\<exists>root t0 p c.
            dir_setup lib env b platform arch runtimeDir pkg cfg tr = (Inr (td, root), t0)
          \<and> prepare_step lib env b platform td cfg t0 = (Inr (), t0 @ p)
          \<and> copyFiles lib env b platform td root pkg cfg (t0 @ p) = (Inr (), t0 @ p @ c)
          \<and> finalize_step lib env platform td pkg cfg (t0 @ p @ c) = (Inr (), tr')
          \<and> tr' = t0 @ p @ c @ [finalize_event lib platform td pkg cfg]))"
proof (intro conjI allI impI)
  show "dir_finish lib env b platform targetDir appRoot pkg cfg tr =
       three_phases (prepare_step lib env b platform targetDir cfg)
         (copyFiles lib env b platform targetDir appRoot pkg cfg)
         (finalize_step lib env platform targetDir pkg cfg) tr"
    by (simp only: dir_finish_phases [OF assms])
  show "\<exists>root t0 p c.
            dir_setup lib env b platform arch runtimeDir pkg cfg tr = (Inr (td, root), t0)
          \<and> prepare_step lib env b platform td cfg t0 = (Inr (), t0 @ p)
          \<and> copyFiles lib env b platform td root pkg cfg (t0 @ p) = (Inr (), t0 @ p @ c)
          \<and> finalize_step lib env platform td pkg cfg (t0 @ p @ c) = (Inr (), tr')
          \<and> tr' = t0 @ p @ c @ [finalize_event lib platform td pkg cfg]"
    if "buildDirTarget lib env b platform arch runtimeDir pkg cfg tr = (Inr td, tr')" for td tr'
    using assms that by (rule buildDirTarget_success)
qed

lemma sample_dir_setup:
  "dir_setup sample_lib sample_env (sample_builder no_options) ''linux'' ''x64'' ''/cache/runtime''
     sample_pkg sample_config [] =
   (Inr (''/proj/dist/app-1.2.0-linux-x64'', ''/proj/dist/app-1.2.0-linux-x64/./''),
    [FindRuntimeRoot ''linux'' ''/cache/runtime'',
     EmptyDir ''/proj/dist/app-1.2.0-linux-x64'',
     CopyPath ''/cache/runtime'' ''/proj/dist/app-1.2.0-linux-x64'',
     EnsureDir ''/proj/dist/app-1.2.0-linux-x64/./''])"
  by (simp add: dir_setup_def target_dir_def sample_lib_simps sample_builder_def Builder_def
      pkg_field_def sample_pkg_def sample_config_def Let_def bind_io_def call_string_run
      call_unit_run copyAsync_def sample_env_def ret_def)

lemma sample_dir_finish:
  "dir_finish sample_lib sample_env (sample_builder no_options) ''linux''
     ''/proj/dist/app-1.2.0-linux-x64'' ''/proj/dist/app-1.2.0-linux-x64/./''
     sample_pkg sample_config tr =
   (Inr (),
    tr @ [FindExcludableDependencies ''/proj'' sample_pkg,
          Globby [''**/*''] ''/proj''
            [''secret/**'', ''**/node_modules/.bin'',
             ''**/node_modules/*/{ example, examples, test, tests }'',
             ''**/{ .DS_Store, .git, .hg, .svn, *.log }'',
             ''node_modules/unused'', ''node_modules/unused/**/*'', ''dist'', ''dist/**/*''],
          CopyFile ''/proj/index.html'' ''/proj/dist/app-1.2.0-linux-x64/.//index.html'',
          WriteFile ''/proj/dist/app-1.2.0-linux-x64/.//package.json'' (Text ''name,version,main''),
          RenamePath ''/proj/dist/app-1.2.0-linux-x64/nw'' ''/proj/dist/app-1.2.0-linux-x64/app''])"
proof -
  note m = sample_stripped_manifest
  have c: "copyFiles sample_lib sample_env (sample_builder no_options) ''linux''
     ''/proj/dist/app-1.2.0-linux-x64'' ''/proj/dist/app-1.2.0-linux-x64/./''
     sample_pkg sample_config tr =
   (Inr (),
    tr @ [FindExcludableDependencies ''/proj'' sample_pkg,
          Globby [''**/*''] ''/proj''
            [''secret/**'', ''**/node_modules/.bin'',
             ''**/node_modules/*/{ example, examples, test, tests }'',
             ''**/{ .DS_Store, .git, .hg, .svn, *.log }'',
             ''node_modules/unused'', ''node_modules/unused/**/*'', ''dist'', ''dist/**/*''],
          CopyFile ''/proj/index.html'' ''/proj/dist/app-1.2.0-linux-x64/.//index.html'',
          WriteFile ''/proj/dist/app-1.2.0-linux-x64/.//package.json''
            (Text ''name,version,main'')])"
    unfolding copyFiles_def write_manifest_def
    by (simp add: bind_io_def sample_select_files m)
       (simp add: sample_config_def copyFileAsync_def writeFileAsync_def call_unit_run
         sample_env_def ret_def sample_lib_simps manifest_path_def sample_builder_def Builder_def)
  have n: "pkg_field sample_pkg ''name'' = ''app''"
    by (simp add: pkg_field_def sample_pkg_def)
  show ?thesis
    by (simp add: dir_finish_def prepareLinuxBuild_def bind_io_def ret_def c renameLinuxApp_def
        renameAsync_def call_unit_run sample_env_def sample_lib_simps n)
qed

theorem directory_pipeline_order_witness:
  "recognized ''linux''
   \<and> buildDirTarget sample_lib sample_env (sample_builder no_options) ''linux'' ''x64''
       ''/cache/runtime'' sample_pkg sample_config [] =
     (Inr ''/proj/dist/app-1.2.0-linux-x64'',
      [FindRuntimeRoot ''linux'' ''/cache/runtime'',
       EmptyDir ''/proj/dist/app-1.2.0-linux-x64'',
       CopyPath ''/cache/runtime'' ''/proj/dist/app-1.2.0-linux-x64'',
       EnsureDir ''/proj/dist/app-1.2.0-linux-x64/./'',
       FindExcludableDependencies ''/proj'' sample_pkg,
       Globby [''**/*''] ''/proj''
         [''secret/**'', ''**/node_modules/.bin'',
          ''**/node_modules/*/{ example, examples, test, tests }'',
          ''**/{ .DS_Store, .git, .hg, .svn, *.log }'',
          ''node_modules/unused'', ''node_modules/unused/**/*'', ''dist'', ''dist/**/*''],
       CopyFile ''/proj/index.html'' ''/proj/dist/app-1.2.0-linux-x64/.//index.html'',
       WriteFile ''/proj/dist/app-1.2.0-linux-x64/.//package.json'' (Text ''name,version,main''),
       RenamePath ''/proj/dist/app-1.2.0-linux-x64/nw'' ''/proj/dist/app-1.2.0-linux-x64/app''])
   \<and> finalize_event sample_lib ''linux'' ''/proj/dist/app-1.2.0-linux-x64'' sample_pkg
       sample_config =
     RenamePath ''/proj/dist/app-1.2.0-linux-x64/nw'' ''/proj/dist/app-1.2.0-linux-x64/app''"
proof -
  have r: "recognized ''linux''"
    by (simp add: recognized_def)
  have run: "buildDirTarget sample_lib sample_env (sample_builder no_options) ''linux'' ''x64''
       ''/cache/runtime'' sample_pkg sample_config [] =
     (Inr ''/proj/dist/app-1.2.0-linux-x64'',
      [FindRuntimeRoot ''linux'' ''/cache/runtime'',
       EmptyDir ''/proj/dist/app-1.2.0-linux-x64'',
       CopyPath ''/cache/runtime'' ''/proj/dist/app-1.2.0-linux-x64'',
       EnsureDir ''/proj/dist/app-1.2.0-linux-x64/./'',
       FindExcludableDependencies ''/proj'' sample_pkg,
       Globby [''**/*''] ''/proj''
         [''secret/**'', ''**/node_modules/.bin'',
          ''**/node_modules/*/{ example, examples, test, tests }'',
          ''**/{ .DS_Store, .git, .hg, .svn, *.log }'',
          ''node_modules/unused'', ''node_modules/unused/**/*'', ''dist'', ''dist/**/*''],
       CopyFile ''/proj/index.html'' ''/proj/dist/app-1.2.0-linux-x64/.//index.html'',
       WriteFile ''/proj/dist/app-1.2.0-linux-x64/.//package.json'' (Text ''name,version,main''),
       RenamePath ''/proj/dist/app-1.2.0-linux-x64/nw'' ''/proj/dist/app-1.2.0-linux-x64/app''])"
    unfolding buildDirTarget_def
    by (simp add: bind_io_def sample_dir_setup sample_dir_finish ret_def)
  note t = directory_pipeline_order [OF r, of sample_lib sample_env "sample_builder no_options"
      "''/proj/dist/app-1.2.0-linux-x64''" "''/proj/dist/app-1.2.0-linux-x64/./''" sample_pkg
      sample_config "[]" "''x64''" "''/cache/runtime''"]
  from t run obtain root t0 p c where
    "[FindRuntimeRoot ''linux'' ''/cache/runtime'',
       EmptyDir ''/proj/dist/app-1.2.0-linux-x64'',
       CopyPath ''/cache/runtime'' ''/proj/dist/app-1.2.0-linux-x64'',
       EnsureDir ''/proj/dist/app-1.2.0-linux-x64/./'',
       FindExcludableDependencies ''/proj'' sample_pkg,
       Globby [''**/*''] ''/proj''
         [''secret/**'', ''**/node_modules/.bin'',
          ''**/node_modules/*/{ example, examples, test, tests }'',
          ''**/{ .DS_Store, .git, .hg, .svn, *.log }'',
          ''node_modules/unused'', ''node_modules/unused/**/*'', ''dist'', ''dist/**/*''],
       CopyFile ''/proj/index.html'' ''/proj/dist/app-1.2.0-linux-x64/.//index.html'',
       WriteFile ''/proj/dist/app-1.2.0-linux-x64/.//package.json'' (Text ''name,version,main''),
       RenamePath ''/proj/dist/app-1.2.0-linux-x64/nw'' ''/proj/dist/app-1.2.0-linux-x64/app'']
     = t0 @ p @ c @ [finalize_event sample_lib ''linux'' ''/proj/dist/app-1.2.0-linux-x64''
         sample_pkg sample_config]"
    by blast
  then have "last [FindRuntimeRoot ''linux'' ''/cache/runtime'',
       EmptyDir ''/proj/dist/app-1.2.0-linux-x64'',
       CopyPath ''/cache/runtime'' ''/proj/dist/app-1.2.0-linux-x64'',
       EnsureDir ''/proj/dist/app-1.2.0-linux-x64/./'',
       FindExcludableDependencies ''/proj'' sample_pkg,
       Globby [''**/*''] ''/proj''
         [''secret/**'', ''**/node_modules/.bin'',
          ''**/node_modules/*/{ example, examples, test, tests }'',
          ''**/{ .DS_Store, .git, .hg, .svn, *.log }'',
          ''node_modules/unused'', ''node_modules/unused/**/*'', ''dist'', ''dist/**/*''],
       CopyFile ''/proj/index.html'' ''/proj/dist/app-1.2.0-linux-x64/.//index.html'',
       WriteFile ''/proj/dist/app-1.2.0-linux-x64/.//package.json'' (Text ''name,version,main''),
       RenamePath ''/proj/dist/app-1.2.0-linux-x64/nw'' ''/proj/dist/app-1.2.0-linux-x64/app'']
     = finalize_event sample_lib ''linux'' ''/proj/dist/app-1.2.0-linux-x64'' sample_pkg
         sample_config"
    by (simp only: append_assoc [symmetric] last_snoc)
  then have f: "finalize_event sample_lib ''linux'' ''/proj/dist/app-1.2.0-linux-x64'' sample_pkg
       sample_config =
     RenamePath ''/proj/dist/app-1.2.0-linux-x64/nw'' ''/proj/dist/app-1.2.0-linux-x64/app''"
    by simp
  from r run f show ?thesis by blast
qed

subsection \<open>The temporary script\<close>

lemma buildNsisTarget_compile:
  "buildNsisTarget lib env b ''win'' arch sourceDir pkg cfg =
     bind_io (load_ledger env (ledger_path lib b cfg)) (\<lambda>versionInfo.
       bind_io (call_string env
                  (NsisComposerMake (script_options_of lib b cfg (setup_path lib sourceDir))))
         (\<lambda>data.
            compile_script env sourceDir data (truthy (mute (options b)))
              (record_and_update lib env b ''win'' arch sourceDir (setup_path lib sourceDir)
                 pkg cfg versionInfo)))"
  by (simp add: buildNsisTarget_def compile_script_def Let_def)

lemma buildNsis7zTarget_compile:
  "buildNsis7zTarget lib env b ''win'' arch sourceDir pkg cfg =
     bind_io (buildArchiveTarget lib env ''7z'' sourceDir) (\<lambda>sourceArchive.
       bind_io (load_ledger env (ledger_path lib b cfg)) (\<lambda>versionInfo.
         bind_io (call_string env
                    (Nsis7ZipperMake sourceArchive
                       (script_options_of lib b cfg (setup_path lib sourceDir))))
           (\<lambda>data.
              compile_script env sourceDir data (truthy (mute (options b)))
                (record_and_update lib env b ''win'' arch sourceDir (setup_path lib sourceDir)
                   pkg cfg versionInfo))))"
  by (simp add: buildNsis7zTarget_def compile_script_def Let_def)

lemma buildNsisDiffUpdater_compile:
  "buildNsisDiffUpdater lib env b platform arch versionInfo fromVersion toVersion pkg cfg =
     bind_io (getVersion versionInfo fromVersion) (\<lambda>fromEntry.
       bind_io (getVersion versionInfo toVersion) (\<lambda>toEntry.
         bind_io (call_string env
                    (NsisDifferMake
                       (path_resolve lib [dir b, config_output cfg, le_source fromEntry])
                       (path_resolve lib [dir b, config_output cfg, le_source toEntry])
                       (script_options_of lib b cfg
                          (updater_path lib b cfg pkg platform arch fromVersion toVersion))))
           (\<lambda>data.
              compile_script env
                (path_resolve lib [dir b, config_output cfg, le_source toEntry]) data
                (truthy (mute (options b)))
                (ret (addUpdater toVersion fromVersion arch
                        (updater_path lib b cfg pkg platform arch fromVersion toVersion)
                        versionInfo)))))"
  by (simp add: buildNsisDiffUpdater_def compile_script_def Let_def)

lemma compile_script_run:
  assumes "tmpName env t1 = (Inr script, t2)"
    and "writeFileAsync env script (Text data) t2 = (Inr (), t3)"
  shows "compile_script env cwd data quiet k t1 =
     (if env t3 (NsisBuild cwd script quiet) = Failed
      then (Inl (ExternalFailure (NsisBuild cwd script quiet)), t3 @ [NsisBuild cwd script quiet])
      else if env (t3 @ [NsisBuild cwd script quiet]) (RemovePath script) = Failed
      then (Inl (ExternalFailure (RemovePath script)),
            t3 @ [NsisBuild cwd script quiet, RemovePath script])
      else k (t3 @ [NsisBuild cwd script quiet, RemovePath script]))"
  using assms
  by (simp add: compile_script_def bind_io_Inr)
     (simp add: bind_io_def nsisBuild_def removeAsync_def call_unit_run)

text \<open>
  C5, as the code has it. Each of the three builds (the full installer, the self-extracting
  installer and the differential updater) compiles its script with the same four steps.
  Once the script is written to its temporary file: when the compiler succeeds, the removal
  of that file is the very next step, before anything else the build does; when the
  compiler fails, the build ends there with the compiler's error, and the script file is
  not removed.
\<close>

theorem temporary_script_removal:
  "buildNsisTarget lib env b ''win'' arch sourceDir pkg cfg =
     bind_io (load_ledger env (ledger_path lib b cfg)) (\<lambda>versionInfo.
       bind_io (call_string env
                  (NsisComposerMake (script_options_of lib b cfg (setup_path lib sourceDir))))
         (\<lambda>data.
            compile_script env sourceDir data (truthy (mute (options b)))
              (record_and_update lib env b ''win'' arch sourceDir (setup_path lib sourceDir)
                 pkg cfg versionInfo)))
   \<and> buildNsis7zTarget lib env b ''win'' arch sourceDir pkg cfg =
     bind_io (buildArchiveTarget lib env ''7z'' sourceDir) (\<lambda>sourceArchive.
       bind_io (load_ledger env (ledger_path lib b cfg)) (\<lambda>versionInfo.
         bind_io (call_string env
                    (Nsis7ZipperMake sourceArchive
                       (script_options_of lib b cfg (setup_path lib sourceDir))))
           (\<lambda>data.
              compile_script env sourceDir data (truthy (mute (options b)))
                (record_and_update lib env b ''win'' arch sourceDir (setup_path lib sourceDir)
                   pkg cfg versionInfo))))
   \<and> buildNsisDiffUpdater lib env b platform arch versionInfo fromVersion toVersion pkg cfg =
     bind_io (getVersion versionInfo fromVersion) (\<lambda>fromEntry.
       bind_io (getVersion versionInfo toVersion) (\<lambda>toEntry.
         bind_io (call_string env
                    (NsisDifferMake
                       (path_resolve lib [dir b, config_output cfg, le_source fromEntry])
                       (path_resolve lib [dir b, config_output cfg, le_source toEntry])
                       (script_options_of lib b cfg
                          (updater_path lib b cfg pkg platform arch fromVersion toVersion))))
           (\<lambda>data.
              compile_script env
                (path_resolve lib [dir b, config_output cfg, le_source toEntry]) data
                (truthy (mute (options b)))
                (ret (addUpdater toVersion fromVersion arch
                        (updater_path lib b cfg pkg platform arch fromVersion toVersion)
                        versionInfo)))))
   \<and> (\<forall>script t2 t3.
         tmpName env t1 = (Inr script, t2)
         \<and> writeFileAsync env script (Text data) t2 = (Inr (), t3)
         \<longrightarrow> compile_script env cwd data quiet k t1 =
              (if env t3 (NsisBuild cwd script quiet) = Failed
               then (Inl (ExternalFailure (NsisBuild cwd script quiet)),
                     t3 @ [NsisBuild cwd script quiet])
               else if env (t3 @ [NsisBuild cwd script quiet]) (RemovePath script) = Failed
               then (Inl (ExternalFailure (RemovePath script)),
                     t3 @ [NsisBuild cwd script quiet, RemovePath script])
               else k (t3 @ [NsisBuild cwd script quiet, RemovePath script])))"
  using buildNsisTarget_compile [of lib env b arch sourceDir pkg cfg]
    buildNsis7zTarget_compile [of lib env b arch sourceDir pkg cfg]
    buildNsisDiffUpdater_compile [of lib env b platform arch versionInfo fromVersion toVersion
      pkg cfg]
    compile_script_run [of env t1 _ _ data _ cwd quiet k]
  by blast

theorem temporary_script_removal_witness:
  "compile_script sample_env ''/proj/dist/app'' ''!script'' True (ret ()) [] =
     (Inr (),
      [TmpName, WriteFile ''/tmp/name'' (Text ''!script''),
       NsisBuild ''/proj/dist/app'' ''/tmp/name'' True, RemovePath ''/tmp/name''])
   \<and> compile_script compiler_fails ''/proj/dist/app'' ''!script'' True (ret ()) [] =
     (Inl (ExternalFailure (NsisBuild ''/proj/dist/app'' ''/tmp/name'' True)),
      [TmpName, WriteFile ''/tmp/name'' (Text ''!script''),
       NsisBuild ''/proj/dist/app'' ''/tmp/name'' True])"
proof -
  have n1: "tmpName sample_env [] = (Inr ''/tmp/name'', [TmpName])"
    and n2: "tmpName compiler_fails [] = (Inr ''/tmp/name'', [TmpName])"
    by (simp_all add: tmpName_def call_string_run sample_env_def compiler_fails_def)
  have w1: "writeFileAsync sample_env ''/tmp/name'' (Text ''!script'') [TmpName] =
      (Inr (), [TmpName, WriteFile ''/tmp/name'' (Text ''!script'')])"
    and w2: "writeFileAsync compiler_fails ''/tmp/name'' (Text ''!script'') [TmpName] =
      (Inr (), [TmpName, WriteFile ''/tmp/name'' (Text ''!script'')])"
    by (simp_all add: writeFileAsync_def call_unit_run sample_env_def compiler_fails_def)
  from temporary_script_removal [of sample_lib sample_env "sample_builder no_options" "''x64''"
      "''/proj/dist/app''" sample_pkg sample_config "''win''" "[]" "''1.0.0''" "''1.2.0''" "[]"
      "''!script''" "''/proj/dist/app''" True "ret ()"] n1 w1
  have a: "compile_script sample_env ''/proj/dist/app'' ''!script'' True (ret ()) [] =
     (Inr (),
      [TmpName, WriteFile ''/tmp/name'' (Text ''!script''),
       NsisBuild ''/proj/dist/app'' ''/tmp/name'' True, RemovePath ''/tmp/name''])"
    by (simp add: sample_env_def ret_def)
  from temporary_script_removal [of sample_lib compiler_fails "sample_builder no_options" "''x64''"
      "''/proj/dist/app''" sample_pkg sample_config "''win''" "[]" "''1.0.0''" "''1.2.0''" "[]"
      "''!script''" "''/proj/dist/app''" True "ret ()"] n2 w2
  have b: "compile_script compiler_fails ''/proj/dist/app'' ''!script'' True (ret ()) [] =
     (Inl (ExternalFailure (NsisBuild ''/proj/dist/app'' ''/tmp/name'' True)),
      [TmpName, WriteFile ''/tmp/name'' (Text ''!script''),
       NsisBuild ''/proj/dist/app'' ''/tmp/name'' True])"
    by (simp add: compiler_fails_def)
  from a b show ?thesis by blast
qed

text \<open>
  The claim as stated fails when the compiler fails: the full installer build has written
  its script to \<^verbatim>\<open>/tmp/name\<close>, the compiler rejects it, and the build ends with that
  error; the script was never removed.
\<close>

theorem temporary_script_removal_counterexample:
  "buildNsisTarget sample_lib compiler_fails (sample_builder no_options) ''win'' ''x64''
     ''/proj/dist/app'' sample_pkg sample_config [] =
     (Inl (ExternalFailure (NsisBuild ''/proj/dist/app'' ''/tmp/name'' True)),
      [LoadLedger ''/proj/dist/versions.nsis.json'',
       NsisComposerMake (script_options_of sample_lib (sample_builder no_options) sample_config
         ''/proj/dist/app-Setup.exe''),
       TmpName, WriteFile ''/tmp/name'' (Text ''!script''),
       NsisBuild ''/proj/dist/app'' ''/tmp/name'' True])
   \<and> RemovePath ''/tmp/name'' \<notin> set (snd (buildNsisTarget sample_lib compiler_fails
         (sample_builder no_options) ''win'' ''x64'' ''/proj/dist/app'' sample_pkg sample_config []))"
proof -
  have lp: "ledger_path sample_lib (sample_builder no_options) sample_config =
      ''/proj/dist/versions.nsis.json''"
    by (simp add: ledger_path_def sample_lib_simps sample_builder_def Builder_def
        sample_config_def)
  have sp: "setup_path sample_lib ''/proj/dist/app'' = ''/proj/dist/app-Setup.exe''"
    by (simp add: setup_path_def sample_lib_simps sample_dirname_def sample_basename_def)
  have q: "truthy (mute (options (sample_builder no_options)))"
    by (simp add: sample_builder_def Builder_def mergeOptions_def DEFAULT_OPTIONS_def
        no_options_def or_default_def truthy_def)
  have run: "buildNsisTarget sample_lib compiler_fails (sample_builder no_options) ''win'' ''x64''
     ''/proj/dist/app'' sample_pkg sample_config [] =
     (Inl (ExternalFailure (NsisBuild ''/proj/dist/app'' ''/tmp/name'' True)),
      [LoadLedger ''/proj/dist/versions.nsis.json'',
       NsisComposerMake (script_options_of sample_lib (sample_builder no_options) sample_config
         ''/proj/dist/app-Setup.exe''),
       TmpName, WriteFile ''/tmp/name'' (Text ''!script''),
       NsisBuild ''/proj/dist/app'' ''/tmp/name'' True])"
    by (simp add: buildNsisTarget_def lp sp q Let_def load_ledger_def bind_io_def call_run
        call_string_run tmpName_def writeFileAsync_def call_unit_run nsisBuild_def
        compiler_fails_def ret_def)
  show ?thesis
    unfolding run by simp
qed

subsection \<open>Differential updaters\<close>

lemma comparePre_from_refl: "comparePre_from xs xs = 0"
  by (induction xs) simp_all

lemma semver_compare_refl: "semver_compare x x = 0"
  by (simp add: semver_compare_def compareMain_def compare_nat_def comparePre_def
      comparePre_from_refl)

lemma semver_gt_irrefl: "semver_gt lib v v \<noteq> Inr True"
  by (simp add: semver_gt_def semver_compare_refl split: option.splits)

lemma semver_gt_iff:
  "semver_gt lib a v = Inr True \<longleftrightarrow>
     (\<exists>x y. semver_parse lib a = Some x \<and> semver_parse lib v = Some y \<and> semver_compare x y > 0)"
  by (auto simp: semver_gt_def split: option.splits)

lemma differ_outputs_append: "differ_outputs (a @ b) = differ_outputs a @ differ_outputs b"
  by (simp add: differ_outputs_def)

lemma differ_outputs_Cons:
  "differ_outputs (ev # tr) =
     (case ev of NsisDifferMake fromDir toDir opts \<Rightarrow> [so_output opts] | _ \<Rightarrow> [])
       @ differ_outputs tr"
  by (simp add: differ_outputs_def)

lemma differ_outputs_Nil: "differ_outputs [] = []"
  by (simp add: differ_outputs_def)

lemmas differ_outputs_simps = differ_outputs_append differ_outputs_Cons differ_outputs_Nil

lemma compile_script_success:
  assumes "compile_script env cwd data quiet k t1 = (Inr y, tr')"
  shows "\<exists>script.
     k (t1 @ [TmpName, WriteFile script (Text data), NsisBuild cwd script quiet,
              RemovePath script]) = (Inr y, tr')"
proof -
  from assms obtain script t2 where
    n: "tmpName env t1 = (Inr script, t2)"
    and r2: "bind_io (writeFileAsync env script (Text data)) (\<lambda>_.
         bind_io (nsisBuild env cwd script quiet) (\<lambda>_.
           bind_io (removeAsync env script) (\<lambda>_. k))) t2 = (Inr y, tr')"
    unfolding compile_script_def by (rule bind_io_InrE)
  from r2 obtain u3 t3 where
    w: "writeFileAsync env script (Text data) t2 = (Inr u3, t3)"
    and r3: "bind_io (nsisBuild env cwd script quiet) (\<lambda>_.
           bind_io (removeAsync env script) (\<lambda>_. k)) t3 = (Inr y, tr')"
    by (rule bind_io_InrE)
  from r3 obtain u4 t4 where
    c: "nsisBuild env cwd script quiet t3 = (Inr u4, t4)"
    and r4: "bind_io (removeAsync env script) (\<lambda>_. k) t4 = (Inr y, tr')"
    by (rule bind_io_InrE)
  from r4 obtain u5 t5 where
    d: "removeAsync env script t4 = (Inr u5, t5)"
    and r5: "k t5 = (Inr y, tr')"
    by (rule bind_io_InrE)
  from n have t2: "t2 = t1 @ [TmpName]"
    unfolding tmpName_def by (rule call_string_InrD)
  from w have t3: "t3 = t2 @ [WriteFile script (Text data)]"
    unfolding writeFileAsync_def by (rule call_unit_InrD)
  from c have t4: "t4 = t3 @ [NsisBuild cwd script quiet]"
    unfolding nsisBuild_def by (rule call_unit_InrD)
  from d have t5: "t5 = t4 @ [RemovePath script]"
    unfolding removeAsync_def by (rule call_unit_InrD)
  from r5 show ?thesis
    unfolding t5 t4 t3 t2 by auto
qed

lemma getVersion_InrD: "getVersion l v tr = (Inr e, tr') \<Longrightarrow> tr' = tr"
  by (simp add: getVersion_def throw_def ret_def split: option.splits)

lemma buildNsisDiffUpdater_success:
  assumes "buildNsisDiffUpdater lib env b platform arch l fromVersion toVersion pkg cfg tr =
     (Inr l', tr')"
  shows "l' = addUpdater toVersion fromVersion arch
               (updater_path lib b cfg pkg platform arch fromVersion toVersion) l
     \<and> differ_outputs tr' =
         differ_outputs tr @ [updater_path lib b cfg pkg platform arch fromVersion toVersion]"
proof -
  let ?out = "updater_path lib b cfg pkg platform arch fromVersion toVersion"
  from assms obtain fromEntry t1 where
    g1: "getVersion l fromVersion tr = (Inr fromEntry, t1)"
    and r1: "bind_io (getVersion l toVersion) (\<lambda>toEntry.
         bind_io (call_string env
                    (NsisDifferMake
                       (path_resolve lib [dir b, config_output cfg, le_source fromEntry])
                       (path_resolve lib [dir b, config_output cfg, le_source toEntry])
                       (script_options_of lib b cfg ?out)))
           (\<lambda>data.
              compile_script env
                (path_resolve lib [dir b, config_output cfg, le_source toEntry]) data
                (truthy (mute (options b)))
                (ret (addUpdater toVersion fromVersion arch ?out l)))) t1 = (Inr l', tr')"
    unfolding buildNsisDiffUpdater_compile by (rule bind_io_InrE)
  from r1 obtain toEntry t2 where
    g2: "getVersion l toVersion t1 = (Inr toEntry, t2)"
    and r2: "bind_io (call_string env
                    (NsisDifferMake
                       (path_resolve lib [dir b, config_output cfg, le_source fromEntry])
                       (path_resolve lib [dir b, config_output cfg, le_source toEntry])
                       (script_options_of lib b cfg ?out)))
           (\<lambda>data.
              compile_script env
                (path_resolve lib [dir b, config_output cfg, le_source toEntry]) data
                (truthy (mute (options b)))
                (ret (addUpdater toVersion fromVersion arch ?out l))) t2 = (Inr l', tr')"
    by (rule bind_io_InrE)
  from r2 obtain data t3 where
    m: "call_string env
          (NsisDifferMake
             (path_resolve lib [dir b, config_output cfg, le_source fromEntry])
             (path_resolve lib [dir b, config_output cfg, le_source toEntry])
             (script_options_of lib b cfg ?out)) t2 = (Inr data, t3)"
    and r3: "compile_script env
                (path_resolve lib [dir b, config_output cfg, le_source toEntry]) data
                (truthy (mute (options b)))
                (ret (addUpdater toVersion fromVersion arch ?out l)) t3 = (Inr l', tr')"
    by (rule bind_io_InrE)
  from compile_script_success [OF r3] obtain script where
    k: "ret (addUpdater toVersion fromVersion arch ?out l)
          (t3 @ [TmpName, WriteFile script (Text data),
                 NsisBuild (path_resolve lib [dir b, config_output cfg, le_source toEntry])
                   script (truthy (mute (options b))),
                 RemovePath script]) = (Inr l', tr')"
    by blast
  from getVersion_InrD [OF g1] getVersion_InrD [OF g2] have t2: "t2 = tr" by simp
  from call_string_InrD [OF m] have t3: "t3 = tr @
      [NsisDifferMake
         (path_resolve lib [dir b, config_output cfg, le_source fromEntry])
         (path_resolve lib [dir b, config_output cfg, le_source toEntry])
         (script_options_of lib b cfg ?out)]"
    by (simp add: t2)
  from k have l': "l' = addUpdater toVersion fromVersion arch ?out l"
    and tr': "tr' = t3 @ [TmpName, WriteFile script (Text data),
                 NsisBuild (path_resolve lib [dir b, config_output cfg, le_source toEntry])
                   script (truthy (mute (options b))),
                 RemovePath script]"
    by (simp_all add: ret_def)
  have "differ_outputs tr' = differ_outputs tr @ [?out]"
    unfolding tr' t3 by (simp add: differ_outputs_simps script_options_of_def)
  with l' show ?thesis by simp
qed

lemma diff_updaters_success:
  assumes "diff_updaters lib env b platform arch pkg cfg vs l tr = (Inr l', tr')"
  shows "differ_outputs tr' =
       differ_outputs tr @
       map (\<lambda>v. updater_path lib b cfg pkg platform arch v (pkg_field pkg ''version''))
         (older lib (pkg_field pkg ''version'') vs)
     \<and> l' = foldl (\<lambda>l v. addUpdater (pkg_field pkg ''version'') v arch
                      (updater_path lib b cfg pkg platform arch v (pkg_field pkg ''version'')) l)
               l (older lib (pkg_field pkg ''version'') vs)"
  using assms
proof (induction vs arbitrary: l tr)
  case Nil
  then show ?case by (simp add: ret_def older_def)
next
  case (Cons v vs)
  let ?cur = "pkg_field pkg ''version''"
  show ?case
  proof (cases "semver_gt lib ?cur v")
    case (Inl e)
    with Cons.prems show ?thesis by (simp add: throw_def)
  next
    case (Inr g)
    show ?thesis
    proof (cases g)
      case True
      with Inr Cons.prems have
        "bind_io (buildNsisDiffUpdater lib env b platform arch l v ?cur pkg cfg)
           (\<lambda>l1. diff_updaters lib env b platform arch pkg cfg vs l1) tr = (Inr l', tr')"
        by simp
      then obtain l1 t1 where
        one: "buildNsisDiffUpdater lib env b platform arch l v ?cur pkg cfg tr = (Inr l1, t1)"
        and rest: "diff_updaters lib env b platform arch pkg cfg vs l1 t1 = (Inr l', tr')"
        by (rule bind_io_InrE)
      from buildNsisDiffUpdater_success [OF one] Cons.IH [OF rest] Inr True
      show ?thesis by (simp add: older_def)
    next
      case False
      with Inr Cons.prems have
        "diff_updaters lib env b platform arch pkg cfg vs l tr = (Inr l', tr')"
        by simp
      from Cons.IH [OF this] Inr False show ?thesis by (simp add: older_def)
    qed
  qed
qed

lemma getVersions_recorded:
  "getVersions (addInstaller v arch p (addVersion v changelog source l)) =
     (if v \<in> set (getVersions l) then getVersions l else getVersions l @ [v])"
  by (simp add: getVersions_def addInstaller_def addVersion_def comp_def)

lemma older_recorded:
  "older lib v (getVersions (addInstaller v arch p (addVersion v changelog source l))) =
     older lib v (getVersions l)"
  by (simp add: getVersions_recorded older_def semver_gt_irrefl)

lemma load_ledger_InrD:
  "load_ledger env p tr = (Inr l, tr') \<Longrightarrow> env tr (LoadLedger p) = Ledger l \<and> tr' = tr @ [LoadLedger p]"
  by (auto simp: load_ledger_def bind_io_def call_run ret_def throw_def
      split: answer.splits if_splits)

lemma grows_compile_script: "grows k \<Longrightarrow> grows (compile_script env cwd data quiet k)"
  unfolding compile_script_def tmpName_def writeFileAsync_def nsisBuild_def removeAsync_def
  by (intro grows_bind grows_prims)

lemma grows_getVersion: "grows (getVersion l v)"
  by (simp add: getVersion_def grows_prims split: option.splits)

lemma grows_buildNsisDiffUpdater:
  "grows (buildNsisDiffUpdater lib env b platform arch l fromVersion toVersion pkg cfg)"
  unfolding buildNsisDiffUpdater_compile
  by (intro grows_bind grows_getVersion grows_prims grows_compile_script)

lemma grows_diff_updaters: "grows (diff_updaters lib env b platform arch pkg cfg vs l)"
proof (induction vs arbitrary: l)
  case Nil
  then show ?case by (simp add: grows_prims)
next
  case (Cons v vs)
  show ?case
  proof (cases "semver_gt lib (pkg_field pkg ''version'') v")
    case (Inl e)
    then show ?thesis by (simp add: grows_prims)
  next
    case (Inr g)
    with Cons show ?thesis
      by (cases g) (simp_all add: grows_bind grows_buildNsisDiffUpdater)
  qed
qed

lemma grows_record_and_update:
  "grows (record_and_update lib env b platform arch sourceDir targetNsis pkg cfg l0)"
  unfolding record_and_update_def Let_def save_ledger_def
  by (intro grows_bind grows_if grows_diff_updaters grows_prims)

lemma record_and_update_success:
  assumes "record_and_update lib env b platform arch sourceDir targetNsis pkg cfg l0 t = (Inr u, tr')"
  shows "differ_outputs tr' =
       differ_outputs t @
       map (\<lambda>v. updater_path lib b cfg pkg platform arch v (pkg_field pkg ''version''))
         (if diffUpdaters (config_nsis cfg)
          then older lib (pkg_field pkg ''version'') (getVersions l0) else [])
     \<and> last tr' = SaveLedger (ledger_path lib b cfg)
         (foldl (\<lambda>l v. addUpdater (pkg_field pkg ''version'') v arch
                   (updater_path lib b cfg pkg platform arch v (pkg_field pkg ''version'')) l)
            (addInstaller (pkg_field pkg ''version'') arch targetNsis
               (addVersion (pkg_field pkg ''version'') [] sourceDir l0))
            (if diffUpdaters (config_nsis cfg)
             then older lib (pkg_field pkg ''version'') (getVersions l0) else []))"
proof -
  let ?cur = "pkg_field pkg ''version''"
  let ?l2 = "addInstaller ?cur arch targetNsis (addVersion ?cur [] sourceDir l0)"
  from assms obtain l3 t3 where
    loop: "(if diffUpdaters (config_nsis cfg)
            then diff_updaters lib env b platform arch pkg cfg (getVersions ?l2) ?l2
            else ret ?l2) t = (Inr l3, t3)"
    and save: "save_ledger env (ledger_path lib b cfg) l3 t3 = (Inr u, tr')"
    unfolding record_and_update_def Let_def by (rule bind_io_InrE)
  from save have tr': "tr' = t3 @ [SaveLedger (ledger_path lib b cfg) l3]"
    unfolding save_ledger_def by (rule call_unit_InrD)
  show ?thesis
  proof (cases "diffUpdaters (config_nsis cfg)")
    case True
    with loop have
      "diff_updaters lib env b platform arch pkg cfg (getVersions ?l2) ?l2 t = (Inr l3, t3)"
      by simp
    from diff_updaters_success [OF this] True show ?thesis
      by (simp add: tr' differ_outputs_simps older_recorded)
  next
    case False
    with loop have "l3 = ?l2" "t3 = t" by (simp_all add: ret_def)
    with False show ?thesis by (simp add: tr' differ_outputs_simps)
  qed
qed

lemma buildNsisTarget_success:
  assumes "buildNsisTarget lib env b ''win'' arch sourceDir pkg cfg tr = (Inr u, tr')"
  shows "\<exists>l0 t0 t s.
       env t0 (LoadLedger (ledger_path lib b cfg)) = Ledger l0
     \<and> t = t0 @ LoadLedger (ledger_path lib b cfg) # s
     \<and> differ_outputs t = differ_outputs tr
     \<and> record_and_update lib env b ''win'' arch sourceDir (setup_path lib sourceDir) pkg cfg l0 t
         = (Inr u, tr')"
proof -
  from assms obtain l0 t1 where
    ld: "load_ledger env (ledger_path lib b cfg) tr = (Inr l0, t1)"
    and r1: "bind_io (call_string env
                  (NsisComposerMake (script_options_of lib b cfg (setup_path lib sourceDir))))
         (\<lambda>data.
            compile_script env sourceDir data (truthy (mute (options b)))
              (record_and_update lib env b ''win'' arch sourceDir (setup_path lib sourceDir)
                 pkg cfg l0)) t1 = (Inr u, tr')"
    unfolding buildNsisTarget_compile by (rule bind_io_InrE)
  from r1 obtain data t2 where
    m: "call_string env
          (NsisComposerMake (script_options_of lib b cfg (setup_path lib sourceDir))) t1
        = (Inr data, t2)"
    and r2: "compile_script env sourceDir data (truthy (mute (options b)))
              (record_and_update lib env b ''win'' arch sourceDir (setup_path lib sourceDir)
                 pkg cfg l0) t2 = (Inr u, tr')"
    by (rule bind_io_InrE)
  from compile_script_success [OF r2] obtain script where
    k: "record_and_update lib env b ''win'' arch sourceDir (setup_path lib sourceDir) pkg cfg l0
          (t2 @ [TmpName, WriteFile script (Text data),
                 NsisBuild sourceDir script (truthy (mute (options b))), RemovePath script])
        = (Inr u, tr')"
    by blast
  from load_ledger_InrD [OF ld] have a: "env tr (LoadLedger (ledger_path lib b cfg)) = Ledger l0"
    and t1: "t1 = tr @ [LoadLedger (ledger_path lib b cfg)]"
    by simp_all
  from call_string_InrD [OF m] have t2: "t2 = t1 @
      [NsisComposerMake (script_options_of lib b cfg (setup_path lib sourceDir))]" .
  have "differ_outputs (t2 @ [TmpName, WriteFile script (Text data),
                 NsisBuild sourceDir script (truthy (mute (options b))), RemovePath script])
      = differ_outputs tr"
    unfolding t2 t1 by (simp add: differ_outputs_simps)
  moreover have "t2 @ [TmpName, WriteFile script (Text data),
                 NsisBuild sourceDir script (truthy (mute (options b))), RemovePath script]
      = tr @ LoadLedger (ledger_path lib b cfg) #
          [NsisComposerMake (script_options_of lib b cfg (setup_path lib sourceDir)),
           TmpName, WriteFile script (Text data),
           NsisBuild sourceDir script (truthy (mute (options b))), RemovePath script]"
    unfolding t2 t1 by simp
  ultimately show ?thesis using a k by blast
qed

lemma compress_differ_outputs:
  assumes "compress lib env d fs type archive tr = (Inr c, tr')"
  shows "differ_outputs tr' = differ_outputs tr"
proof -
  from assms obtain listfiles t1 where
    a: "tmpFile env tr = (Inr listfiles, t1)"
    and r1: "bind_io (writeFileAsync env listfiles
                  (Text (js_join crlf (map (path_normalize lib) fs)))) (\<lambda>_.
         bind_io (spawnAsync env (compress_args lib type archive listfiles) (Some d)) (\<lambda>code.
           ret code)) t1 = (Inr c, tr')"
    unfolding compress_def by (rule bind_io_InrE)
  from r1 obtain u2 t2 where
    w: "writeFileAsync env listfiles (Text (js_join crlf (map (path_normalize lib) fs))) t1
        = (Inr u2, t2)"
    and r2: "bind_io (spawnAsync env (compress_args lib type archive listfiles) (Some d))
               (\<lambda>code. ret code) t2 = (Inr c, tr')"
    by (rule bind_io_InrE)
  from a have t1: "t1 = tr @ [TmpFile]"
    unfolding tmpFile_def by (rule call_string_InrD)
  from w have t2: "t2 = t1 @ [WriteFile listfiles
      (Text (js_join crlf (map (path_normalize lib) fs)))]"
    unfolding writeFileAsync_def by (rule call_unit_InrD)
  from r2 have "tr' = t2 @ [Spawn7za (compress_args lib type archive listfiles) (Some d)]"
    by (auto simp: bind_io_def spawnAsync_run ret_def split: answer.splits)
  then show ?thesis
    unfolding t2 t1 by (simp add: differ_outputs_simps)
qed

lemma buildArchiveTarget_differ_outputs:
  assumes "buildArchiveTarget lib env type sourceDir tr = (Inr a, tr')"
  shows "differ_outputs tr' = differ_outputs tr"
proof -
  let ?archive = "path_resolve lib
      [path_dirname lib sourceDir, path_basename lib sourceDir @ ''.'' @ type]"
  from assms obtain u1 t1 where
    rm: "removeAsync env ?archive tr = (Inr u1, t1)"
    and r1: "bind_io (globby lib env [''**/*''] sourceDir []) (\<lambda>fs.
             bind_io (compress lib env sourceDir fs type ?archive) (\<lambda>_.
               ret ?archive)) t1 = (Inr a, tr')"
    unfolding buildArchiveTarget_def Let_def by (rule bind_io_InrE)
  from r1 obtain fs t2 where
    g: "globby lib env [''**/*''] sourceDir [] t1 = (Inr fs, t2)"
    and r2: "bind_io (compress lib env sourceDir fs type ?archive) (\<lambda>_. ret ?archive) t2
        = (Inr a, tr')"
    by (rule bind_io_InrE)
  from r2 obtain c t3 where
    z: "compress lib env sourceDir fs type ?archive t2 = (Inr c, t3)"
    and r3: "ret ?archive t3 = (Inr a, tr')"
    by (rule bind_io_InrE)
  from rm have t1: "t1 = tr @ [RemovePath ?archive]"
    unfolding removeAsync_def by (rule call_unit_InrD)
  from g have t2: "t2 = t1 @ [Globby [''**/*''] sourceDir []]"
    by (auto simp: globby_def bind_io_def call_strings_run ret_def split: answer.splits)
  from r3 have "tr' = t3" by (simp add: ret_def)
  with compress_differ_outputs [OF z] show ?thesis
    unfolding t2 t1 by (simp add: differ_outputs_simps)
qed

lemma buildNsis7zTarget_success:
  assumes "buildNsis7zTarget lib env b ''win'' arch sourceDir pkg cfg tr = (Inr u, tr')"
  shows "\<exists>l0 t0 t s.
       env t0 (LoadLedger (ledger_path lib b cfg)) = Ledger l0
     \<and> t = t0 @ LoadLedger (ledger_path lib b cfg) # s
     \<and> differ_outputs t = differ_outputs tr
     \<and> record_and_update lib env b ''win'' arch sourceDir (setup_path lib sourceDir) pkg cfg l0 t
         = (Inr u, tr')"
proof -
  from assms obtain sourceArchive t0 where
    ar: "buildArchiveTarget lib env ''7z'' sourceDir tr = (Inr sourceArchive, t0)"
    and r0: "bind_io (load_ledger env (ledger_path lib b cfg)) (\<lambda>versionInfo.
         bind_io (call_string env
                    (Nsis7ZipperMake sourceArchive
                       (script_options_of lib b cfg (setup_path lib sourceDir))))
           (\<lambda>data.
              compile_script env sourceDir data (truthy (mute (options b)))
                (record_and_update lib env b ''win'' arch sourceDir (setup_path lib sourceDir)
                   pkg cfg versionInfo))) t0 = (Inr u, tr')"
    unfolding buildNsis7zTarget_compile by (rule bind_io_InrE)
  from r0 obtain l0 t1 where
    ld: "load_ledger env (ledger_path lib b cfg) t0 = (Inr l0, t1)"
    and r1: "bind_io (call_string env
                    (Nsis7ZipperMake sourceArchive
                       (script_options_of lib b cfg (setup_path lib sourceDir))))
           (\<lambda>data.
              compile_script env sourceDir data (truthy (mute (options b)))
                (record_and_update lib env b ''win'' arch sourceDir (setup_path lib sourceDir)
                   pkg cfg l0)) t1 = (Inr u, tr')"
    by (rule bind_io_InrE)
  from r1 obtain data t2 where
    m: "call_string env
          (Nsis7ZipperMake sourceArchive
             (script_options_of lib b cfg (setup_path lib sourceDir))) t1 = (Inr data, t2)"
    and r2: "compile_script env sourceDir data (truthy (mute (options b)))
              (record_and_update lib env b ''win'' arch sourceDir (setup_path lib sourceDir)
                 pkg cfg l0) t2 = (Inr u, tr')"
    by (rule bind_io_InrE)
  from compile_script_success [OF r2] obtain script where
    k: "record_and_update lib env b ''win'' arch sourceDir (setup_path lib sourceDir) pkg cfg l0
          (t2 @ [TmpName, WriteFile script (Text data),
                 NsisBuild sourceDir script (truthy (mute (options b))), RemovePath script])
        = (Inr u, tr')"
    by blast
  from load_ledger_InrD [OF ld] have a: "env t0 (LoadLedger (ledger_path lib b cfg)) = Ledger l0"
    and t1: "t1 = t0 @ [LoadLedger (ledger_path lib b cfg)]"
    by simp_all
  from call_string_InrD [OF m] have t2: "t2 = t1 @
      [Nsis7ZipperMake sourceArchive (script_options_of lib b cfg (setup_path lib sourceDir))]" .
  have "differ_outputs (t2 @ [TmpName, WriteFile script (Text data),
                 NsisBuild sourceDir script (truthy (mute (options b))), RemovePath script])
      = differ_outputs tr"
    unfolding t2 t1
    by (simp add: differ_outputs_simps buildArchiveTarget_differ_outputs [OF ar])
  moreover have "t2 @ [TmpName, WriteFile script (Text data),
                 NsisBuild sourceDir script (truthy (mute (options b))), RemovePath script]
      = t0 @ LoadLedger (ledger_path lib b cfg) #
          [Nsis7ZipperMake sourceArchive (script_options_of lib b cfg (setup_path lib sourceDir)),
           TmpName, WriteFile script (Text data),
           NsisBuild sourceDir script (truthy (mute (options b))), RemovePath script]"
    unfolding t2 t1 by simp
  ultimately show ?thesis using a k by blast
qed

text \<open>
  C2. An installer-target build runs for the platform \<^verbatim>\<open>win\<close> only; for any other
  platform both installer builds return at once and issue no event. With differential
  updates enabled, an installer build that completes has generated one differential updater
  for each version the ledger held when it was loaded that is strictly less than the version
  under build in the order of semantic versioning, in the ledger's order, and for no other
  version: none for the version under build itself, which is never greater than itself, and
  none for a version that is equal or greater. With differential updates disabled it has
  generated none. The ledger it saves last records exactly these updaters on top of the
  version and its installer.
\<close>

theorem differential_updaters:
  "(platform \<noteq> ''win'' \<longrightarrow>
      buildNsisTarget lib env b platform arch sourceDir pkg cfg tr = (Inr (), tr)
      \<and> buildNsis7zTarget lib env b platform arch sourceDir pkg cfg tr = (Inr (), tr))
   \<and> (\<forall>u tr'.
        buildNsisTarget lib env b ''win'' arch sourceDir pkg cfg tr = (Inr u, tr')
        \<or> buildNsis7zTarget lib env b ''win'' arch sourceDir pkg cfg tr = (Inr u, tr')
        \<longrightarrow> (\<exists>l0 t0 s.
               tr' = t0 @ LoadLedger (ledger_path lib b cfg) # s
             \<and> env t0 (LoadLedger (ledger_path lib b cfg)) = Ledger l0
             \<and> differ_outputs tr' =
                 differ_outputs tr @
                 map (\<lambda>v. updater_path lib b cfg pkg ''win'' arch v (pkg_field pkg ''version''))
                   (if diffUpdaters (config_nsis cfg)
                    then older lib (pkg_field pkg ''version'') (getVersions l0) else [])
             \<and> last tr' = SaveLedger (ledger_path lib b cfg)
                 (foldl (\<lambda>l v. addUpdater (pkg_field pkg ''version'') v arch
                           (updater_path lib b cfg pkg ''win'' arch v (pkg_field pkg ''version''))
                           l)
                    (addInstaller (pkg_field pkg ''version'') arch (setup_path lib sourceDir)
                       (addVersion (pkg_field pkg ''version'') [] sourceDir l0))
                    (if diffUpdaters (config_nsis cfg)
                     then older lib (pkg_field pkg ''version'') (getVersions l0) else []))))
   \<and> (\<forall>v. v \<in> set (older lib (pkg_field pkg ''version'') vs) \<longleftrightarrow>
           v \<in> set vs \<and>
           (\<exists>x y. semver_parse lib (pkg_field pkg ''version'') = Some x
                  \<and> semver_parse lib v = Some y \<and> semver_compare x y > 0))
   \<and> pkg_field pkg ''version'' \<notin> set (older lib (pkg_field pkg ''version'') vs)"
proof (intro conjI allI impI)
  show "buildNsisTarget lib env b platform arch sourceDir pkg cfg tr = (Inr (), tr)"
    if "platform \<noteq> ''win''"
    using that by (simp add: buildNsisTarget_def ret_def)
  show "buildNsis7zTarget lib env b platform arch sourceDir pkg cfg tr = (Inr (), tr)"
    if "platform \<noteq> ''win''"
    using that by (simp add: buildNsis7zTarget_def ret_def)
  show "\<exists>l0 t0 s.
               tr' = t0 @ LoadLedger (ledger_path lib b cfg) # s
             \<and> env t0 (LoadLedger (ledger_path lib b cfg)) = Ledger l0
             \<and> differ_outputs tr' =
                 differ_outputs tr @
                 map (\<lambda>v. updater_path lib b cfg pkg ''win'' arch v (pkg_field pkg ''version''))
                   (if diffUpdaters (config_nsis cfg)
                    then older lib (pkg_field pkg ''version'') (getVersions l0) else [])
             \<and> last tr' = SaveLedger (ledger_path lib b cfg)
                 (foldl (\<lambda>l v. addUpdater (pkg_field pkg ''version'') v arch
                           (updater_path lib b cfg pkg ''win'' arch v (pkg_field pkg ''version''))
                           l)
                    (addInstaller (pkg_field pkg ''version'') arch (setup_path lib sourceDir)
                       (addVersion (pkg_field pkg ''version'') [] sourceDir l0))
                    (if diffUpdaters (config_nsis cfg)
                     then older lib (pkg_field pkg ''version'') (getVersions l0) else []))"
    if h: "buildNsisTarget lib env b ''win'' arch sourceDir pkg cfg tr = (Inr u, tr')
        \<or> buildNsis7zTarget lib env b ''win'' arch sourceDir pkg cfg tr = (Inr u, tr')"
    for u tr'
  proof -
    from h obtain l0 t0 t s where
      a: "env t0 (LoadLedger (ledger_path lib b cfg)) = Ledger l0"
      and t: "t = t0 @ LoadLedger (ledger_path lib b cfg) # s"
      and d: "differ_outputs t = differ_outputs tr"
      and r: "record_and_update lib env b ''win'' arch sourceDir (setup_path lib sourceDir)
                pkg cfg l0 t = (Inr u, tr')"
      using buildNsisTarget_success buildNsis7zTarget_success by meson
    from grows_D [OF grows_record_and_update r] obtain s' where "tr' = t @ s'" by blast
    with t have p: "tr' = t0 @ LoadLedger (ledger_path lib b cfg) # (s @ s')" by simp
    from record_and_update_success [OF r] a d p show ?thesis by (simp only:) blast
  qed
  show "v \<in> set (older lib (pkg_field pkg ''version'') vs) \<longleftrightarrow>
           v \<in> set vs \<and>
           (\<exists>x y. semver_parse lib (pkg_field pkg ''version'') = Some x
                  \<and> semver_parse lib v = Some y \<and> semver_compare x y > 0)" for v
    by (simp add: older_def semver_gt_iff)
  show "pkg_field pkg ''version'' \<notin> set (older lib (pkg_field pkg ''version'') vs)"
    by (simp add: older_def semver_gt_irrefl)
qed

lemma sample_version: "pkg_field sample_pkg ''version'' = ''1.2.0''"
  by (simp add: pkg_field_def sample_pkg_def)

lemma sample_older:
  "older sample_lib ''1.2.0'' (getVersions sample_ledger) = [''1.0.0'', ''1.1.0'']"
  by (simp add: older_def getVersions_def sample_ledger_def semver_gt_def sample_lib_simps
      sample_versions_def semver_compare_def compareMain_def compare_nat_def comparePre_def)

lemma sample_quiet: "truthy (mute (options (sample_builder no_options)))"
  by (simp add: sample_builder_def Builder_def mergeOptions_def DEFAULT_OPTIONS_def
      no_options_def or_default_def truthy_def)

lemma sample_compile_script:
  "compile_script sample_env cwd data quiet k tr =
     k (tr @ [TmpName, WriteFile ''/tmp/name'' (Text data), NsisBuild cwd ''/tmp/name'' quiet,
              RemovePath ''/tmp/name''])"
  by (simp add: compile_script_def tmpName_def writeFileAsync_def nsisBuild_def removeAsync_def
      bind_io_def call_string_run call_unit_run sample_env_def)

lemma getVersion_found:
  "v \<in> set (getVersions l) \<Longrightarrow> \<exists>e. getVersion l v tr = (Inr e, tr)"
  by (induction l) (auto simp: getVersion_def getVersions_def ret_def)

lemma getVersions_addUpdater: "getVersions (addUpdater toV fromV arch p l) = getVersions l"
  by (simp add: getVersions_def addUpdater_def comp_def)

lemma sample_diff_updater:
  assumes "v \<in> set (getVersions l)" and "''1.2.0'' \<in> set (getVersions l)"
  shows "\<exists>T. buildNsisDiffUpdater sample_lib sample_env (sample_builder no_options) ''win'' ''x64''
       l v ''1.2.0'' sample_pkg sample_config tr =
     (Inr (addUpdater ''1.2.0'' v ''x64''
        (updater_path sample_lib (sample_builder no_options) sample_config sample_pkg ''win''
           ''x64'' v ''1.2.0'') l), T)"
proof -
  from getVersion_found [OF assms(1)] obtain e1 where
    g1: "getVersion l v tr = (Inr e1, tr)" by blast
  from getVersion_found [OF assms(2)] obtain e2 where
    g2: "getVersion l ''1.2.0'' tr = (Inr e2, tr)" by blast
  show ?thesis
    unfolding buildNsisDiffUpdater_compile
    by (simp add: bind_io_def g1 g2 call_string_run sample_env_def sample_compile_script ret_def)
qed

lemma sample_diff_updaters:
  assumes "set vs \<subseteq> set (getVersions l)"
    and "''1.2.0'' \<in> set (getVersions l)"
    and "set vs \<subseteq> fst ` set sample_versions"
  shows "\<exists>l' T. diff_updaters sample_lib sample_env (sample_builder no_options) ''win'' ''x64''
       sample_pkg sample_config vs l tr = (Inr l', T)"
  using assms
proof (induction vs arbitrary: l tr)
  case Nil
  then show ?case by (simp add: ret_def)
next
  case (Cons v vs)
  from Cons.prems(3) have "map_of sample_versions v \<noteq> None"
    by (simp add: map_of_eq_None_iff)
  then obtain y where y: "semver_parse sample_lib v = Some y"
    by (auto simp: sample_lib_simps)
  obtain x where x: "semver_parse sample_lib ''1.2.0'' = Some x"
    by (simp add: sample_lib_simps sample_versions_def)
  from x y obtain g where g: "semver_gt sample_lib ''1.2.0'' v = Inr g"
    by (simp add: semver_gt_def)
  show ?case
  proof (cases g)
    case True
    from Cons.prems have "v \<in> set (getVersions l)" by simp
    from sample_diff_updater [OF this Cons.prems(2), of tr] obtain T1 where
      one: "buildNsisDiffUpdater sample_lib sample_env (sample_builder no_options) ''win'' ''x64''
         l v ''1.2.0'' sample_pkg sample_config tr =
       (Inr (addUpdater ''1.2.0'' v ''x64''
          (updater_path sample_lib (sample_builder no_options) sample_config sample_pkg ''win''
             ''x64'' v ''1.2.0'') l), T1)"
      by blast
    have "\<exists>l' T. diff_updaters sample_lib sample_env (sample_builder no_options) ''win'' ''x64''
       sample_pkg sample_config vs
       (addUpdater ''1.2.0'' v ''x64''
          (updater_path sample_lib (sample_builder no_options) sample_config sample_pkg ''win''
             ''x64'' v ''1.2.0'') l) T1 = (Inr l', T)"
      using Cons.prems by (intro Cons.IH) (simp_all add: getVersions_addUpdater)
    with one g True show ?thesis
      by (simp add: sample_version bind_io_def)
  next
    case False
    have "\<exists>l' T. diff_updaters sample_lib sample_env (sample_builder no_options) ''win'' ''x64''
       sample_pkg sample_config vs l tr = (Inr l', T)"
      using Cons.prems by (intro Cons.IH) simp_all
    with g False show ?thesis
      by (simp add: sample_version)
  qed
qed

lemma sample_installer_run:
  "\<exists>T. buildNsisTarget sample_lib sample_env (sample_builder no_options) ''win'' ''x64''
     ''/proj/dist/app-1.2.0-win-x64'' sample_pkg sample_config [] = (Inr (), T)"
proof -
  let ?b = "sample_builder no_options"
  let ?src = "''/proj/dist/app-1.2.0-win-x64''"
  let ?p = "ledger_path sample_lib ?b sample_config"
  let ?make = "NsisComposerMake (script_options_of sample_lib ?b sample_config
      (setup_path sample_lib ?src))"
  let ?t = "[LoadLedger ?p, ?make, TmpName, WriteFile ''/tmp/name'' (Text ''!script''),
      NsisBuild ?src ''/tmp/name'' (truthy (mute (options ?b))), RemovePath ''/tmp/name'']"
  let ?l2 = "addInstaller ''1.2.0'' ''x64'' (setup_path sample_lib ?src)
      (addVersion ''1.2.0'' [] ?src sample_ledger)"
  have vs: "getVersions ?l2 = [''1.0.0'', ''1.1.0'', ''1.3.0'', ''1.2.0'']"
    by (simp add: getVersions_recorded) (simp add: getVersions_def sample_ledger_def)
  have sub: "set (getVersions ?l2) \<subseteq> fst ` set sample_versions"
    unfolding vs by (simp add: sample_versions_def)
  have cur: "''1.2.0'' \<in> set (getVersions ?l2)"
    unfolding vs by simp
  from sample_diff_updaters [OF subset_refl cur sub, of ?t] obtain l3 T where
    loop: "diff_updaters sample_lib sample_env ?b ''win'' ''x64'' sample_pkg sample_config
       (getVersions ?l2) ?l2 ?t = (Inr l3, T)"
    by blast
  have d: "diffUpdaters (config_nsis sample_config)"
    by (simp add: sample_config_def)
  have rec: "record_and_update sample_lib sample_env ?b ''win'' ''x64'' ?src
       (setup_path sample_lib ?src) sample_pkg sample_config sample_ledger ?t =
     (Inr (), T @ [SaveLedger ?p l3])"
    unfolding record_and_update_def Let_def sample_version
    by (simp add: d bind_io_def loop save_ledger_def call_unit_run sample_env_def)
  have ld: "load_ledger sample_env ?p [] = (Inr sample_ledger, [LoadLedger ?p])"
    by (simp add: load_ledger_def bind_io_def call_run sample_env_def ret_def)
  have mk: "call_string sample_env ?make [LoadLedger ?p] = (Inr ''!script'', [LoadLedger ?p, ?make])"
    by (simp add: call_string_run sample_env_def)
  have "buildNsisTarget sample_lib sample_env ?b ''win'' ''x64'' ?src sample_pkg sample_config []
      = (Inr (), T @ [SaveLedger ?p l3])"
    unfolding buildNsisTarget_compile
    by (simp add: bind_io_def ld mk sample_compile_script rec)
  then show ?thesis by blast
qed

theorem differential_updaters_witness:
  "fst (buildNsisTarget sample_lib sample_env (sample_builder no_options) ''win'' ''x64''
          ''/proj/dist/app-1.2.0-win-x64'' sample_pkg sample_config []) = Inr ()
   \<and> diffUpdaters (config_nsis sample_config)
   \<and> sample_env [] (LoadLedger ''/proj/dist/versions.nsis.json'') = Ledger sample_ledger
   \<and> getVersions sample_ledger = [''1.0.0'', ''1.1.0'', ''1.3.0'']
   \<and> differ_outputs (snd (buildNsisTarget sample_lib sample_env (sample_builder no_options)
          ''win'' ''x64'' ''/proj/dist/app-1.2.0-win-x64'' sample_pkg sample_config [])) =
       [''/proj/dist/app-1.2.0-from-1.0.0-win-x64-Update.exe'',
        ''/proj/dist/app-1.2.0-from-1.1.0-win-x64-Update.exe'']
   \<and> buildNsisTarget sample_lib sample_env (sample_builder no_options) ''linux'' ''x64''
          ''/proj/dist/app-1.2.0-linux-x64'' sample_pkg sample_config [] = (Inr (), [])"
proof -
  let ?b = "sample_builder no_options"
  from sample_installer_run obtain T where
    run: "buildNsisTarget sample_lib sample_env ?b ''win'' ''x64''
       ''/proj/dist/app-1.2.0-win-x64'' sample_pkg sample_config [] = (Inr (), T)"
    by blast
  have d: "diffUpdaters (config_nsis sample_config)"
    by (simp add: sample_config_def)
  have ans: "sample_env t (LoadLedger p) = Ledger sample_ledger" for t p
    by (simp add: sample_env_def)
  have vs: "getVersions sample_ledger = [''1.0.0'', ''1.1.0'', ''1.3.0'']"
    by (simp add: getVersions_def sample_ledger_def)
  note du = differential_updaters [of "''linux''" sample_lib sample_env ?b "''x64''"
      "''/proj/dist/app-1.2.0-win-x64''" sample_pkg sample_config "[]" "[]"]
  from du run obtain l0 t0 where
    l0: "sample_env t0 (LoadLedger (ledger_path sample_lib ?b sample_config)) = Ledger l0"
    and out: "differ_outputs T =
       differ_outputs [] @
       map (\<lambda>v. updater_path sample_lib ?b sample_config sample_pkg ''win'' ''x64'' v
                  (pkg_field sample_pkg ''version''))
         (if diffUpdaters (config_nsis sample_config)
          then older sample_lib (pkg_field sample_pkg ''version'') (getVersions l0) else [])"
    by blast
  from l0 have "l0 = sample_ledger" by (simp add: ans)
  with out d have "differ_outputs T =
      map (\<lambda>v. updater_path sample_lib ?b sample_config sample_pkg ''win'' ''x64'' v ''1.2.0'')
        [''1.0.0'', ''1.1.0'']"
    by (simp add: sample_version sample_older differ_outputs_Nil)
  then have o: "differ_outputs T =
       [''/proj/dist/app-1.2.0-from-1.0.0-win-x64-Update.exe'',
        ''/proj/dist/app-1.2.0-from-1.1.0-win-x64-Update.exe'']"
    by (simp add: updater_path_def sample_lib_simps sample_builder_def Builder_def
        sample_config_def pkg_field_def sample_pkg_def)
  from du have lin: "buildNsisTarget sample_lib sample_env ?b ''linux'' ''x64''
          ''/proj/dist/app-1.2.0-win-x64'' sample_pkg sample_config [] = (Inr (), [])"
    by simp
  have lin': "buildNsisTarget sample_lib sample_env ?b ''linux'' ''x64''
          ''/proj/dist/app-1.2.0-linux-x64'' sample_pkg sample_config [] = (Inr (), [])"
    by (simp add: buildNsisTarget_def ret_def)
  from run d ans [of "[]" "''/proj/dist/versions.nsis.json''"] vs o lin' show ?thesis by simp
qed

end
